theory Spec2Isabelle
  imports Main
begin

section \<open>Python values, errors and results\<close>

text \<open>
  The handler keeps its two tokens as plain Python values: \<open>None\<close>, or whatever
  \<open>json.load\<close> returned for the field of the cache file, or the dict that
  \<open>_get_session\<close> builds from a token-service answer. \<open>pyval\<close> is the type of the
  values JSON can carry (numbers are the integers here). A dict is the list of its items,
  read with \<open>map_of\<close>.
\<close>

datatype pyval =
    PNone
  | PBool bool
  | PInt int
  | PStr string
  | PList "pyval list"
  | PDict "(string \<times> pyval) list"

datatype error =
    ProfileNotFound
  | KeyError
  | TypeError
  | AttributeError
  | ValueError
  | JSONDecodeError
  | OSError
  | EOFError
  | ClientError
  | Exception string

datatype 'a result = Raise error | Return 'a

text \<open>Python truthiness: \<open>if x:\<close>.\<close>

fun truthy :: "pyval \<Rightarrow> bool" where
  "truthy PNone = False"
| "truthy (PBool b) = b"
| "truthy (PInt n) = (n \<noteq> 0)"
| "truthy (PStr s) = (s \<noteq> [])"
| "truthy (PList xs) = (xs \<noteq> [])"
| "truthy (PDict kvs) = (kvs \<noteq> [])"

text \<open>A selector (\<open>profile\<close>, \<open>region\<close>, \<open>cache_file\<close>) is a \<open>str\<close> or \<open>None\<close>.\<close>

fun truthy_str :: "string option \<Rightarrow> bool" where
  "truthy_str None = False"
| "truthy_str (Some s) = (s \<noteq> [])"

fun to_py :: "string option \<Rightarrow> pyval" where
  "to_py None = PNone"
| "to_py (Some s) = PStr s"

text \<open>\<open>obj[key]\<close> with a \<open>str\<close> key: only a dict accepts it.\<close>

fun getitem :: "pyval \<Rightarrow> string \<Rightarrow> error + pyval" where
  "getitem (PDict kvs) k = (case map_of kvs k of None \<Rightarrow> Inl KeyError | Some v \<Rightarrow> Inr v)"
| "getitem v k = Inl TypeError"

text \<open>\<open>key in obj\<close> with a \<open>str\<close> key: a key of a dict, an element of a list, a
  substring of a \<open>str\<close>; any other value is not iterable.\<close>

fun is_infix :: "string \<Rightarrow> string \<Rightarrow> bool" where
  "is_infix k [] = (k = [])"
| "is_infix k (c # cs) = (if take (length k) (c # cs) = k then True else is_infix k cs)"

fun contains :: "pyval \<Rightarrow> string \<Rightarrow> error + bool" where
  "contains (PDict kvs) k = Inr (case map_of kvs k of None \<Rightarrow> False | Some v \<Rightarrow> True)"
| "contains (PList xs) k = Inr (List.member xs (PStr k))"
| "contains (PStr s) k = Inr (is_infix k s)"
| "contains v k = Inl TypeError"

section \<open>External collaborators\<close>

text \<open>The answer of the token service (\<open>['Credentials']\<close>); \<open>expiration\<close> is the
  \<open>isoformat()\<close> of its \<open>Expiration\<close>.\<close>

record credentials =
  access_key_id :: string
  secret_access_key :: string
  session_token :: string
  expiration :: string

text \<open>\<open>sts.get_session_token\<close> on a client of
  \<open>boto3.Session(profile_name, region_name)\<close>.\<close>

record session_token_request =
  gst_profile_name :: string
  gst_region_name :: "string option"
  gst_duration_seconds :: int
  gst_serial_number :: string
  gst_token_code :: string

text \<open>\<open>sts.assume_role\<close> on a client of the session built from the long token's fields.\<close>

record assume_role_request =
  ar_access_key_id :: pyval
  ar_secret_access_key :: pyval
  ar_session_token :: pyval
  ar_role_arn :: string
  ar_role_session_name :: string
  ar_duration_seconds :: int

text \<open>
  What a call reads from outside the handler and does not change: the configuration
  store (\<open>get_scoped_config\<close> for a profile variable), the clock
  (\<open>datetime.now(tz=utc)\<close>, in microseconds), \<open>datetime.strptime\<close> with the format
  \<open>%Y-%m-%dT%H:%M:%S%z\<close> (\<open>None\<close>: ValueError), whether an STS client can be made
  for a source profile and region, the line typed at the MFA prompt, and the token
  service.
\<close>

record world =
  scoped_config :: "string option \<Rightarrow> error + (string \<rightharpoonup> string)"
  clock :: int
  strptime :: "string \<Rightarrow> int option"
  sts_client :: "string \<Rightarrow> string option \<Rightarrow> error option"
  mfa_input :: "error + string"
  sts_get_session_token :: "session_token_request \<Rightarrow> error + credentials"
  sts_assume_role :: "assume_role_request \<Rightarrow> error + credentials"

section \<open>The file system\<close>

text \<open>The text of a file either decodes as a JSON document or does not.\<close>

datatype file_content = Garbage | Doc pyval

record file_node =
  readable :: bool
  writable :: bool
  content :: file_content

record filesystem =
  dir_exists :: "string \<Rightarrow> bool"
  dir_writable :: "string \<Rightarrow> bool"
  mkdir_allowed :: "string \<Rightarrow> bool"
  files :: "string \<rightharpoonup> file_node"

text \<open>\<open>os.path.dirname\<close> (posixpath): the text up to the last slash, without its
  trailing slashes unless it has nothing else.\<close>

definition dirname :: "string \<Rightarrow> string" where
  "dirname p =
     (let head = rev (dropWhile (\<lambda>c. c \<noteq> CHR ''/'') (rev p))
      in if head = replicate (length head) (CHR ''/'') then head
         else rev (dropWhile (\<lambda>c. c = CHR ''/'') (rev head)))"

text \<open>\<open>os.path.join(d, name)\<close> for a relative \<open>name\<close>.\<close>

definition path_join :: "string \<Rightarrow> string \<Rightarrow> string" where
  "path_join d name =
     (if d = [] then name
      else if last d = CHR ''/'' then d @ name
      else d @ ''/'' @ name)"

definition path_exists :: "filesystem \<Rightarrow> string \<Rightarrow> bool" where
  "path_exists fs p = (case files fs p of Some f \<Rightarrow> True | None \<Rightarrow> dir_exists fs p)"

text \<open>\<open>os.access(p, os.W_OK)\<close>.\<close>

definition access_w :: "filesystem \<Rightarrow> string \<Rightarrow> bool" where
  "access_w fs p =
     (case files fs p of Some f \<Rightarrow> writable f
      | None \<Rightarrow> (if dir_exists fs p then dir_writable fs p else False))"

text \<open>\<open>os.makedirs(d, exist_ok=True)\<close>.\<close>

definition makedirs :: "filesystem \<Rightarrow> string \<Rightarrow> error + filesystem" where
  "makedirs fs d =
     (case files fs d of Some f \<Rightarrow> Inl OSError
      | None \<Rightarrow>
          if dir_exists fs d then Inr fs
          else if mkdir_allowed fs d
          then Inr (fs\<lparr>dir_exists := (dir_exists fs)(d := True),
                       dir_writable := (dir_writable fs)(d := True)\<rparr>)
          else Inl OSError)"

text \<open>\<open>open(p, 'r')\<close> followed by \<open>json.load\<close>.\<close>

definition read_json :: "filesystem \<Rightarrow> string \<Rightarrow> error + pyval" where
  "read_json fs p =
     (case files fs p of None \<Rightarrow> Inl OSError
      | Some f \<Rightarrow>
          if readable f
          then (case content f of Garbage \<Rightarrow> Inl JSONDecodeError | Doc v \<Rightarrow> Inr v)
          else Inl OSError)"

text \<open>\<open>open(p, 'w')\<close> followed by \<open>json.dump(v, f)\<close>: an existing file must be
  writable, a new one needs its directory.\<close>

definition parent_dir :: "string \<Rightarrow> string" where
  "parent_dir p = (if dirname p = [] then ''.'' else dirname p)"

definition write_json :: "filesystem \<Rightarrow> string \<Rightarrow> pyval \<Rightarrow> error + filesystem" where
  "write_json fs p v =
     (case files fs p of
        Some f \<Rightarrow>
          if writable f then Inr (fs\<lparr>files := (files fs)(p \<mapsto> f\<lparr>content := Doc v\<rparr>)\<rparr>)
          else Inl OSError
      | None \<Rightarrow>
          if dir_exists fs p then Inl OSError
          else if dir_exists fs (parent_dir p) \<and> dir_writable fs (parent_dir p)
          then Inr (fs\<lparr>files := (files fs)(p \<mapsto>
                        \<lparr>readable = True, writable = True, content = Doc v\<rparr>)\<rparr>)
          else Inl OSError)"

section \<open>The handler\<close>

datatype boto_session =
    CredentialSession "string option" pyval pyval pyval
  | DefaultChainSession "string option"

datatype event =
    MfaPrompt
  | GetSessionToken session_token_request
  | AssumeRole assume_role_request
  | CacheWrite string pyval

text \<open>
  The fields of \<open>AwsSessionHandler\<close> (\<open>lookup_session\<close> is the profile variable of
  the botocore session of the last lookup; \<open>cache_file\<close> is \<open>None\<close> while the
  attribute was never assigned), together with the file system the handler works on
  and the trace of what it did to the outside: MFA prompts, token-service calls, cache
  writes.
\<close>

record state =
  profile :: "string option"
  region :: "string option"
  config :: "string \<rightharpoonup> string"
  lookup_session :: "string option"
  session :: "boto_session option"
  disk_cache_disable :: bool
  long_session_token :: pyval
  long_session_duration :: int
  short_session_token :: pyval
  short_session_duration :: int
  cache_file :: "string option"
  fsys :: filesystem
  trace :: "event list"

text \<open>Sequencing of statements that may raise: the state reached so far is kept.\<close>

definition bind :: "'a result \<times> state \<Rightarrow> ('a \<Rightarrow> state \<Rightarrow> 'b result \<times> state) \<Rightarrow> 'b result \<times> state" where
  "bind m f = (case m of (Raise e, s) \<Rightarrow> (Raise e, s) | (Return a, s) \<Rightarrow> f a s)"

subsection \<open>set (lines 73 to 82)\<close>

definition set_selectors :: "string option \<Rightarrow> string option \<Rightarrow> state \<Rightarrow> state" where
  "set_selectors p r s =
     (let s1 = (if truthy_str p then s\<lparr>profile := p\<rparr> else s)
      in if truthy_str r then s1\<lparr>region := r\<rparr> else s1)"

subsection \<open>_config_lookup (lines 116 to 123)\<close>

definition config_lookup :: "world \<Rightarrow> state \<Rightarrow> unit result \<times> state" where
  "config_lookup w s =
     (let s1 = s\<lparr>lookup_session := profile s\<rparr>
      in case scoped_config w (profile s1) of
           Inl e \<Rightarrow> (Raise e, s1)
         | Inr cfg \<Rightarrow>
             (let s2 = s1\<lparr>config := cfg\<rparr>
              in case cfg ''region'' of
                   Some r \<Rightarrow>
                     if truthy_str (region s2) then (Return (), s2)
                     else (Return (), s2\<lparr>region := Some r\<rparr>)
                 | None \<Rightarrow> (Return (), s2)))"

subsection \<open>__init__ (lines 10 to 71)\<close>

definition cache_filename :: string where
  "cache_filename = ''AwsSessionHandler.json''"

text \<open>Lines 42 to 60: the path of the cache file. \<open>default_cache_dir\<close> is
  \<open>os.path.expanduser(os.path.join('~', '.aws', 'app', 'cache'))\<close>.\<close>

definition explicit_cache_file :: "string \<Rightarrow> state \<Rightarrow> unit result \<times> state" where
  "explicit_cache_file p s =
     (let d = dirname p
      in if path_exists (fsys s) d then
           if access_w (fsys s) d then
             if path_exists (fsys s) p then
               if access_w (fsys s) p then (Return (), s\<lparr>cache_file := Some p\<rparr>)
               else (Raise (Exception (''CacheFile is not writable '' @ p)), s)
             else (Return (), s\<lparr>cache_file := Some p\<rparr>)
           else (Raise (Exception (''Directory not readable '' @ d)), s)
         else (Raise (Exception (''Directory dos not exists: '' @ d)), s))"

definition default_cache_file :: "string \<Rightarrow> state \<Rightarrow> unit result \<times> state" where
  "default_cache_file default_cache_dir s =
     (case makedirs (fsys s) default_cache_dir of
        Inl e \<Rightarrow> (Raise e, s)
      | Inr fs \<Rightarrow>
          (Return (), s\<lparr>fsys := fs,
             cache_file := Some (path_join default_cache_dir cache_filename)\<rparr>))"

definition resolve_cache_file :: "string \<Rightarrow> string option \<Rightarrow> state \<Rightarrow> unit result \<times> state" where
  "resolve_cache_file default_cache_dir cf s =
     (case cf of
        Some p \<Rightarrow>
          if p \<noteq> [] then explicit_cache_file p s
          else default_cache_file default_cache_dir s
      | None \<Rightarrow> default_cache_file default_cache_dir s)"

text \<open>Lines 62 to 71: preload the tokens of the cache file.\<close>

definition preload_cache :: "state \<Rightarrow> unit result \<times> state" where
  "preload_cache s =
     (case cache_file s of
        None \<Rightarrow> (Raise AttributeError, s)
      | Some p \<Rightarrow>
         if path_exists (fsys s) p \<and> access_w (fsys s) p then
           (case read_json (fsys s) p of
              Inl e \<Rightarrow> (Raise e, s)
            | Inr cache_tokens \<Rightarrow>
                (case contains cache_tokens ''long_session_token'' of
                   Inl e \<Rightarrow> (Raise e, s)
                 | Inr has_long \<Rightarrow>
                     bind
                       (if has_long then
                          (case getitem cache_tokens ''long_session_token'' of
                             Inl e \<Rightarrow> (Raise e, s)
                           | Inr v \<Rightarrow> (Return (), s\<lparr>long_session_token := v\<rparr>))
                        else (Return (), s))
                       (\<lambda>_ s1.
                          case contains cache_tokens ''short_session_token'' of
                            Inl e \<Rightarrow> (Raise e, s1)
                          | Inr has_short \<Rightarrow>
                              if has_short then
                                (case getitem cache_tokens ''short_session_token'' of
                                   Inl e \<Rightarrow> (Raise e, s1)
                                 | Inr v \<Rightarrow> (Return (), s1\<lparr>short_session_token := v\<rparr>))
                              else (Return (), s1))))
         else (Return (), s))"

text \<open>\<open>d if d else default\<close> for a session duration.\<close>

definition duration_or :: "int option \<Rightarrow> int \<Rightarrow> int" where
  "duration_or d dflt = (case d of Some n \<Rightarrow> (if n \<noteq> 0 then n else dflt) | None \<Rightarrow> dflt)"

definition init ::
  "world \<Rightarrow> filesystem \<Rightarrow> string \<Rightarrow> string option \<Rightarrow> string option \<Rightarrow> string option \<Rightarrow> bool
     \<Rightarrow> int option \<Rightarrow> int option \<Rightarrow> unit result \<times> state" where
  "init w fs default_cache_dir prof reg cf disable_file_cache long_dur short_dur =
     bind
       (config_lookup w
          \<lparr>profile = prof, region = reg, config = Map.empty, lookup_session = None,
           session = None, disk_cache_disable = disable_file_cache,
           long_session_token = PNone,
           long_session_duration = duration_or long_dur 43200,
           short_session_token = PNone,
           short_session_duration = duration_or short_dur 900,
           cache_file = None, fsys = fs, trace = []\<rparr>)
       (\<lambda>_ s.
          if disk_cache_disable s then (Return (), s)
          else bind (resolve_cache_file default_cache_dir cf s) (\<lambda>_ s1. preload_cache s1))"

subsection \<open>_write_cache_file (lines 214 to 220)\<close>

definition write_cache_file :: "state \<Rightarrow> unit result \<times> state" where
  "write_cache_file s =
     (if disk_cache_disable s then (Return (), s)
      else
        (let cache_tokens = PDict [(''long_session_token'', long_session_token s),
                                   (''short_session_token'', short_session_token s)]
         in case cache_file s of
              None \<Rightarrow> (Raise AttributeError, s)
            | Some p \<Rightarrow>
                (case write_json (fsys s) p cache_tokens of
                   Inl e \<Rightarrow> (Raise e, s)
                 | Inr fs \<Rightarrow>
                     (Return (), s\<lparr>fsys := fs, trace := trace s @ [CacheWrite p cache_tokens]\<rparr>))))"

subsection \<open>_get_session (lines 125 to 212)\<close>

text \<open>Line 130: \<open>all(key in self._config for key in (...))\<close>.\<close>

definition role_required :: "(string \<rightharpoonup> string) \<Rightarrow> bool" where
  "role_required cfg =
     list_all (\<lambda>key. case cfg key of Some v \<Rightarrow> True | None \<Rightarrow> False)
       [''role_arn'', ''mfa_serial'', ''source_profile'']"

definition config_get :: "(string \<rightharpoonup> string) \<Rightarrow> string \<Rightarrow> error + string" where
  "config_get cfg k = (case cfg k of None \<Rightarrow> Inl KeyError | Some v \<Rightarrow> Inr v)"

text \<open>Lines 137 and 150:
  \<open>datetime.strptime(''.join(tok['expire'].rsplit(':', 1)), '%Y-%m-%dT%H:%M:%S%z')\<close>.
  The \<open>rsplit\<close> and \<open>join\<close> drop the last colon of the text.\<close>

definition parse_expire :: "world \<Rightarrow> pyval \<Rightarrow> error + int" where
  "parse_expire w tok =
     (case getitem tok ''expire'' of
        Inl e \<Rightarrow> Inl e
      | Inr v \<Rightarrow>
          (case v of
             PStr x \<Rightarrow>
               (case strptime w (rev (remove1 (CHR '':'') (rev x))) of
                  None \<Rightarrow> Inl ValueError
                | Some t \<Rightarrow> Inr t)
           | _ \<Rightarrow> Inl AttributeError))"

text \<open>Lines 136 to 147; the result is \<open>token_changed\<close>.\<close>

definition validate_long :: "world \<Rightarrow> int \<Rightarrow> state \<Rightarrow> bool result \<times> state" where
  "validate_long w now s =
     (if truthy (long_session_token s) then
        (case parse_expire w (long_session_token s) of
           Inl e \<Rightarrow> (Raise e, s)
         | Inr long_expire \<Rightarrow>
             if long_expire \<le> now
             then (Return True, s\<lparr>long_session_token := PNone, short_session_token := PNone\<rparr>)
             else
               (case getitem (long_session_token s) ''source_profile'' of
                  Inl e \<Rightarrow> (Raise e, s)
                | Inr sp \<Rightarrow>
                    (case config_get (config s) ''source_profile'' of
                       Inl e \<Rightarrow> (Raise e, s)
                     | Inr csp \<Rightarrow>
                         if sp \<noteq> PStr csp
                         then (Return False,
                               s\<lparr>long_session_token := PNone, short_session_token := PNone\<rparr>)
                         else (Return False, s))))
      else (Return False, s))"

text \<open>Lines 149 to 156.\<close>

definition validate_short :: "world \<Rightarrow> int \<Rightarrow> state \<Rightarrow> unit result \<times> state" where
  "validate_short w now s =
     (if truthy (short_session_token s) then
        (case parse_expire w (short_session_token s) of
           Inl e \<Rightarrow> (Raise e, s)
         | Inr short_expire \<Rightarrow>
             if short_expire \<le> now
             then (Return (), s\<lparr>short_session_token := PNone\<rparr>)
             else
               (case getitem (short_session_token s) ''profile'' of
                  Inl e \<Rightarrow> (Raise e, s)
                | Inr p \<Rightarrow>
                    if p \<noteq> to_py (profile s)
                    then (Return (), s\<lparr>short_session_token := PNone\<rparr>)
                    else (Return (), s)))
      else (Return (), s))"

text \<open>Lines 158 to 174.\<close>

definition refresh_long :: "world \<Rightarrow> state \<Rightarrow> unit result \<times> state" where
  "refresh_long w s =
     (if truthy (long_session_token s) then (Return (), s)
      else
        (case config_get (config s) ''source_profile'' of
           Inl e \<Rightarrow> (Raise e, s)
         | Inr sp \<Rightarrow>
             (case sts_client w sp (region s) of
                Some e \<Rightarrow> (Raise e, s)
              | None \<Rightarrow>
                  (let s1 = s\<lparr>trace := trace s @ [MfaPrompt]\<rparr>
                   in case mfa_input w of
                        Inl e \<Rightarrow> (Raise e, s1)
                      | Inr token \<Rightarrow>
                          (case config_get (config s1) ''mfa_serial'' of
                             Inl e \<Rightarrow> (Raise e, s1)
                           | Inr serial \<Rightarrow>
                               (let req = \<lparr>gst_profile_name = sp,
                                           gst_region_name = region s1,
                                           gst_duration_seconds = long_session_duration s1,
                                           gst_serial_number = serial,
                                           gst_token_code = token\<rparr>;
                                    s2 = s1\<lparr>trace := trace s1 @ [GetSessionToken req]\<rparr>
                                in case sts_get_session_token w req of
                                     Inl e \<Rightarrow> (Raise e, s2)
                                   | Inr cred \<Rightarrow>
                                       (Return (), s2\<lparr>long_session_token := PDict
                                          [(''aws_access_key_id'', PStr (access_key_id cred)),
                                           (''aws_secret_access_key'', PStr (secret_access_key cred)),
                                           (''aws_session_token'', PStr (session_token cred)),
                                           (''expire'', PStr (expiration cred)),
                                           (''source_profile'', PStr sp),
                                           (''region'', to_py (region s2))]\<rparr>)))))))"

text \<open>Lines 176 to 196; the argument and the result are \<open>token_changed\<close>.\<close>

definition refresh_short :: "world \<Rightarrow> bool \<Rightarrow> state \<Rightarrow> bool result \<times> state" where
  "refresh_short w token_changed s =
     (if truthy (short_session_token s) then (Return token_changed, s)
      else
        (case getitem (long_session_token s) ''aws_access_key_id'' of
           Inl e \<Rightarrow> (Raise e, s)
         | Inr key \<Rightarrow>
        (case getitem (long_session_token s) ''aws_secret_access_key'' of
           Inl e \<Rightarrow> (Raise e, s)
         | Inr secret \<Rightarrow>
        (case getitem (long_session_token s) ''aws_session_token'' of
           Inl e \<Rightarrow> (Raise e, s)
         | Inr tok \<Rightarrow>
        (case config_get (config s) ''role_arn'' of
           Inl e \<Rightarrow> (Raise e, s)
         | Inr arn \<Rightarrow>
             (let req = \<lparr>ar_access_key_id = key, ar_secret_access_key = secret,
                         ar_session_token = tok, ar_role_arn = arn,
                         ar_role_session_name = ''SessionHandlerAssumeRole'',
                         ar_duration_seconds = short_session_duration s\<rparr>;
                  s1 = s\<lparr>trace := trace s @ [AssumeRole req]\<rparr>
              in case sts_assume_role w req of
                   Inl e \<Rightarrow> (Raise e, s1)
                 | Inr resp \<Rightarrow>
                     (Return True, s1\<lparr>short_session_token := PDict
                        [(''aws_access_key_id'', PStr (access_key_id resp)),
                         (''aws_secret_access_key'', PStr (secret_access_key resp)),
                         (''aws_session_token'', PStr (session_token resp)),
                         (''expire'', PStr (expiration resp)),
                         (''profile'', to_py (profile s1)),
                         (''region'', to_py (region s1))]\<rparr>)))))))"

text \<open>Lines 198 to 204.\<close>

definition build_session :: "state \<Rightarrow> unit result \<times> state" where
  "build_session s =
     (case getitem (short_session_token s) ''aws_access_key_id'' of
        Inl e \<Rightarrow> (Raise e, s)
      | Inr key \<Rightarrow>
     (case getitem (short_session_token s) ''aws_secret_access_key'' of
        Inl e \<Rightarrow> (Raise e, s)
      | Inr secret \<Rightarrow>
     (case getitem (short_session_token s) ''aws_session_token'' of
        Inl e \<Rightarrow> (Raise e, s)
      | Inr tok \<Rightarrow>
          (Return (), s\<lparr>session := Some (CredentialSession (region s) key secret tok)\<rparr>))))"

text \<open>Lines 131 to 208: the branch that assumes a role. The safety margin of line 133
  is ten seconds, in microseconds.\<close>

definition assume_role_path :: "world \<Rightarrow> state \<Rightarrow> unit result \<times> state" where
  "assume_role_path w s =
     (let now = clock w + 10000000
      in bind (validate_long w now s) (\<lambda>token_changed s1.
         bind (validate_short w now s1) (\<lambda>_ s2.
         bind (refresh_long w s2) (\<lambda>_ s3.
         bind (refresh_short w token_changed s3) (\<lambda>token_changed s4.
         bind (build_session s4) (\<lambda>_ s5.
           if token_changed then write_cache_file s5 else (Return (), s5)))))))"

definition get_session_impl :: "world \<Rightarrow> state \<Rightarrow> unit result \<times> state" where
  "get_session_impl w s =
     bind (config_lookup w s) (\<lambda>_ s1.
       if role_required (config s1) then assume_role_path w s1
       else (Return (), s1\<lparr>session := Some (DefaultChainSession (lookup_session s1))\<rparr>))"

subsection \<open>get_session, client and resource (lines 84 to 114)\<close>

definition get_session :: "world \<Rightarrow> state \<Rightarrow> boto_session option result \<times> state" where
  "get_session w s = bind (get_session_impl w s) (\<lambda>_ s1. (Return (session s1), s1))"

text \<open>\<open>client\<close> and \<open>resource\<close> hand the session to the SDK factory; the result here
  is the session the factory is called on.\<close>

definition client :: "world \<Rightarrow> state \<Rightarrow> boto_session option result \<times> state" where
  "client w s =
     (if \<not> truthy_str (profile s) \<and> \<not> truthy_str (region s)
      then (Raise (Exception ''ERROR: missing region and profile (use self.set(profile_name=None, region=None)''), s)
      else bind (get_session_impl w s) (\<lambda>_ s1. (Return (session s1), s1)))"

definition resource :: "world \<Rightarrow> state \<Rightarrow> boto_session option result \<times> state" where
  "resource w s =
     (if \<not> truthy_str (profile s) \<and> \<not> truthy_str (region s)
      then (Raise (Exception ''ERROR: missing region and profile (use self.set(profile_name=None, region=None)''), s)
      else bind (get_session_impl w s) (\<lambda>_ s1. (Return (session s1), s1)))"

section \<open>What a call did\<close>

text \<open>The events a call added to the trace, and how many of each kind.\<close>

definition new_events :: "state \<Rightarrow> state \<Rightarrow> event list" where
  "new_events s s' = drop (length (trace s)) (trace s')"

fun is_long_request :: "event \<Rightarrow> bool" where
  "is_long_request (GetSessionToken req) = True"
| "is_long_request e = False"

fun is_role_assumption :: "event \<Rightarrow> bool" where
  "is_role_assumption (AssumeRole req) = True"
| "is_role_assumption e = False"

fun is_cache_write :: "event \<Rightarrow> bool" where
  "is_cache_write (CacheWrite p v) = True"
| "is_cache_write e = False"

definition mfa_prompts :: "event list \<Rightarrow> nat" where
  "mfa_prompts evs = length (filter (\<lambda>e. e = MfaPrompt) evs)"

definition long_requests :: "event list \<Rightarrow> nat" where
  "long_requests evs = length (filter is_long_request evs)"

definition role_assumptions :: "event list \<Rightarrow> nat" where
  "role_assumptions evs = length (filter is_role_assumption evs)"

definition cache_writes :: "event list \<Rightarrow> nat" where
  "cache_writes evs = length (filter is_cache_write evs)"

text \<open>
  A cached long token is usable when its expiry parses and lies after the clock plus
  the margin, and its \<open>source_profile\<close> is the one of the resolved configuration; a
  short token likewise, with its \<open>profile\<close> and the profile selector. A long token
  carries credentials when it has the three fields the role assumption reads.
\<close>

definition long_usable :: "world \<Rightarrow> string \<Rightarrow> pyval \<Rightarrow> bool" where
  "long_usable w source tok =
     (case parse_expire w tok of
        Inl e \<Rightarrow> False
      | Inr t \<Rightarrow> clock w + 10000000 < t \<and> getitem tok ''source_profile'' = Inr (PStr source))"

definition short_usable :: "world \<Rightarrow> string option \<Rightarrow> pyval \<Rightarrow> bool" where
  "short_usable w prof tok =
     (case parse_expire w tok of
        Inl e \<Rightarrow> False
      | Inr t \<Rightarrow> clock w + 10000000 < t \<and> getitem tok ''profile'' = Inr (to_py prof))"

definition has_credentials :: "pyval \<Rightarrow> bool" where
  "has_credentials tok =
     list_all (\<lambda>k. case getitem tok k of Inl e \<Rightarrow> False | Inr v \<Rightarrow> True)
       [''aws_access_key_id'', ''aws_secret_access_key'', ''aws_session_token'']"

section \<open>A concrete setting\<close>

text \<open>
  Profile \<open>dev\<close> assumes a role through the source profile \<open>base\<close>; every other
  profile the store knows has a region only. The clock stands at 2030-01-01T00:00:00Z.
\<close>

definition dev_config :: "string \<rightharpoonup> string" where
  "dev_config = [''region'' \<mapsto> ''eu-west-1'',
                 ''role_arn'' \<mapsto> ''arn:aws:iam::123:role/X'',
                 ''mfa_serial'' \<mapsto> ''arn:aws:iam::123:mfa/user'',
                 ''source_profile'' \<mapsto> ''base'']"

definition plain_config :: "string \<rightharpoonup> string" where
  "plain_config = [''region'' \<mapsto> ''eu-west-1'']"

definition demo_clock :: int where
  "demo_clock = 1893456000000000"

definition demo_strptime :: "string \<Rightarrow> int option" where
  "demo_strptime x =
     (if x = ''2029-12-31T23:59:59+0000'' then Some (demo_clock - 1000000)
      else if x = ''2030-01-01T00:15:00+0000'' then Some (demo_clock + 900000000)
      else if x = ''2030-01-01T00:20:00+0000'' then Some (demo_clock + 1200000000)
      else if x = ''2030-01-01T06:00:00+0000'' then Some (demo_clock + 21600000000)
      else if x = ''2030-01-01T12:00:00+0000'' then Some (demo_clock + 43200000000)
      else None)"

definition demo_world :: world where
  "demo_world =
     \<lparr>scoped_config = (\<lambda>p. if p = Some ''dev'' then Inr dev_config
                           else if p = Some ''ghost'' then Inl ProfileNotFound
                           else if p = None then Inr Map.empty
                           else Inr plain_config),
      clock = demo_clock,
      strptime = demo_strptime,
      sts_client = (\<lambda>p r. None),
      mfa_input = Inr ''123456'',
      sts_get_session_token = (\<lambda>req. Inr
        \<lparr>access_key_id = ''ASIALONG'', secret_access_key = ''long-secret'',
         session_token = ''long-session'', expiration = ''2030-01-01T12:00:00+00:00''\<rparr>),
      sts_assume_role = (\<lambda>req. Inr
        \<lparr>access_key_id = ''ASIASHORT'', secret_access_key = ''short-secret'',
         session_token = ''short-session'', expiration = ''2030-01-01T00:15:00+00:00''\<rparr>)\<rparr>"

definition demo_long :: "string \<Rightarrow> string \<Rightarrow> pyval" where
  "demo_long expire source =
     PDict [(''aws_access_key_id'', PStr ''ASIAOLDLONG''),
            (''aws_secret_access_key'', PStr ''old-long-secret''),
            (''aws_session_token'', PStr ''old-long-session''),
            (''expire'', PStr expire),
            (''source_profile'', PStr source),
            (''region'', PStr ''eu-west-1'')]"

definition demo_short :: "string \<Rightarrow> string \<Rightarrow> pyval" where
  "demo_short expire prof =
     PDict [(''aws_access_key_id'', PStr ''ASIAOLDSHORT''),
            (''aws_secret_access_key'', PStr ''old-short-secret''),
            (''aws_session_token'', PStr ''old-short-session''),
            (''expire'', PStr expire),
            (''profile'', PStr prof),
            (''region'', PStr ''eu-west-1'')]"

definition demo_path :: string where
  "demo_path = ''/home/u/.aws/app/cache/AwsSessionHandler.json''"

text \<open>A file system with the cache directory and, when \<open>f\<close> is given, the cache file.\<close>

definition demo_fs :: "file_node option \<Rightarrow> filesystem" where
  "demo_fs f =
     \<lparr>dir_exists = (\<lambda>d. d = ''/home/u/.aws/app/cache''),
      dir_writable = (\<lambda>d. d = ''/home/u/.aws/app/cache''),
      mkdir_allowed = (\<lambda>d. False),
      files = (\<lambda>p. if p = demo_path then f else None)\<rparr>"

text \<open>A handler for profile \<open>dev\<close> as \<open>__init__\<close> leaves it, holding the given tokens.\<close>

definition demo_state :: "bool \<Rightarrow> pyval \<Rightarrow> pyval \<Rightarrow> state" where
  "demo_state disabled long short =
     \<lparr>profile = Some ''dev'', region = Some ''eu-west-1'', config = dev_config,
      lookup_session = Some ''dev'', session = None, disk_cache_disable = disabled,
      long_session_token = long, long_session_duration = 43200,
      short_session_token = short, short_session_duration = 900,
      cache_file = (if disabled then None else Some demo_path),
      fsys = demo_fs None, trace = []\<rparr>"

text \<open>The handler after a \<open>_config_lookup\<close> that found the configuration \<open>cfg\<close>.\<close>

definition looked_up :: "(string \<rightharpoonup> string) \<Rightarrow> state \<Rightarrow> state" where
  "looked_up cfg s =
     s\<lparr>lookup_session := profile s, config := cfg,
       region := (case cfg ''region'' of
                    Some r \<Rightarrow> if truthy_str (region s) then region s else Some r
                  | None \<Rightarrow> region s)\<rparr>"

text \<open>
  What no step of \<open>_get_session\<close> after the lookup assigns; the document
  \<open>_write_cache_file\<close> dumps; and what holds of the events \<open>evs\<close> of a run of the
  role-assumption branch from \<open>s\<close> to \<open>s'\<close> with result \<open>r\<close>.
\<close>

definition settings_kept :: "state \<Rightarrow> state \<Rightarrow> bool" where
  "settings_kept s s' =
     (profile s' = profile s \<and> region s' = region s \<and> config s' = config s \<and>
      lookup_session s' = lookup_session s \<and>
      disk_cache_disable s' = disk_cache_disable s \<and> cache_file s' = cache_file s \<and>
      long_session_duration s' = long_session_duration s \<and>
      short_session_duration s' = short_session_duration s)"

definition cache_tokens_of :: "state \<Rightarrow> pyval" where
  "cache_tokens_of s = PDict [(''long_session_token'', long_session_token s),
                              (''short_session_token'', short_session_token s)]"

definition path_summary :: "state \<Rightarrow> unit result \<Rightarrow> state \<Rightarrow> event list \<Rightarrow> bool" where
  "path_summary s r s' evs =
     (cache_writes evs \<le> 1 \<and>
      (cache_writes evs = 0 \<longrightarrow> fsys s' = fsys s) \<and>
      (long_requests evs = 0 \<and> role_assumptions evs = 0 \<longrightarrow> cache_writes evs = 0) \<and>
      (disk_cache_disable s \<longrightarrow> cache_writes evs = 0) \<and>
      (cache_writes evs = 1 \<longrightarrow> role_assumptions evs = 1 \<and> r = Return ()) \<and>
      (r = Return () \<and> \<not> disk_cache_disable s \<and> role_assumptions evs = 1 \<longrightarrow>
         cache_writes evs = 1 \<and>
         (\<exists>p f pre. cache_file s = Some p \<and> evs = pre @ [CacheWrite p (cache_tokens_of s')] \<and>
            files (fsys s') p = Some f \<and> content f = Doc (cache_tokens_of s'))))"

text \<open>
  The handler as lines 28 to 39 of \<open>__init__\<close> set it up, before the lookup; and the
  value a field of the cache document gives a token (\<open>None\<close> when the document lacks
  the field).
\<close>

definition token_or_none :: "(string \<times> pyval) list \<Rightarrow> string \<Rightarrow> pyval" where
  "token_or_none kvs k = (case map_of kvs k of Some v \<Rightarrow> v | None \<Rightarrow> PNone)"

definition fresh_handler ::
  "string option \<Rightarrow> string option \<Rightarrow> bool \<Rightarrow> int option \<Rightarrow> int option \<Rightarrow> filesystem \<Rightarrow> state" where
  "fresh_handler prof reg disable_file_cache long_dur short_dur fs =
     \<lparr>profile = prof, region = reg, config = Map.empty, lookup_session = None,
      session = None, disk_cache_disable = disable_file_cache,
      long_session_token = PNone,
      long_session_duration = duration_or long_dur 43200,
      short_session_token = PNone,
      short_session_duration = duration_or short_dur 900,
      cache_file = None, fsys = fs, trace = []\<rparr>"

text \<open>
  What a run of the role-assumption branch needs in order to return: a cached token is
  either falsy or has an expiry that parses, the identity field the validation reads
  and the three credential fields; and the cache file, when the disk cache is enabled,
  can be opened for writing.
\<close>

definition token_readable :: "world \<Rightarrow> pyval \<Rightarrow> string \<Rightarrow> bool" where
  "token_readable w tok key =
     (if truthy tok
      then (case parse_expire w tok of
              Inl e \<Rightarrow> False
            | Inr t \<Rightarrow> (case getitem tok key of
                          Inl e \<Rightarrow> False
                        | Inr v \<Rightarrow> has_credentials tok))
      else True)"

definition can_write :: "filesystem \<Rightarrow> string \<Rightarrow> bool" where
  "can_write fs p =
     (case files fs p of
        Some f \<Rightarrow> writable f
      | None \<Rightarrow>
          if dir_exists fs p then False
          else dir_exists fs (parent_dir p) \<and> dir_writable fs (parent_dir p))"

definition cache_writable :: "state \<Rightarrow> bool" where
  "cache_writable s =
     (if disk_cache_disable s then True
      else (case cache_file s of Some p \<Rightarrow> can_write (fsys s) p | None \<Rightarrow> False))"

text \<open>Whether a call came back without raising.\<close>

fun returned :: "'a result \<Rightarrow> bool" where
  "returned (Return a) = True"
| "returned (Raise e) = False"

section \<open>Auxiliary facts\<close>

lemma bind_Return [simp]: "bind (Return a, s) f = f a s"
  by (simp add: bind_def)

lemma bind_Raise [simp]: "bind (Raise e, s) f = (Raise e, s)"
  by (simp add: bind_def)

lemma looked_up_fields [simp]:
  "profile (looked_up cfg s) = profile s"
  "config (looked_up cfg s) = cfg"
  "lookup_session (looked_up cfg s) = profile s"
  "long_session_token (looked_up cfg s) = long_session_token s"
  "short_session_token (looked_up cfg s) = short_session_token s"
  "long_session_duration (looked_up cfg s) = long_session_duration s"
  "short_session_duration (looked_up cfg s) = short_session_duration s"
  "session (looked_up cfg s) = session s"
  "trace (looked_up cfg s) = trace s"
  "fsys (looked_up cfg s) = fsys s"
  "disk_cache_disable (looked_up cfg s) = disk_cache_disable s"
  "cache_file (looked_up cfg s) = cache_file s"
  by (simp_all add: looked_up_def)

lemma looked_up_fix:
  assumes "lookup_session s = profile s" and "config s = cfg"
    and "region s = region (looked_up cfg t)"
  shows "looked_up cfg s = s"
  using assms by (simp add: looked_up_def split: option.splits)

lemma config_lookup_looked_up:
  "scoped_config w (profile s) = Inr cfg \<Longrightarrow> config_lookup w s = (Return (), looked_up cfg s)"
  by (simp add: config_lookup_def looked_up_def Let_def split: option.splits)

lemma config_lookup_fail:
  "scoped_config w (profile s) = Inl e \<Longrightarrow>
   config_lookup w s = (Raise e, s\<lparr>lookup_session := profile s\<rparr>)"
  by (simp add: config_lookup_def Let_def)

lemma usable_truthy_long: "long_usable w sp tok \<Longrightarrow> truthy tok"
  by (cases tok) (auto simp: long_usable_def parse_expire_def split: sum.splits)

lemma usable_truthy_short: "short_usable w p tok \<Longrightarrow> truthy tok"
  by (cases tok) (auto simp: short_usable_def parse_expire_def split: sum.splits)

lemma validate_long_usable:
  assumes "long_usable w sp (long_session_token s)" and "config s ''source_profile'' = Some sp"
  shows "validate_long w (clock w + 10000000) s = (Return False, s)"
  using assms usable_truthy_long[OF assms(1)]
  by (auto simp: validate_long_def long_usable_def config_get_def split: sum.splits)

lemma validate_short_usable:
  assumes "short_usable w (profile s) (short_session_token s)"
  shows "validate_short w (clock w + 10000000) s = (Return (), s)"
  using assms usable_truthy_short[OF assms(1)]
  by (auto simp: validate_short_def short_usable_def split: sum.splits)

lemma refresh_long_truthy: "truthy (long_session_token s) \<Longrightarrow> refresh_long w s = (Return (), s)"
  by (simp add: refresh_long_def)

lemma refresh_short_truthy:
  "truthy (short_session_token s) \<Longrightarrow> refresh_short w tc s = (Return tc, s)"
  by (simp add: refresh_short_def)

lemma build_session_again: "build_session s = (r, s') \<Longrightarrow> build_session s' = (r, s')"
  by (auto simp: build_session_def split: sum.splits)

lemma build_session_keeps:
  assumes "build_session s = (r, s')"
  shows "profile s' = profile s \<and> config s' = config s \<and> lookup_session s' = lookup_session s \<and>
         region s' = region s \<and>
         long_session_token s' = long_session_token s \<and>
         short_session_token s' = short_session_token s \<and> trace s' = trace s \<and>
         fsys s' = fsys s \<and> disk_cache_disable s' = disk_cache_disable s \<and>
         cache_file s' = cache_file s"
  using assms by (auto simp: build_session_def split: sum.splits)

lemma assume_role_path_usable:
  assumes "long_usable w sp (long_session_token s)" and "config s ''source_profile'' = Some sp"
    and "short_usable w (profile s) (short_session_token s)"
  shows "assume_role_path w s = build_session s"
  using assms usable_truthy_long[OF assms(1)] usable_truthy_short[OF assms(3)]
  by (simp add: assume_role_path_def Let_def validate_long_usable validate_short_usable
      refresh_long_truthy refresh_short_truthy bind_def split: prod.splits result.splits)

lemma get_session_impl_usable:
  assumes "scoped_config w (profile s) = Inr cfg" and "cfg ''source_profile'' = Some sp"
    and "long_usable w sp (long_session_token s)"
    and "short_usable w (profile s) (short_session_token s)"
  shows "get_session_impl w s =
           (if role_required cfg then build_session (looked_up cfg s)
            else (Return (), (looked_up cfg s)\<lparr>session := Some (DefaultChainSession (profile s))\<rparr>))"
  using assms
  by (simp add: get_session_impl_def config_lookup_looked_up assume_role_path_usable)

lemma get_session_impl_silent:
  assumes "scoped_config w (profile s) = Inr cfg" and "cfg ''source_profile'' = Some sp"
    and "long_usable w sp (long_session_token s)"
    and "short_usable w (profile s) (short_session_token s)"
    and "get_session_impl w s = (r, s')"
  shows "get_session_impl w s' = (r, s') \<and> trace s' = trace s \<and> fsys s' = fsys s"
proof (cases "role_required cfg")
  case True
  with assms have b: "build_session (looked_up cfg s) = (r, s')"
    by (simp add: get_session_impl_usable)
  note k = build_session_keeps[OF b]
  have same: "looked_up cfg s' = s'"
    using k by (intro looked_up_fix[where t = s]) simp_all
  have "get_session_impl w s' = build_session (looked_up cfg s')"
    using assms k True by (subst get_session_impl_usable[where cfg = cfg and sp = sp]) simp_all
  then show ?thesis using same build_session_again[OF b] k by simp
next
  case False
  with assms have b: "r = Return ()"
    "s' = (looked_up cfg s)\<lparr>session := Some (DefaultChainSession (profile s))\<rparr>"
    by (simp_all add: get_session_impl_usable)
  have same: "looked_up cfg s' = s'"
    using b by (intro looked_up_fix[where t = s]) simp_all
  have "get_session_impl w s' =
          (Return (), (looked_up cfg s')\<lparr>session := Some (DefaultChainSession (profile s'))\<rparr>)"
    using assms b False by (subst get_session_impl_usable[where cfg = cfg and sp = sp]) simp_all
  then show ?thesis using same b by simp
qed

lemma bind_cases:
  assumes "bind m f = (r, s')"
  obtains (raised) e where "m = (Raise e, s')" and "r = Raise e"
  | (returned) a s1 where "m = (Return a, s1)" and "f a s1 = (r, s')"
  using assms by (cases m) (auto simp: bind_def split: result.splits)

lemma assume_role_path_cases:
  assumes "assume_role_path w s = (r, s')"
  obtains
    (validate_long_raised) e where
      "validate_long w (clock w + 10000000) s = (Raise e, s')" and "r = Raise e"
  | (validate_short_raised) tc s1 e where
      "validate_long w (clock w + 10000000) s = (Return tc, s1)"
      and "validate_short w (clock w + 10000000) s1 = (Raise e, s')" and "r = Raise e"
  | (refresh_long_raised) tc s1 s2 e where
      "validate_long w (clock w + 10000000) s = (Return tc, s1)"
      and "validate_short w (clock w + 10000000) s1 = (Return (), s2)"
      and "refresh_long w s2 = (Raise e, s')" and "r = Raise e"
  | (refresh_short_raised) tc s1 s2 s3 e where
      "validate_long w (clock w + 10000000) s = (Return tc, s1)"
      and "validate_short w (clock w + 10000000) s1 = (Return (), s2)"
      and "refresh_long w s2 = (Return (), s3)"
      and "refresh_short w tc s3 = (Raise e, s')" and "r = Raise e"
  | (build_session_raised) tc s1 s2 s3 tc' s4 e where
      "validate_long w (clock w + 10000000) s = (Return tc, s1)"
      and "validate_short w (clock w + 10000000) s1 = (Return (), s2)"
      and "refresh_long w s2 = (Return (), s3)"
      and "refresh_short w tc s3 = (Return tc', s4)"
      and "build_session s4 = (Raise e, s')" and "r = Raise e"
  | (written) tc s1 s2 s3 s4 s5 where
      "validate_long w (clock w + 10000000) s = (Return tc, s1)"
      and "validate_short w (clock w + 10000000) s1 = (Return (), s2)"
      and "refresh_long w s2 = (Return (), s3)"
      and "refresh_short w tc s3 = (Return True, s4)"
      and "build_session s4 = (Return (), s5)"
      and "write_cache_file s5 = (r, s')"
  | (unchanged) tc s1 s2 s3 s4 where
      "validate_long w (clock w + 10000000) s = (Return tc, s1)"
      and "validate_short w (clock w + 10000000) s1 = (Return (), s2)"
      and "refresh_long w s2 = (Return (), s3)"
      and "refresh_short w tc s3 = (Return False, s4)"
      and "build_session s4 = (Return (), s')" and "r = Return ()"
proof -
  let ?now = "clock w + 10000000"
  from assms have
    "bind (validate_long w ?now s) (\<lambda>token_changed s1.
       bind (validate_short w ?now s1) (\<lambda>_ s2.
       bind (refresh_long w s2) (\<lambda>_ s3.
       bind (refresh_short w token_changed s3) (\<lambda>token_changed s4.
       bind (build_session s4) (\<lambda>_ s5.
         if token_changed then write_cache_file s5 else (Return (), s5)))))) = (r, s')"
    by (simp add: assume_role_path_def Let_def)
  then show ?thesis
  proof (cases rule: bind_cases)
    case (raised e)
    then show ?thesis by (rule validate_long_raised)
  next
    case vl: (returned tc s1)
    from vl(2) show ?thesis
    proof (cases rule: bind_cases)
      case (raised e)
      with vl(1) show ?thesis by (rule validate_short_raised)
    next
      case vs: (returned u2 s2)
      from vs(2) show ?thesis
      proof (cases rule: bind_cases)
        case (raised e)
        with vl(1) vs(1) show ?thesis by (simp add: refresh_long_raised)
      next
        case rl: (returned u3 s3)
        from rl(2) show ?thesis
        proof (cases rule: bind_cases)
          case (raised e)
          with vl(1) vs(1) rl(1) show ?thesis by (simp add: refresh_short_raised)
        next
          case rs: (returned tc4 s4)
          from rs(2) show ?thesis
          proof (cases rule: bind_cases)
            case (raised e)
            with vl(1) vs(1) rl(1) rs(1) show ?thesis by (simp add: build_session_raised)
          next
            case bs: (returned u5 s5)
            show ?thesis
            proof (cases tc4)
              case True
              with bs(2) have "write_cache_file s5 = (r, s')" by simp
              with vl(1) vs(1) rl(1) rs(1) bs(1) True show ?thesis by (simp add: written)
            next
              case False
              with bs(2) have "r = Return ()" "s' = s5" by simp_all
              with vl(1) vs(1) rl(1) rs(1) bs(1) False show ?thesis by (simp add: unchanged)
            qed
          qed
        qed
      qed
    qed
  qed
qed

lemma settings_kept_refl [simp]: "settings_kept s s"
  by (simp add: settings_kept_def)

lemma settings_kept_trans: "settings_kept s s1 \<Longrightarrow> settings_kept s1 s2 \<Longrightarrow> settings_kept s s2"
  by (simp add: settings_kept_def)

lemma counts_simps [simp]:
  "mfa_prompts [] = 0" "long_requests [] = 0" "role_assumptions [] = 0" "cache_writes [] = 0"
  "mfa_prompts (e # evs) = (if e = MfaPrompt then 1 else 0) + mfa_prompts evs"
  "long_requests (e # evs) = (if is_long_request e then 1 else 0) + long_requests evs"
  "role_assumptions (e # evs) = (if is_role_assumption e then 1 else 0) + role_assumptions evs"
  "cache_writes (e # evs) = (if is_cache_write e then 1 else 0) + cache_writes evs"
  "mfa_prompts (xs @ ys) = mfa_prompts xs + mfa_prompts ys"
  "long_requests (xs @ ys) = long_requests xs + long_requests ys"
  "role_assumptions (xs @ ys) = role_assumptions xs + role_assumptions ys"
  "cache_writes (xs @ ys) = cache_writes xs + cache_writes ys"
  by (simp_all add: mfa_prompts_def long_requests_def role_assumptions_def cache_writes_def)

lemma new_events_append [simp]: "trace s' = trace s @ evs \<Longrightarrow> new_events s s' = evs"
  by (simp add: new_events_def)

lemma validate_long_keeps:
  assumes "validate_long w now s = (r, s')"
  shows "settings_kept s s'" and "trace s' = trace s" and "fsys s' = fsys s"
    and "session s' = session s"
  using assms
  by (auto simp: validate_long_def settings_kept_def split: if_splits sum.splits)

lemma validate_long_changed:
  "validate_long w now s = (Return True, s') \<Longrightarrow> short_session_token s' = PNone"
  by (auto simp: validate_long_def split: if_splits sum.splits)

lemma validate_short_keeps:
  assumes "validate_short w now s = (r, s')"
  shows "settings_kept s s'" and "trace s' = trace s" and "fsys s' = fsys s"
    and "session s' = session s" and "long_session_token s' = long_session_token s"
  using assms
  by (auto simp: validate_short_def settings_kept_def split: if_splits sum.splits)

lemma validate_short_absent:
  "validate_short w now s = (r, s') \<Longrightarrow> \<not> truthy (short_session_token s) \<Longrightarrow> s' = s"
  by (simp add: validate_short_def)

lemma refresh_long_keeps:
  assumes "refresh_long w s = (r, s')"
  shows "settings_kept s s'" and "fsys s' = fsys s" and "session s' = session s"
    and "short_session_token s' = short_session_token s"
  using assms
  by (auto simp: refresh_long_def settings_kept_def Let_def
      split: if_splits sum.splits option.splits)

lemma refresh_long_events:
  assumes "refresh_long w s = (r, s')"
  obtains evs where "trace s' = trace s @ evs" and "role_assumptions evs = 0"
    and "cache_writes evs = 0" and "mfa_prompts evs \<le> 1" and "long_requests evs \<le> 1"
  using assms
  by (auto simp: refresh_long_def Let_def split: if_splits sum.splits option.splits)

lemma refresh_short_keeps:
  assumes "refresh_short w tc s = (r, s')"
  shows "settings_kept s s'" and "fsys s' = fsys s" and "session s' = session s"
    and "long_session_token s' = long_session_token s"
  using assms
  by (auto simp: refresh_short_def settings_kept_def Let_def split: if_splits sum.splits)

lemma refresh_short_events:
  assumes "refresh_short w tc s = (r, s')"
  obtains evs where "trace s' = trace s @ evs" and "mfa_prompts evs = 0"
    and "long_requests evs = 0" and "cache_writes evs = 0" and "role_assumptions evs \<le> 1"
  using assms
  by (auto simp: refresh_short_def Let_def split: if_splits sum.splits)

lemma refresh_short_False:
  "refresh_short w tc s = (Return False, s') \<Longrightarrow> s' = s \<and> \<not> tc"
  by (auto simp: refresh_short_def Let_def split: if_splits sum.splits)

lemma refresh_short_issued:
  assumes "refresh_short w tc s = (Return b, s')" and "\<not> truthy (short_session_token s)"
  obtains req where "trace s' = trace s @ [AssumeRole req]" and "b"
  using assms
  by (auto simp: refresh_short_def Let_def split: if_splits sum.splits)

lemma write_cache_file_keeps:
  assumes "write_cache_file s = (r, s')"
  shows "settings_kept s s'" and "session s' = session s"
    and "long_session_token s' = long_session_token s"
    and "short_session_token s' = short_session_token s"
  using assms
  by (auto simp: write_cache_file_def settings_kept_def Let_def
      split: if_splits sum.splits option.splits)

lemma write_cache_file_cases:
  assumes "write_cache_file s = (r, s')"
  obtains (disabled) "disk_cache_disable s" and "r = Return ()" and "s' = s"
  | (failed) e where "\<not> disk_cache_disable s" and "r = Raise e" and "s' = s"
  | (stored) p f where "\<not> disk_cache_disable s" and "r = Return ()"
      and "cache_file s = Some p"
      and "trace s' = trace s @ [CacheWrite p (cache_tokens_of s)]"
      and "files (fsys s') p = Some f" and "content f = Doc (cache_tokens_of s)"
  using assms
  by (auto simp: write_cache_file_def write_json_def cache_tokens_of_def Let_def
      split: if_splits sum.splits option.splits)

lemma build_session_made:
  assumes "build_session s = (Return u, s')"
  shows "\<exists>k sk t. session s' = Some (CredentialSession (region s') k sk t) \<and>
           getitem (short_session_token s') ''aws_access_key_id'' = Inr k \<and>
           getitem (short_session_token s') ''aws_secret_access_key'' = Inr sk \<and>
           getitem (short_session_token s') ''aws_session_token'' = Inr t"
  using assms by (auto simp: build_session_def split: sum.splits)

lemma path_summary_quiet:
  assumes "cache_writes evs = 0" and "fsys s' = fsys s" and "role_assumptions evs = 0"
  shows "path_summary s r s' evs"
  using assms by (simp add: path_summary_def)

lemma path_summary_raised:
  assumes "cache_writes evs = 0" and "fsys s' = fsys s"
  shows "path_summary s (Raise e) s' evs"
  using assms by (simp add: path_summary_def)

lemma assume_role_path_summary:
  assumes "assume_role_path w s = (r, s')"
  shows "\<exists>evs. trace s' = trace s @ evs \<and> path_summary s r s' evs"
  using assms
proof (cases rule: assume_role_path_cases)
  case (validate_long_raised e)
  from validate_long_keeps[OF validate_long_raised(1)] validate_long_raised(2)
  have "trace s' = trace s @ []" and "path_summary s r s' []"
    by (simp_all add: path_summary_quiet path_summary_raised)
  then show ?thesis by blast
next
  case (validate_short_raised tc s1 e)
  from validate_long_keeps[OF validate_short_raised(1)]
    validate_short_keeps[OF validate_short_raised(2)] validate_short_raised(3)
  have "trace s' = trace s @ []" and "path_summary s r s' []"
    by (simp_all add: path_summary_quiet path_summary_raised)
  then show ?thesis by blast
next
  case (refresh_long_raised tc s1 s2 e)
  note a = validate_long_keeps[OF refresh_long_raised(1)]
  note b = validate_short_keeps[OF refresh_long_raised(2)]
  note c = refresh_long_keeps[OF refresh_long_raised(3)]
  from refresh_long_raised(3) obtain evs where e: "trace s' = trace s2 @ evs"
    "cache_writes evs = 0"
    by (rule refresh_long_events)
  from a b c e refresh_long_raised(4)
  have "trace s' = trace s @ evs" and "path_summary s r s' evs"
    by (simp_all add: path_summary_quiet path_summary_raised)
  then show ?thesis by blast
next
  case (refresh_short_raised tc s1 s2 s3 e)
  note a = validate_long_keeps[OF refresh_short_raised(1)]
  note b = validate_short_keeps[OF refresh_short_raised(2)]
  note c = refresh_long_keeps[OF refresh_short_raised(3)]
  note d = refresh_short_keeps[OF refresh_short_raised(4)]
  from refresh_short_raised(3) obtain e3 where e3: "trace s3 = trace s2 @ e3"
    "cache_writes e3 = 0"
    by (rule refresh_long_events)
  from refresh_short_raised(4) obtain e4 where e4: "trace s' = trace s3 @ e4"
    "cache_writes e4 = 0"
    by (rule refresh_short_events)
  from a b c d e3 e4 refresh_short_raised(5)
  have "trace s' = trace s @ (e3 @ e4)" and "path_summary s r s' (e3 @ e4)"
    by (simp_all add: path_summary_quiet path_summary_raised)
  then show ?thesis by blast
next
  case (build_session_raised tc s1 s2 s3 tc' s4 e)
  note a = validate_long_keeps[OF build_session_raised(1)]
  note b = validate_short_keeps[OF build_session_raised(2)]
  note c = refresh_long_keeps[OF build_session_raised(3)]
  note d = refresh_short_keeps[OF build_session_raised(4)]
  note f = build_session_keeps[OF build_session_raised(5)]
  from build_session_raised(3) obtain e3 where e3: "trace s3 = trace s2 @ e3"
    "cache_writes e3 = 0"
    by (rule refresh_long_events)
  from build_session_raised(4) obtain e4 where e4: "trace s4 = trace s3 @ e4"
    "cache_writes e4 = 0"
    by (rule refresh_short_events)
  from a b c d f e3 e4 build_session_raised(6)
  have "trace s' = trace s @ (e3 @ e4)" and "path_summary s r s' (e3 @ e4)"
    by (simp_all add: path_summary_quiet path_summary_raised)
  then show ?thesis by blast
next
  case (unchanged tc s1 s2 s3 s4)
  note a = validate_long_keeps[OF unchanged(1)]
  note b = validate_short_keeps[OF unchanged(2)]
  note c = refresh_long_keeps[OF unchanged(3)]
  from refresh_short_False[OF unchanged(4)] have s4: "s4 = s3" by simp
  note f = build_session_keeps[OF unchanged(5)]
  from unchanged(3) obtain e3 where e3: "trace s3 = trace s2 @ e3"
    "cache_writes e3 = 0" "role_assumptions e3 = 0"
    by (rule refresh_long_events)
  from a b c f e3 s4
  have "trace s' = trace s @ e3" and "path_summary s r s' e3"
    by (simp_all add: path_summary_quiet path_summary_raised)
  then show ?thesis by blast
next
  case (written tc s1 s2 s3 s4 s5)
  note a = validate_long_keeps[OF written(1)]
  note b = validate_short_keeps[OF written(2)]
  note c = refresh_long_keeps[OF written(3)]
  note d = refresh_short_keeps[OF written(4)]
  note f = build_session_keeps[OF written(5)]
  note g = write_cache_file_keeps[OF written(6)]
  from written(3) obtain e3 where e3: "trace s3 = trace s2 @ e3"
    "cache_writes e3 = 0" "role_assumptions e3 = 0"
    by (rule refresh_long_events)
  have absent: "\<not> truthy (short_session_token s3)"
  proof (cases tc)
    case True
    with written(1) have "short_session_token s1 = PNone"
      by (simp add: validate_long_changed)
    moreover from this written(2) have "s2 = s1"
      by (simp add: validate_short_absent)
    ultimately show ?thesis using c(4) by simp
  next
    case False
    show ?thesis
    proof
      assume "truthy (short_session_token s3)"
      with written(4) have "(Return True, s4) = (Return tc, s3)"
        by (simp add: refresh_short_truthy)
      with False show False by simp
    qed
  qed
  from written(4) absent obtain req where e4: "trace s4 = trace s3 @ [AssumeRole req]"
    by (rule refresh_short_issued)
  have kept: "disk_cache_disable s5 = disk_cache_disable s" "cache_file s5 = cache_file s"
    using a(1) b(1) c(1) d(1) f by (simp_all add: settings_kept_def)
  have t5: "trace s5 = trace s @ e3 @ [AssumeRole req]" and f5: "fsys s5 = fsys s"
    using a b c d f e3 e4 by simp_all
  have same: "cache_tokens_of s' = cache_tokens_of s5"
    using g by (simp add: cache_tokens_of_def)
  from written(6) show ?thesis
  proof (cases rule: write_cache_file_cases)
    case disabled
    with t5 f5 kept e3
    have "trace s' = trace s @ (e3 @ [AssumeRole req])"
      and "path_summary s r s' (e3 @ [AssumeRole req])"
      by (simp_all add: path_summary_def)
    then show ?thesis by blast
  next
    case (failed e)
    with t5 f5 kept e3
    have "trace s' = trace s @ (e3 @ [AssumeRole req])"
      and "path_summary s r s' (e3 @ [AssumeRole req])"
      by (simp_all add: path_summary_def)
    then show ?thesis by blast
  next
    case (stored p f)
    with t5 kept e3 same
    have "trace s' = trace s @ (e3 @ [AssumeRole req] @ [CacheWrite p (cache_tokens_of s')])"
      and "path_summary s r s' (e3 @ [AssumeRole req] @ [CacheWrite p (cache_tokens_of s')])"
      by (simp_all add: path_summary_def)
    then show ?thesis by blast
  qed
qed

lemma get_session_snd: "snd (get_session w s) = snd (get_session_impl w s)"
  by (cases "get_session_impl w s" rule: prod.exhaust; cases "fst (get_session_impl w s)")
     (auto simp: get_session_def)

lemma get_session_fst:
  "fst (get_session w s) =
     (case fst (get_session_impl w s) of
        Raise e \<Rightarrow> Raise e
      | Return u \<Rightarrow> Return (session (snd (get_session_impl w s))))"
  by (cases "get_session_impl w s" rule: prod.exhaust; cases "fst (get_session_impl w s)")
     (auto simp: get_session_def)

lemma get_session_impl_role:
  assumes "scoped_config w (profile s) = Inr cfg" and "role_required cfg"
  shows "get_session_impl w s = assume_role_path w (looked_up cfg s)"
  using assms by (simp add: get_session_impl_def config_lookup_looked_up)

lemma get_session_impl_plain:
  assumes "scoped_config w (profile s) = Inr cfg" and "\<not> role_required cfg"
  shows "get_session_impl w s =
           (Return (), (looked_up cfg s)\<lparr>session := Some (DefaultChainSession (profile s))\<rparr>)"
  using assms by (simp add: get_session_impl_def config_lookup_looked_up)

lemma settings_kept_looked_up:
  "settings_kept (looked_up cfg s) s' \<Longrightarrow>
   disk_cache_disable s' = disk_cache_disable s \<and> cache_file s' = cache_file s \<and>
   profile s' = profile s \<and> config s' = cfg"
  by (simp add: settings_kept_def)

lemma assume_role_path_session:
  assumes "assume_role_path w s = (Return u, s')"
  shows "\<exists>k sk t. session s' = Some (CredentialSession (region s') k sk t) \<and>
           getitem (short_session_token s') ''aws_access_key_id'' = Inr k \<and>
           getitem (short_session_token s') ''aws_secret_access_key'' = Inr sk \<and>
           getitem (short_session_token s') ''aws_session_token'' = Inr t"
  using assms
proof (cases rule: assume_role_path_cases)
  case (written tc s1 s2 s3 s4 s5)
  from write_cache_file_keeps[OF written(6)] build_session_made[OF written(5)]
  show ?thesis by (simp add: settings_kept_def)
next
  case (unchanged tc s1 s2 s3 s4)
  from build_session_made[OF unchanged(5)] show ?thesis .
qed simp_all

lemma role_required_iff:
  "role_required cfg \<longleftrightarrow>
     (\<exists>a m p. cfg ''role_arn'' = Some a \<and> cfg ''mfa_serial'' = Some m \<and>
        cfg ''source_profile'' = Some p)"
  by (auto simp: role_required_def split: option.splits)

lemma path_summaryD:
  assumes "path_summary s r s' evs"
  shows "cache_writes evs \<le> 1"
    and "cache_writes evs = 0 \<longrightarrow> fsys s' = fsys s"
    and "long_requests evs = 0 \<and> role_assumptions evs = 0 \<longrightarrow> cache_writes evs = 0"
    and "disk_cache_disable s \<longrightarrow> cache_writes evs = 0"
    and "cache_writes evs = 1 \<longrightarrow> role_assumptions evs = 1 \<and> r = Return ()"
    and "r = Return () \<and> \<not> disk_cache_disable s \<and> role_assumptions evs = 1 \<longrightarrow>
          cache_writes evs = 1 \<and>
          (\<exists>p f pre. cache_file s = Some p \<and> evs = pre @ [CacheWrite p (cache_tokens_of s')] \<and>
             files (fsys s') p = Some f \<and> content f = Doc (cache_tokens_of s'))"
  using assms unfolding path_summary_def by blast+

text \<open>Unfolding a call on the concrete setting.\<close>

lemmas run_defs =
  get_session_def get_session_impl_def config_lookup_def role_required_def
  assume_role_path_def validate_long_def validate_short_def refresh_long_def
  refresh_short_def build_session_def write_cache_file_def config_get_def parse_expire_def
  write_json_def parent_dir_def dirname_def new_events_def Let_def

lemmas demo_defs =
  demo_world_def demo_state_def dev_config_def plain_config_def demo_clock_def
  demo_strptime_def demo_long_def demo_short_def demo_path_def demo_fs_def

lemma run_disabled:
  "fst (get_session demo_world (demo_state True PNone PNone)) =
     Return (Some (CredentialSession (Some ''eu-west-1'') (PStr ''ASIASHORT'')
        (PStr ''short-secret'') (PStr ''short-session'')))"
  "new_events (demo_state True PNone PNone)
     (snd (get_session demo_world (demo_state True PNone PNone))) =
     [MfaPrompt,
      GetSessionToken \<lparr>gst_profile_name = ''base'', gst_region_name = Some ''eu-west-1'',
        gst_duration_seconds = 43200, gst_serial_number = ''arn:aws:iam::123:mfa/user'',
        gst_token_code = ''123456''\<rparr>,
      AssumeRole \<lparr>ar_access_key_id = PStr ''ASIALONG'', ar_secret_access_key = PStr ''long-secret'',
        ar_session_token = PStr ''long-session'', ar_role_arn = ''arn:aws:iam::123:role/X'',
        ar_role_session_name = ''SessionHandlerAssumeRole'', ar_duration_seconds = 900\<rparr>]"
  by (simp_all add: run_defs demo_defs)

lemma run_long_only:
  "fst (get_session demo_world
          (demo_state False PNone (demo_short ''2030-01-01T00:20:00+00:00'' ''dev''))) =
     Return (Some (CredentialSession (Some ''eu-west-1'') (PStr ''ASIAOLDSHORT'')
        (PStr ''old-short-secret'') (PStr ''old-short-session'')))"
  "new_events (demo_state False PNone (demo_short ''2030-01-01T00:20:00+00:00'' ''dev''))
     (snd (get_session demo_world
        (demo_state False PNone (demo_short ''2030-01-01T00:20:00+00:00'' ''dev'')))) =
     [MfaPrompt,
      GetSessionToken \<lparr>gst_profile_name = ''base'', gst_region_name = Some ''eu-west-1'',
        gst_duration_seconds = 43200, gst_serial_number = ''arn:aws:iam::123:mfa/user'',
        gst_token_code = ''123456''\<rparr>]"
  "short_session_token (snd (get_session demo_world
        (demo_state False PNone (demo_short ''2030-01-01T00:20:00+00:00'' ''dev'')))) =
     demo_short ''2030-01-01T00:20:00+00:00'' ''dev''"
  "files (fsys (snd (get_session demo_world
        (demo_state False PNone (demo_short ''2030-01-01T00:20:00+00:00'' ''dev''))))) demo_path = None"
  by (simp_all add: run_defs demo_defs)

lemma parse_expire_truthy: "parse_expire w tok = Inr t \<Longrightarrow> truthy tok"
  by (cases tok) (auto simp: parse_expire_def split: sum.splits)

lemma validate_short_mismatch:
  assumes "parse_expire w (short_session_token s) = Inr t"
    and "getitem (short_session_token s) ''profile'' = Inr p" and "p \<noteq> to_py (profile s)"
  shows "validate_short w now s = (Return (), s\<lparr>short_session_token := PNone\<rparr>)"
  using assms parse_expire_truthy[OF assms(1)] by (simp add: validate_short_def)

lemma validate_long_mismatch:
  assumes "parse_expire w (long_session_token s) = Inr t"
    and "getitem (long_session_token s) ''source_profile'' = Inr v"
    and "config s ''source_profile'' = Some csp" and "v \<noteq> PStr csp"
  shows "validate_long w now s =
           (Return (t \<le> now), s\<lparr>long_session_token := PNone, short_session_token := PNone\<rparr>)"
  using assms parse_expire_truthy[OF assms(1)] by (simp add: validate_long_def config_get_def)

lemma refresh_short_called:
  assumes "refresh_short w tc s = (r, s')" and "\<not> truthy (short_session_token s)"
    and "has_credentials (long_session_token s)" and "config s ''role_arn'' = Some arn"
  obtains req where "trace s' = trace s @ [AssumeRole req]"
  using assms
  by (auto simp: refresh_short_def has_credentials_def config_get_def Let_def
      split: if_splits sum.splits)

lemma refresh_short_profile:
  assumes "refresh_short w tc s = (Return b, s')" and "\<not> truthy (short_session_token s)"
  shows "getitem (short_session_token s') ''profile'' = Inr (to_py (profile s))"
  using assms
  by (auto simp: refresh_short_def Let_def split: if_splits sum.splits)

lemma write_cache_file_events:
  assumes "write_cache_file s = (r, s')"
  obtains evs where "trace s' = trace s @ evs" and "mfa_prompts evs = 0"
    and "long_requests evs = 0" and "role_assumptions evs = 0"
  using assms
  by (auto simp: write_cache_file_def Let_def split: if_splits sum.splits option.splits)

text \<open>Lines 176 to 208, run from a state \<open>s\<close>.\<close>

lemma tail_events:
  assumes "bind (refresh_short w tc s) (\<lambda>token_changed s4.
             bind (build_session s4) (\<lambda>_ s5.
               if token_changed then write_cache_file s5 else (Return (), s5))) = (r, s')"
  obtains ea eb b sa where "refresh_short w tc s = (b, sa)"
    and "trace sa = trace s @ ea" and "trace s' = trace sa @ eb"
    and "mfa_prompts ea = 0" and "long_requests ea = 0"
    and "mfa_prompts eb = 0" and "long_requests eb = 0" and "role_assumptions eb = 0"
    and "long_session_token s' = long_session_token s"
    and "short_session_token s' = short_session_token sa"
    and "r = Return () \<longrightarrow> (\<exists>c. b = Return c)"
  using assms
proof (cases rule: bind_cases)
  case (raised e)
  from raised(1) obtain ea where "trace s' = trace s @ ea" "mfa_prompts ea = 0"
    "long_requests ea = 0"
    by (rule refresh_short_events)
  with raised refresh_short_keeps[OF raised(1)]
  show ?thesis by (intro that[of "Raise e" s' ea "[]"]) simp_all
next
  case rs: (returned b sa)
  note k4 = refresh_short_keeps[OF rs(1)]
  from rs(1) obtain ea where ea: "trace sa = trace s @ ea" "mfa_prompts ea = 0"
    "long_requests ea = 0"
    by (rule refresh_short_events)
  from rs(2) show ?thesis
  proof (cases rule: bind_cases)
    case (raised e)
    from build_session_keeps[OF raised(1)] k4 ea rs(1)
    show ?thesis by (intro that[of "Return b" sa ea "[]"]) simp_all
  next
    case bs: (returned u s5)
    note k5 = build_session_keeps[OF bs(1)]
    show ?thesis
    proof (cases b)
      case True
      with bs(2) have wr: "write_cache_file s5 = (r, s')" by simp
      from wr obtain eb where eb: "trace s' = trace s5 @ eb" "mfa_prompts eb = 0"
        "long_requests eb = 0" "role_assumptions eb = 0"
        by (rule write_cache_file_events)
      from write_cache_file_keeps[OF wr] k5 k4 ea eb rs(1)
      show ?thesis by (intro that[of "Return b" sa ea eb]) simp_all
    next
      case False
      with bs(2) have "s' = s5" by simp
      with k5 k4 ea rs(1)
      show ?thesis by (intro that[of "Return b" sa ea "[]"]) simp_all
    qed
  qed
qed


lemma refresh_long_prompts:
  assumes "refresh_long w s = (r, s')" and "\<not> truthy (long_session_token s)"
    and "config s ''source_profile'' = Some csp" and "sts_client w csp (region s) = None"
  obtains evs where "trace s' = trace s @ evs" and "mfa_prompts evs = 1"
  using assms
  by (auto simp: refresh_long_def config_get_def Let_def split: if_splits sum.splits option.splits)

lemma refresh_long_issued:
  assumes "refresh_long w s = (Return u, s')" and "\<not> truthy (long_session_token s)"
    and "config s ''source_profile'' = Some csp"
  obtains req where "trace s' = trace s @ [MfaPrompt, GetSessionToken req]"
    and "getitem (long_session_token s') ''source_profile'' = Inr (PStr csp)"
  using assms
  by (auto simp: refresh_long_def config_get_def Let_def split: if_splits sum.splits option.splits)

lemma makedirs_files: "makedirs fs d = Inr fs' \<Longrightarrow> files fs' = files fs"
  by (auto simp: makedirs_def split: option.splits if_splits)

lemma preload_cache_dict:
  assumes "cache_file s = Some p" and "files (fsys s) p = Some f"
    and "readable f" and "writable f" and "content f = Doc (PDict kvs)"
  shows "preload_cache s =
           (Return (), s\<lparr>long_session_token :=
                            (case map_of kvs ''long_session_token'' of
                               Some v \<Rightarrow> v | None \<Rightarrow> long_session_token s),
                          short_session_token :=
                            (case map_of kvs ''short_session_token'' of
                               Some v \<Rightarrow> v | None \<Rightarrow> short_session_token s)\<rparr>)"
  using assms
  by (simp add: preload_cache_def path_exists_def access_w_def read_json_def
      split: option.splits)

lemma preload_cache_missing:
  assumes "cache_file s = Some p" and "files (fsys s) p = None" and "\<not> dir_exists (fsys s) p"
  shows "preload_cache s = (Return (), s)"
  using assms by (simp add: preload_cache_def path_exists_def)

lemma resolve_cache_file_explicit:
  assumes "p \<noteq> []" and "path_exists (fsys s) (dirname p)" and "access_w (fsys s) (dirname p)"
    and "path_exists (fsys s) p \<longrightarrow> access_w (fsys s) p"
  shows "resolve_cache_file dcd (Some p) s = (Return (), s\<lparr>cache_file := Some p\<rparr>)"
  using assms
  by (simp add: resolve_cache_file_def explicit_cache_file_def Let_def)

lemma resolve_cache_file_default:
  assumes "\<not> truthy_str cf" and "makedirs (fsys s) dcd = Inr fs'"
  shows "resolve_cache_file dcd cf s =
           (Return (), s\<lparr>fsys := fs', cache_file := Some (path_join dcd cache_filename)\<rparr>)"
  using assms
  by (cases cf) (auto simp: resolve_cache_file_def default_cache_file_def)

lemma fresh_handler_fsys [simp]: "fsys (fresh_handler prof reg d ld sd fs) = fs"
  by (simp add: fresh_handler_def)

lemma init_unfold:
  assumes "scoped_config w prof = Inr cfg"
  shows "init w fs dcd prof reg cf False ld sd =
           bind (resolve_cache_file dcd cf (looked_up cfg (fresh_handler prof reg False ld sd fs)))
             (\<lambda>_ s1. preload_cache s1)"
  using assms
  by (simp add: init_def fresh_handler_def config_lookup_looked_up)

lemma init_loads:
  assumes "scoped_config w prof = Inr cfg"
    and "cf = Some p \<and> p \<noteq> [] \<and> path_exists fs (dirname p) \<and> access_w fs (dirname p) \<and>
           fs' = fs \<or>
         \<not> truthy_str cf \<and> makedirs fs dcd = Inr fs' \<and> p = path_join dcd cache_filename"
    and "files fs' p = Some f" and "readable f" and "writable f"
    and "content f = Doc (PDict kvs)"
  shows "\<exists>s. init w fs dcd prof reg cf False ld sd = (Return (), s) \<and>
           long_session_token s = token_or_none kvs ''long_session_token'' \<and>
           short_session_token s = token_or_none kvs ''short_session_token'' \<and>
           cache_file s = Some p \<and> fsys s = fs' \<and> trace s = []"
proof -
  let ?s0 = "looked_up cfg (fresh_handler prof reg False ld sd fs)"
  have f0: "fsys ?s0 = fs" by simp
  from assms(2) have "resolve_cache_file dcd cf ?s0 = (Return (), ?s0\<lparr>fsys := fs', cache_file := Some p\<rparr>)"
  proof
    assume e: "cf = Some p \<and> p \<noteq> [] \<and> path_exists fs (dirname p) \<and> access_w fs (dirname p) \<and> fs' = fs"
    with assms(3,5) have "path_exists (fsys ?s0) p \<longrightarrow> access_w (fsys ?s0) p"
      by (simp add: f0 access_w_def)
    with e f0 have "resolve_cache_file dcd (Some p) ?s0 = (Return (), ?s0\<lparr>cache_file := Some p\<rparr>)"
      by (intro resolve_cache_file_explicit) simp_all
    with e f0 show ?thesis by (simp add: fresh_handler_def looked_up_def)
  next
    assume d: "\<not> truthy_str cf \<and> makedirs fs dcd = Inr fs' \<and> p = path_join dcd cache_filename"
    with f0 have "resolve_cache_file dcd cf ?s0 =
        (Return (), ?s0\<lparr>fsys := fs', cache_file := Some (path_join dcd cache_filename)\<rparr>)"
      by (intro resolve_cache_file_default) simp_all
    with d show ?thesis by simp
  qed
  moreover have "preload_cache (?s0\<lparr>fsys := fs', cache_file := Some p\<rparr>) =
      (Return (), ?s0\<lparr>fsys := fs', cache_file := Some p,
         long_session_token := token_or_none kvs ''long_session_token'',
         short_session_token := token_or_none kvs ''short_session_token''\<rparr>)"
    using assms(3-6)
    by (subst preload_cache_dict[where p = p and f = f and kvs = kvs])
       (simp_all add: token_or_none_def fresh_handler_def split: option.splits)
  ultimately show ?thesis
    using assms(1) by (simp add: init_unfold fresh_handler_def)
qed

lemma init_missing:
  assumes "scoped_config w prof = Inr cfg"
    and "cf = Some p \<and> p \<noteq> [] \<and> path_exists fs (dirname p) \<and> access_w fs (dirname p) \<and>
           fs' = fs \<or>
         \<not> truthy_str cf \<and> makedirs fs dcd = Inr fs' \<and> p = path_join dcd cache_filename"
    and "files fs' p = None" and "\<not> dir_exists fs' p"
  shows "\<exists>s. init w fs dcd prof reg cf False ld sd = (Return (), s) \<and>
           long_session_token s = PNone \<and> short_session_token s = PNone \<and>
           cache_file s = Some p \<and> fsys s = fs' \<and> trace s = []"
proof -
  let ?s0 = "looked_up cfg (fresh_handler prof reg False ld sd fs)"
  have f0: "fsys ?s0 = fs" by simp
  from assms(2) have "resolve_cache_file dcd cf ?s0 = (Return (), ?s0\<lparr>fsys := fs', cache_file := Some p\<rparr>)"
  proof
    assume e: "cf = Some p \<and> p \<noteq> [] \<and> path_exists fs (dirname p) \<and> access_w fs (dirname p) \<and> fs' = fs"
    with assms(3,4) have "path_exists (fsys ?s0) p \<longrightarrow> access_w (fsys ?s0) p"
      by (simp add: f0 path_exists_def)
    with e f0 have "resolve_cache_file dcd (Some p) ?s0 = (Return (), ?s0\<lparr>cache_file := Some p\<rparr>)"
      by (intro resolve_cache_file_explicit) simp_all
    with e f0 show ?thesis by (simp add: fresh_handler_def looked_up_def)
  next
    assume d: "\<not> truthy_str cf \<and> makedirs fs dcd = Inr fs' \<and> p = path_join dcd cache_filename"
    with f0 have "resolve_cache_file dcd cf ?s0 =
        (Return (), ?s0\<lparr>fsys := fs', cache_file := Some (path_join dcd cache_filename)\<rparr>)"
      by (intro resolve_cache_file_default) simp_all
    with d show ?thesis by simp
  qed
  moreover have "preload_cache (?s0\<lparr>fsys := fs', cache_file := Some p\<rparr>) =
      (Return (), ?s0\<lparr>fsys := fs', cache_file := Some p\<rparr>)"
    using assms(3,4) by (intro preload_cache_missing[where p = p]) simp_all
  ultimately show ?thesis
    using assms(1) by (simp add: init_unfold fresh_handler_def)
qed

lemma write_cache_file_stored:
  assumes "write_cache_file s = (Return (), s')" and "\<not> disk_cache_disable s"
    and "cache_file s = Some p" and "\<forall>f. files (fsys s) p = Some f \<longrightarrow> readable f"
  shows "\<exists>f. files (fsys s') p = Some f \<and> readable f \<and> writable f \<and>
           content f = Doc (cache_tokens_of s)"
proof (cases "files (fsys s) p")
  case None
  with assms(1,2,3) show ?thesis
    by (auto simp: write_cache_file_def write_json_def cache_tokens_of_def Let_def
        split: if_splits)
next
  case (Some g)
  with assms(4) have "readable g" by simp
  with Some assms(1,2,3) show ?thesis
    by (auto simp: write_cache_file_def write_json_def cache_tokens_of_def Let_def
        split: if_splits)
qed

lemma validate_long_shape:
  assumes "validate_long w now s = (Return tc, s')"
  shows "s' = s \<or> s' = s\<lparr>long_session_token := PNone, short_session_token := PNone\<rparr>"
  using assms by (auto simp: validate_long_def split: if_splits sum.splits)

lemma refresh_long_raised_keeps:
  "refresh_long w s = (Raise e, s') \<Longrightarrow> long_session_token s' = long_session_token s"
  by (auto simp: refresh_long_def Let_def split: if_splits sum.splits option.splits)

lemma refresh_long_credentials:
  assumes "refresh_long w s = (Return u, s')" and "\<not> truthy (long_session_token s)"
  shows "has_credentials (long_session_token s')"
  using assms
  by (auto simp: refresh_long_def has_credentials_def Let_def
      split: if_splits sum.splits option.splits)

lemma tail_long_requests:
  assumes "bind (refresh_short w tc s) (\<lambda>token_changed s4.
             bind (build_session s4) (\<lambda>_ s5.
               if token_changed then write_cache_file s5 else (Return (), s5))) = (r, s')"
  shows "long_requests (new_events s s') = 0 \<and> long_session_token s' = long_session_token s"
proof -
  from assms obtain ea eb b sa where "refresh_short w tc s = (b, sa)"
    and ta: "trace sa = trace s @ ea" and tb: "trace s' = trace sa @ eb"
    and ca: "mfa_prompts ea = 0" "long_requests ea = 0"
    and cb: "mfa_prompts eb = 0" "long_requests eb = 0" "role_assumptions eb = 0"
    and lg: "long_session_token s' = long_session_token s"
    and "short_session_token s' = short_session_token sa"
    and "r = Return () \<longrightarrow> (\<exists>c. b = Return c)"
    by (rule tail_events)
  from ta tb have "trace s' = trace s @ (ea @ eb)" by simp
  then have "new_events s s' = ea @ eb" by (rule new_events_append)
  with ca cb lg show ?thesis by simp
qed

lemma validate_long_returned:
  assumes "validate_long w (clock w + 10000000) s = (Return tc, s')"
    and "config s ''source_profile'' = Some sp"
  shows "long_usable w sp (long_session_token s) \<and> s' = s \<or>
         \<not> long_usable w sp (long_session_token s) \<and> \<not> truthy (long_session_token s') \<and>
           (if truthy (long_session_token s) then short_session_token s' = PNone else s' = s)"
  using assms
  by (auto simp: validate_long_def long_usable_def config_get_def split: if_splits sum.splits)

lemma validate_short_returned:
  assumes "validate_short w (clock w + 10000000) s = (Return u, s')"
  shows "short_usable w (profile s) (short_session_token s) \<and> s' = s \<or>
         \<not> short_usable w (profile s) (short_session_token s) \<and>
           \<not> truthy (short_session_token s')"
  using assms
  by (auto simp: validate_short_def short_usable_def split: if_splits sum.splits)

lemma refresh_long_returned:
  assumes "refresh_long w s = (Return u, s')"
  shows "truthy (long_session_token s) \<and> s' = s \<or>
         \<not> truthy (long_session_token s) \<and>
           (\<exists>req. trace s' = trace s @ [MfaPrompt, GetSessionToken req])"
  using assms
  by (auto simp: refresh_long_def Let_def split: if_splits sum.splits option.splits)

lemma refresh_short_returned:
  assumes "refresh_short w tc s = (Return b, s')"
  shows "truthy (short_session_token s) \<and> s' = s \<or>
         \<not> truthy (short_session_token s) \<and>
           (\<exists>req. trace s' = trace s @ [AssumeRole req])"
  using assms
  by (auto simp: refresh_short_def Let_def split: if_splits sum.splits)

lemma assume_role_path_returned_cases:
  assumes "assume_role_path w s = (Return (), s')"
  obtains tc s1 s2 s3 c sa eb where
    "validate_long w (clock w + 10000000) s = (Return tc, s1)"
    and "validate_short w (clock w + 10000000) s1 = (Return (), s2)"
    and "refresh_long w s2 = (Return (), s3)"
    and "refresh_short w tc s3 = (Return c, sa)"
    and "trace s' = trace sa @ eb"
    and "mfa_prompts eb = 0" and "long_requests eb = 0" and "role_assumptions eb = 0"
proof -
  let ?now = "clock w + 10000000"
  from assms have
    "bind (validate_long w ?now s) (\<lambda>token_changed s1.
       bind (validate_short w ?now s1) (\<lambda>_ s2.
       bind (refresh_long w s2) (\<lambda>_ s3.
       bind (refresh_short w token_changed s3) (\<lambda>token_changed s4.
       bind (build_session s4) (\<lambda>_ s5.
         if token_changed then write_cache_file s5 else (Return (), s5)))))) = (Return (), s')"
    by (simp add: assume_role_path_def Let_def)
  then show ?thesis
  proof (cases rule: bind_cases)
    case (raised e)
    then show ?thesis by simp
  next
    case vl: (returned tc s1)
    from vl(2) show ?thesis
    proof (cases rule: bind_cases)
      case (raised e)
      then show ?thesis by simp
    next
      case vs: (returned u2 s2)
      from vs(2) show ?thesis
      proof (cases rule: bind_cases)
        case (raised e)
        then show ?thesis by simp
      next
        case rl: (returned u3 s3)
        from rl(2) obtain ea eb b sa where rs: "refresh_short w tc s3 = (b, sa)"
          and "trace sa = trace s3 @ ea" and tb: "trace s' = trace sa @ eb"
          and "mfa_prompts ea = 0" "long_requests ea = 0"
          and cb: "mfa_prompts eb = 0" "long_requests eb = 0" "role_assumptions eb = 0"
          and "long_session_token s' = long_session_token s3"
          and "short_session_token s' = short_session_token sa"
          and rb: "(Return () :: unit result) = Return () \<longrightarrow> (\<exists>c. b = Return c)"
          by (rule tail_events)
        from rb obtain c where "b = Return c" by blast
        with rs have rs': "refresh_short w tc s3 = (Return c, sa)" by simp
        from vl(1) vs(1) rl(1) rs' tb cb show ?thesis
          by (intro that[of tc s1 s2 s3 c sa eb]) simp_all
      qed
    qed
  qed
qed

lemma assume_role_path_returned:
  assumes run: "assume_role_path w s = (Return (), s')"
    and sp: "config s ''source_profile'' = Some sp"
  shows "mfa_prompts (new_events s s') =
           (if long_usable w sp (long_session_token s) then 0 else 1)"
    and "long_requests (new_events s s') =
           (if long_usable w sp (long_session_token s) then 0 else 1)"
    and "\<not> short_usable w (profile s) (short_session_token s) \<Longrightarrow>
           role_assumptions (new_events s s') = 1"
    and "truthy (long_session_token s) \<Longrightarrow> \<not> long_usable w sp (long_session_token s) \<Longrightarrow>
           role_assumptions (new_events s s') = 1"
proof -
  from run obtain tc s1 s2 s3 c sa eb where
    vl: "validate_long w (clock w + 10000000) s = (Return tc, s1)"
    and vs: "validate_short w (clock w + 10000000) s1 = (Return (), s2)"
    and rl: "refresh_long w s2 = (Return (), s3)"
    and rs: "refresh_short w tc s3 = (Return c, sa)"
    and tb: "trace s' = trace sa @ eb"
    and cb: "mfa_prompts eb = 0" "long_requests eb = 0" "role_assumptions eb = 0"
    by (rule assume_role_path_returned_cases)
  note k1 = validate_long_keeps[OF vl]
  note k2 = validate_short_keeps[OF vs]
  note k3 = refresh_long_keeps[OF rl]
  have p1: "profile s1 = profile s"
    using k1(1) by (simp add: settings_kept_def)
  have t2: "trace s2 = trace s"
    using k1(2) k2(2) by simp
  note L = validate_long_returned[OF vl sp]
  note S = validate_short_returned[OF vs]
  note R = refresh_long_returned[OF rl]
  note Q = refresh_short_returned[OF rs]
  from refresh_short_events[OF rs] obtain ea where ea: "trace sa = trace s3 @ ea"
    "mfa_prompts ea = 0" "long_requests ea = 0"
    by blast
  have long_kept: "long_usable w sp (long_session_token s) \<Longrightarrow> trace s3 = trace s"
  proof -
    assume u: "long_usable w sp (long_session_token s)"
    with L have "s1 = s" by blast
    with k2(5) usable_truthy_long[OF u] have "truthy (long_session_token s2)" by simp
    with R have "s3 = s2" by blast
    with t2 show "trace s3 = trace s" by simp
  qed
  have long_issued: "\<not> long_usable w sp (long_session_token s) \<Longrightarrow>
      \<exists>req. trace s3 = trace s @ [MfaPrompt, GetSessionToken req]"
  proof -
    assume "\<not> long_usable w sp (long_session_token s)"
    with L have "\<not> truthy (long_session_token s1)" by blast
    with k2(5) have "\<not> truthy (long_session_token s2)" by simp
    with R obtain req where "trace s3 = trace s2 @ [MfaPrompt, GetSessionToken req]" by blast
    with t2 show ?thesis by simp
  qed
  show "mfa_prompts (new_events s s') =
           (if long_usable w sp (long_session_token s) then 0 else 1)"
  proof (cases "long_usable w sp (long_session_token s)")
    case True
    from long_kept[OF True] ea tb have "trace s' = trace s @ (ea @ eb)" by simp
    then have "new_events s s' = ea @ eb" by (rule new_events_append)
    with True ea cb show ?thesis by simp
  next
    case False
    from long_issued[OF False] obtain req
      where "trace s3 = trace s @ [MfaPrompt, GetSessionToken req]" by blast
    with ea tb have "trace s' = trace s @ ([MfaPrompt, GetSessionToken req] @ ea @ eb)" by simp
    then have "new_events s s' = [MfaPrompt, GetSessionToken req] @ ea @ eb"
      by (rule new_events_append)
    with False ea cb show ?thesis by simp
  qed
  show "long_requests (new_events s s') =
           (if long_usable w sp (long_session_token s) then 0 else 1)"
  proof (cases "long_usable w sp (long_session_token s)")
    case True
    from long_kept[OF True] ea tb have "trace s' = trace s @ (ea @ eb)" by simp
    then have "new_events s s' = ea @ eb" by (rule new_events_append)
    with True ea cb show ?thesis by simp
  next
    case False
    from long_issued[OF False] obtain req
      where "trace s3 = trace s @ [MfaPrompt, GetSessionToken req]" by blast
    with ea tb have "trace s' = trace s @ ([MfaPrompt, GetSessionToken req] @ ea @ eb)" by simp
    then have "new_events s s' = [MfaPrompt, GetSessionToken req] @ ea @ eb"
      by (rule new_events_append)
    with False ea cb show ?thesis by simp
  qed
  have assumed: "\<not> truthy (short_session_token s2) \<Longrightarrow> role_assumptions (new_events s s') = 1"
  proof -
    assume "\<not> truthy (short_session_token s2)"
    with k3(4) have "\<not> truthy (short_session_token s3)" by simp
    with Q obtain q where q: "trace sa = trace s3 @ [AssumeRole q]" by blast
    from refresh_long_events[OF rl] obtain e3 where e3: "trace s3 = trace s2 @ e3"
      "role_assumptions e3 = 0"
      by blast
    from q e3 t2 tb have "trace s' = trace s @ (e3 @ [AssumeRole q] @ eb)" by simp
    then have "new_events s s' = e3 @ [AssumeRole q] @ eb" by (rule new_events_append)
    with e3 cb show ?thesis by simp
  qed
  show "role_assumptions (new_events s s') = 1"
    if n: "\<not> short_usable w (profile s) (short_session_token s)"
  proof (rule assumed)
    show "\<not> truthy (short_session_token s2)"
    proof (cases "s1 = s")
      case True
      with S n show ?thesis by auto
    next
      case False
      with L have "short_session_token s1 = PNone"
        by (auto split: if_splits)
      with vs have "s2 = s1" by (simp add: validate_short_absent)
      with \<open>short_session_token s1 = PNone\<close> show ?thesis by simp
    qed
  qed
  show "role_assumptions (new_events s s') = 1"
    if tr: "truthy (long_session_token s)" and n: "\<not> long_usable w sp (long_session_token s)"
  proof (rule assumed)
    from L tr n have "short_session_token s1 = PNone" by auto
    moreover from this vs have "s2 = s1" by (simp add: validate_short_absent)
    ultimately show "\<not> truthy (short_session_token s2)" by simp
  qed
qed

lemma validate_long_total:
  assumes "config s ''source_profile'' = Some sp"
    and "\<not> truthy (long_session_token s) \<or>
         (\<exists>t v. parse_expire w (long_session_token s) = Inr t \<and>
            getitem (long_session_token s) ''source_profile'' = Inr v)"
  shows "\<exists>tc s'. validate_long w now s = (Return tc, s')"
  using assms by (auto simp: validate_long_def config_get_def)

lemma validate_short_total:
  assumes "\<not> truthy (short_session_token s) \<or>
         (\<exists>t p. parse_expire w (short_session_token s) = Inr t \<and>
            getitem (short_session_token s) ''profile'' = Inr p)"
  shows "\<exists>s'. validate_short w now s = (Return (), s')"
  using assms by (auto simp: validate_short_def)

lemma validate_short_shape:
  assumes "validate_short w now s = (Return u, s')"
  shows "s' = s \<or> s' = s\<lparr>short_session_token := PNone\<rparr>"
  using assms by (auto simp: validate_short_def split: if_splits sum.splits)

lemma refresh_long_total:
  assumes "config s ''source_profile'' = Some sp" and "config s ''mfa_serial'' = Some m"
    and "sts_client w sp (region s) = None" and "mfa_input w = Inr code"
    and "\<forall>req. \<exists>c. sts_get_session_token w req = Inr c"
  shows "\<exists>s'. refresh_long w s = (Return (), s')"
proof (cases "truthy (long_session_token s)")
  case True
  then show ?thesis by (simp add: refresh_long_def)
next
  case False
  let ?req = "\<lparr>gst_profile_name = sp, gst_region_name = region s,
                gst_duration_seconds = long_session_duration s,
                gst_serial_number = m, gst_token_code = code\<rparr>"
  from assms(5) obtain c where "sts_get_session_token w ?req = Inr c" by blast
  with False assms(1-4) show ?thesis
    by (simp add: refresh_long_def config_get_def Let_def)
qed

lemma refresh_short_total:
  assumes "truthy (short_session_token s) \<or> has_credentials (long_session_token s)"
    and "config s ''role_arn'' = Some arn"
    and "\<forall>req. \<exists>c. sts_assume_role w req = Inr c"
  shows "\<exists>b s'. refresh_short w tc s = (Return b, s')"
proof (cases "truthy (short_session_token s)")
  case True
  then show ?thesis by (simp add: refresh_short_def)
next
  case False
  with assms(1) have "has_credentials (long_session_token s)" by simp
  then obtain k sk t where g: "getitem (long_session_token s) ''aws_access_key_id'' = Inr k"
    "getitem (long_session_token s) ''aws_secret_access_key'' = Inr sk"
    "getitem (long_session_token s) ''aws_session_token'' = Inr t"
    by (auto simp: has_credentials_def split: sum.splits)
  let ?req = "\<lparr>ar_access_key_id = k, ar_secret_access_key = sk, ar_session_token = t,
                ar_role_arn = arn, ar_role_session_name = ''SessionHandlerAssumeRole'',
                ar_duration_seconds = short_session_duration s\<rparr>"
  from assms(3) obtain c where "sts_assume_role w ?req = Inr c" by blast
  with False g assms(2) show ?thesis
    by (auto simp: refresh_short_def config_get_def Let_def)
qed

lemma refresh_short_credentials:
  assumes "refresh_short w tc s = (Return b, s')" and "\<not> truthy (short_session_token s)"
  shows "has_credentials (short_session_token s')"
  using assms
  by (auto simp: refresh_short_def has_credentials_def Let_def split: if_splits sum.splits)

lemma build_session_total:
  assumes "has_credentials (short_session_token s)"
  shows "\<exists>s'. build_session s = (Return (), s')"
proof -
  from assms obtain k sk t where "getitem (short_session_token s) ''aws_access_key_id'' = Inr k"
    "getitem (short_session_token s) ''aws_secret_access_key'' = Inr sk"
    "getitem (short_session_token s) ''aws_session_token'' = Inr t"
    by (auto simp: has_credentials_def split: sum.splits)
  then show ?thesis by (simp add: build_session_def)
qed

lemma write_cache_file_total:
  assumes "disk_cache_disable s \<or>
           (\<exists>p. cache_file s = Some p \<and> (\<forall>v. \<exists>fs'. write_json (fsys s) p v = Inr fs'))"
  shows "\<exists>s'. write_cache_file s = (Return (), s')"
proof (cases "disk_cache_disable s")
  case True
  then show ?thesis by (simp add: write_cache_file_def)
next
  case False
  with assms obtain p where p: "cache_file s = Some p"
    "\<forall>v. \<exists>fs'. write_json (fsys s) p v = Inr fs'"
    by blast
  then obtain fs' where "write_json (fsys s) p
      (PDict [(''long_session_token'', long_session_token s),
              (''short_session_token'', short_session_token s)]) = Inr fs'"
    by blast
  with False p(1) show ?thesis by (simp add: write_cache_file_def Let_def)
qed

lemma assume_role_path_total:
  assumes sp: "config s ''source_profile'' = Some sp"
    and m: "config s ''mfa_serial'' = Some m"
    and arn: "config s ''role_arn'' = Some arn"
    and lw: "\<not> truthy (long_session_token s) \<or>
             (\<exists>t v. parse_expire w (long_session_token s) = Inr t \<and>
                getitem (long_session_token s) ''source_profile'' = Inr v) \<and>
             has_credentials (long_session_token s)"
    and sw: "\<not> truthy (short_session_token s) \<or>
             (\<exists>t p. parse_expire w (short_session_token s) = Inr t \<and>
                getitem (short_session_token s) ''profile'' = Inr p) \<and>
             has_credentials (short_session_token s)"
    and cl: "sts_client w sp (region s) = None" and inp: "mfa_input w = Inr code"
    and g: "\<forall>req. \<exists>c. sts_get_session_token w req = Inr c"
    and a: "\<forall>req. \<exists>c. sts_assume_role w req = Inr c"
    and wr: "disk_cache_disable s \<or>
             (\<exists>p. cache_file s = Some p \<and> (\<forall>v. \<exists>fs'. write_json (fsys s) p v = Inr fs'))"
  shows "\<exists>s'. assume_role_path w s = (Return (), s')"
proof -
  let ?now = "clock w + 10000000"
  from lw have "\<not> truthy (long_session_token s) \<or>
         (\<exists>t v. parse_expire w (long_session_token s) = Inr t \<and>
            getitem (long_session_token s) ''source_profile'' = Inr v)"
    by blast
  from validate_long_total[OF sp this] obtain tc s1
    where vl: "validate_long w ?now s = (Return tc, s1)" by blast
  note k1 = validate_long_keeps[OF vl]
  from validate_long_shape[OF vl]
  have l1: "long_session_token s1 = long_session_token s \<or> \<not> truthy (long_session_token s1)"
    and s1: "short_session_token s1 = short_session_token s \<or> \<not> truthy (short_session_token s1)"
    by auto
  from s1 sw have "\<not> truthy (short_session_token s1) \<or>
         (\<exists>t p. parse_expire w (short_session_token s1) = Inr t \<and>
            getitem (short_session_token s1) ''profile'' = Inr p)"
    by auto
  from validate_short_total[OF this] obtain s2
    where vs: "validate_short w ?now s1 = (Return (), s2)" by blast
  note k2 = validate_short_keeps[OF vs]
  from validate_short_shape[OF vs] s1
  have s2: "short_session_token s2 = short_session_token s \<or> \<not> truthy (short_session_token s2)"
    by auto
  from l1 k2(5)
  have l2: "long_session_token s2 = long_session_token s \<or> \<not> truthy (long_session_token s2)"
    by simp
  have c2: "config s2 = config s" "region s2 = region s"
    using k1(1) k2(1) by (simp_all add: settings_kept_def)
  from refresh_long_total[of s2 sp m w code] sp m cl inp g c2 obtain s3
    where rl: "refresh_long w s2 = (Return (), s3)" by auto
  note k3 = refresh_long_keeps[OF rl]
  have hl: "has_credentials (long_session_token s3)"
  proof (cases "truthy (long_session_token s2)")
    case True
    with refresh_long_returned[OF rl] have "s3 = s2" by blast
    with True l2 lw show ?thesis by auto
  next
    case False
    from refresh_long_credentials[OF rl False] show ?thesis .
  qed
  have c3: "config s3 = config s"
    using k3(1) c2 by (simp add: settings_kept_def)
  from refresh_short_total[of s3 arn w tc] hl arn c3 a obtain b s4
    where rs: "refresh_short w tc s3 = (Return b, s4)" by auto
  note k4 = refresh_short_keeps[OF rs]
  have hs: "has_credentials (short_session_token s4)"
  proof (cases "truthy (short_session_token s3)")
    case True
    with refresh_short_returned[OF rs] have "s4 = s3" by blast
    with True k3(4) s2 sw show ?thesis by auto
  next
    case False
    from refresh_short_credentials[OF rs False] show ?thesis .
  qed
  from build_session_total[OF hs] obtain s5
    where bs: "build_session s4 = (Return (), s5)" by blast
  note k5 = build_session_keeps[OF bs]
  have "disk_cache_disable s5 = disk_cache_disable s" "cache_file s5 = cache_file s"
    "fsys s5 = fsys s"
    using k1 k2 k3 k4 k5 by (simp_all add: settings_kept_def)
  with wr have "disk_cache_disable s5 \<or>
           (\<exists>p. cache_file s5 = Some p \<and> (\<forall>v. \<exists>fs'. write_json (fsys s5) p v = Inr fs'))"
    by simp
  from write_cache_file_total[OF this] obtain s6
    where w6: "write_cache_file s5 = (Return (), s6)" by blast
  from vl vs rl rs bs w6 show ?thesis
    by (simp add: assume_role_path_def Let_def)
qed

lemma can_write_json: "can_write fs p \<Longrightarrow> \<exists>fs'. write_json fs p v = Inr fs'"
  by (auto simp: can_write_def write_json_def split: option.splits if_splits)

lemma token_readable_long:
  "token_readable w tok ''source_profile'' \<Longrightarrow>
   \<not> truthy tok \<or>
   (\<exists>t v. parse_expire w tok = Inr t \<and> getitem tok ''source_profile'' = Inr v) \<and>
   has_credentials tok"
  by (auto simp: token_readable_def split: if_splits sum.splits)

lemma token_readable_short:
  "token_readable w tok ''profile'' \<Longrightarrow>
   \<not> truthy tok \<or>
   (\<exists>t p. parse_expire w tok = Inr t \<and> getitem tok ''profile'' = Inr p) \<and>
   has_credentials tok"
  by (auto simp: token_readable_def split: if_splits sum.splits)

lemma cache_writable_json:
  "cache_writable s \<Longrightarrow>
   disk_cache_disable s \<or>
   (\<exists>p. cache_file s = Some p \<and> (\<forall>v. \<exists>fs'. write_json (fsys s) p v = Inr fs'))"
  by (auto simp: cache_writable_def can_write_json split: if_splits option.splits)

lemma new_events_looked_up [simp]: "new_events (looked_up cfg s) s' = new_events s s'"
  by (simp add: new_events_def)

lemma role_branch_returned:
  assumes "scoped_config w (profile s) = Inr cfg" and "role_required cfg"
    and "cfg ''source_profile'' = Some sp" and "returned (fst (get_session w s))"
  shows "mfa_prompts (new_events s (snd (get_session w s))) =
           (if long_usable w sp (long_session_token s) then 0 else 1) \<and>
         long_requests (new_events s (snd (get_session w s))) =
           (if long_usable w sp (long_session_token s) then 0 else 1) \<and>
         (\<not> short_usable w (profile s) (short_session_token s) \<longrightarrow>
            role_assumptions (new_events s (snd (get_session w s))) = 1) \<and>
         (truthy (long_session_token s) \<and> \<not> long_usable w sp (long_session_token s) \<longrightarrow>
            role_assumptions (new_events s (snd (get_session w s))) = 1) \<and>
         (long_usable w sp (long_session_token s) \<and>
          short_usable w (profile s) (short_session_token s) \<longrightarrow>
            new_events s (snd (get_session w s)) = []) \<and>
         (\<not> disk_cache_disable s \<and>
          role_assumptions (new_events s (snd (get_session w s))) = 1 \<longrightarrow>
            cache_writes (new_events s (snd (get_session w s))) = 1)"
proof -
  let ?s1 = "looked_up cfg s"
  obtain r s' where impl: "get_session_impl w s = (r, s')"
    by (cases "get_session_impl w s")
  then have s': "snd (get_session w s) = s'"
    by (simp add: get_session_snd)
  from impl assms(4) have r: "r = Return ()"
    by (cases r) (simp_all add: get_session_fst)
  from impl assms(1,2) r have run: "assume_role_path w ?s1 = (Return (), s')"
    by (simp add: get_session_impl_role)
  have sp: "config ?s1 ''source_profile'' = Some sp"
    using assms(3) by simp
  note c = assume_role_path_returned[OF run sp]
  have 1: "mfa_prompts (new_events s s') =
             (if long_usable w sp (long_session_token s) then 0 else 1)"
    using c(1) by simp
  have 2: "long_requests (new_events s s') =
             (if long_usable w sp (long_session_token s) then 0 else 1)"
    using c(2) by simp
  have 3: "\<not> short_usable w (profile s) (short_session_token s) \<longrightarrow>
             role_assumptions (new_events s s') = 1"
    using c(3) by simp
  have 4: "truthy (long_session_token s) \<and> \<not> long_usable w sp (long_session_token s) \<longrightarrow>
             role_assumptions (new_events s s') = 1"
    using c(4) by simp
  have 5: "long_usable w sp (long_session_token s) \<and>
           short_usable w (profile s) (short_session_token s) \<longrightarrow> new_events s s' = []"
  proof
    assume u: "long_usable w sp (long_session_token s) \<and>
               short_usable w (profile s) (short_session_token s)"
    with run sp have "build_session ?s1 = (Return (), s')"
      by (simp add: assume_role_path_usable[where sp = sp])
    from build_session_keeps[OF this] show "new_events s s' = []"
      by (simp add: new_events_def)
  qed
  from assume_role_path_summary[OF run] obtain evs
    where t: "trace s' = trace ?s1 @ evs" and sm: "path_summary ?s1 (Return ()) s' evs"
    by auto
  from t have ne: "new_events s s' = evs"
    by (simp add: new_events_def)
  have 6: "\<not> disk_cache_disable s \<and> role_assumptions (new_events s s') = 1 \<longrightarrow>
             cache_writes (new_events s s') = 1"
    using path_summaryD(6)[OF sm] ne by simp
  from 1 2 3 4 5 6 show ?thesis
    unfolding s' by (intro conjI)
qed

lemma role_branch_total:
  assumes "scoped_config w (profile s) = Inr cfg" and "role_required cfg"
    and "cfg ''source_profile'' = Some sp"
    and "token_readable w (long_session_token s) ''source_profile''"
    and "token_readable w (short_session_token s) ''profile''"
    and "sts_client w sp (region (looked_up cfg s)) = None"
    and "mfa_input w = Inr code"
    and "\<forall>req. \<exists>c. sts_get_session_token w req = Inr c"
    and "\<forall>req. \<exists>c. sts_assume_role w req = Inr c"
    and "cache_writable s"
  shows "returned (fst (get_session w s))"
proof -
  let ?s1 = "looked_up cfg s"
  from assms(2) obtain arn m where k: "cfg ''role_arn'' = Some arn" "cfg ''mfa_serial'' = Some m"
    by (auto simp: role_required_iff)
  have "\<exists>s'. assume_role_path w ?s1 = (Return (), s')"
  proof (rule assume_role_path_total[where sp = sp and m = m and arn = arn and code = code])
    show "config ?s1 ''source_profile'' = Some sp" using assms(3) by simp
    show "config ?s1 ''mfa_serial'' = Some m" using k by simp
    show "config ?s1 ''role_arn'' = Some arn" using k by simp
    show "\<not> truthy (long_session_token ?s1) \<or>
          (\<exists>t v. parse_expire w (long_session_token ?s1) = Inr t \<and>
             getitem (long_session_token ?s1) ''source_profile'' = Inr v) \<and>
          has_credentials (long_session_token ?s1)"
      using token_readable_long[OF assms(4)] by simp
    show "\<not> truthy (short_session_token ?s1) \<or>
          (\<exists>t p. parse_expire w (short_session_token ?s1) = Inr t \<and>
             getitem (short_session_token ?s1) ''profile'' = Inr p) \<and>
          has_credentials (short_session_token ?s1)"
      using token_readable_short[OF assms(5)] by simp
    show "sts_client w sp (region ?s1) = None" by (rule assms(6))
    show "mfa_input w = Inr code" by (rule assms(7))
    show "\<forall>req. \<exists>c. sts_get_session_token w req = Inr c" by (rule assms(8))
    show "\<forall>req. \<exists>c. sts_assume_role w req = Inr c" by (rule assms(9))
    show "disk_cache_disable ?s1 \<or>
          (\<exists>p. cache_file ?s1 = Some p \<and> (\<forall>v. \<exists>fs'. write_json (fsys ?s1) p v = Inr fs'))"
      using cache_writable_json[OF assms(10)] by simp
  qed
  then obtain s' where "assume_role_path w ?s1 = (Return (), s')" by blast
  with assms(1,2) have "get_session_impl w s = (Return (), s')"
    by (simp add: get_session_impl_role)
  then show ?thesis by (simp add: get_session_fst)
qed

lemma init_preload:
  assumes "scoped_config w prof = Inr cfg"
    and "cf = Some p \<and> p \<noteq> [] \<and> path_exists fs (dirname p) \<and> access_w fs (dirname p) \<and>
           fs' = fs \<or>
         \<not> truthy_str cf \<and> makedirs fs dcd = Inr fs' \<and> p = path_join dcd cache_filename"
    and "path_exists fs' p \<longrightarrow> access_w fs' p"
  shows "init w fs dcd prof reg cf False ld sd =
           preload_cache
             ((looked_up cfg (fresh_handler prof reg False ld sd fs))
                \<lparr>fsys := fs', cache_file := Some p\<rparr>)"
proof -
  let ?s0 = "looked_up cfg (fresh_handler prof reg False ld sd fs)"
  have f0: "fsys ?s0 = fs" by simp
  from assms(2)
  have "resolve_cache_file dcd cf ?s0 = (Return (), ?s0\<lparr>fsys := fs', cache_file := Some p\<rparr>)"
  proof
    assume e: "cf = Some p \<and> p \<noteq> [] \<and> path_exists fs (dirname p) \<and>
               access_w fs (dirname p) \<and> fs' = fs"
    with assms(3) have "path_exists (fsys ?s0) p \<longrightarrow> access_w (fsys ?s0) p"
      by simp
    with e f0
    have "resolve_cache_file dcd (Some p) ?s0 = (Return (), ?s0\<lparr>cache_file := Some p\<rparr>)"
      by (intro resolve_cache_file_explicit) simp_all
    with e f0 show ?thesis by (simp add: fresh_handler_def looked_up_def)
  next
    assume d: "\<not> truthy_str cf \<and> makedirs fs dcd = Inr fs' \<and>
               p = path_join dcd cache_filename"
    with f0 have "resolve_cache_file dcd cf ?s0 =
        (Return (), ?s0\<lparr>fsys := fs', cache_file := Some (path_join dcd cache_filename)\<rparr>)"
      by (intro resolve_cache_file_default) simp_all
    with d show ?thesis by simp
  qed
  with assms(1) show ?thesis by (simp add: init_unfold)
qed

lemma preload_cache_file:
  assumes "cache_file s = Some p" and "files (fsys s) p = Some f" and "writable f"
  shows "preload_cache s =
     (if readable f then
        (case content f of
           Garbage \<Rightarrow> (Raise JSONDecodeError, s)
         | Doc v \<Rightarrow>
             (case contains v ''long_session_token'' of
                Inl e \<Rightarrow> (Raise e, s)
              | Inr has_long \<Rightarrow>
                  bind
                    (if has_long then
                       (case getitem v ''long_session_token'' of
                          Inl e \<Rightarrow> (Raise e, s)
                        | Inr x \<Rightarrow> (Return (), s\<lparr>long_session_token := x\<rparr>))
                     else (Return (), s))
                    (\<lambda>_ s1.
                       case contains v ''short_session_token'' of
                         Inl e \<Rightarrow> (Raise e, s1)
                       | Inr has_short \<Rightarrow>
                           if has_short then
                             (case getitem v ''short_session_token'' of
                                Inl e \<Rightarrow> (Raise e, s1)
                              | Inr x \<Rightarrow> (Return (), s1\<lparr>short_session_token := x\<rparr>))
                           else (Return (), s1))))
      else (Raise OSError, s))"
  using assms
  by (simp add: preload_cache_def path_exists_def access_w_def read_json_def
      split: file_content.splits)

lemma preload_cache_unreadable:
  assumes "cache_file s = Some p" and "files (fsys s) p = Some f" and "writable f"
    and "\<not> readable f"
  shows "preload_cache s = (Raise OSError, s)"
  using assms by (simp add: preload_cache_file)

lemma preload_cache_garbage:
  assumes "cache_file s = Some p" and "files (fsys s) p = Some f" and "writable f"
    and "readable f" and "content f = Garbage"
  shows "preload_cache s = (Raise JSONDecodeError, s)"
  using assms by (simp add: preload_cache_file)

lemma preload_cache_scalar:
  assumes "cache_file s = Some p" and "files (fsys s) p = Some f" and "writable f"
    and "readable f" and "content f = Doc v"
    and "v = PNone \<or> (\<exists>b. v = PBool b) \<or> (\<exists>n. v = PInt n)"
  shows "preload_cache s = (Raise TypeError, s)"
  using assms by (auto simp: preload_cache_file)

lemma preload_cache_str:
  assumes "cache_file s = Some p" and "files (fsys s) p = Some f" and "writable f"
    and "readable f" and "content f = Doc (PStr x)"
  shows "preload_cache s =
           (if is_infix ''long_session_token'' x \<or> is_infix ''short_session_token'' x
            then (Raise TypeError, s) else (Return (), s))"
  using assms by (simp add: preload_cache_file)

lemma preload_cache_list:
  assumes "cache_file s = Some p" and "files (fsys s) p = Some f" and "writable f"
    and "readable f" and "content f = Doc (PList xs)"
  shows "preload_cache s =
           (if PStr ''long_session_token'' \<in> set xs \<or> PStr ''short_session_token'' \<in> set xs
            then (Raise TypeError, s) else (Return (), s))"
  using assms by (simp add: preload_cache_file)

lemmas init_defs =
  init_def config_lookup_def resolve_cache_file_def explicit_cache_file_def
  default_cache_file_def makedirs_def path_join_def cache_filename_def preload_cache_def
  path_exists_def access_w_def read_json_def dirname_def duration_or_def Let_def

section \<open>Changing the selectors\<close>

text \<open>
  C10. \<open>set(profile, region)\<close> leaves a field as it is when its argument is \<open>None\<close>
  or the empty string, and stores a truthy argument. So a call to \<open>set\<close> never
  turns a selector back into an unset one: whenever a field differs after the call,
  its new value is truthy. No other field of the handler changes.
\<close>

theorem set_keeps_falsy_arguments:
  "(\<not> truthy_str p \<longrightarrow> profile (set_selectors p r s) = profile s) \<and>
   (\<not> truthy_str r \<longrightarrow> region (set_selectors p r s) = region s) \<and>
   (truthy_str p \<longrightarrow> profile (set_selectors p r s) = p) \<and>
   (truthy_str r \<longrightarrow> region (set_selectors p r s) = r) \<and>
   (profile (set_selectors p r s) \<noteq> profile s \<longrightarrow> truthy_str (profile (set_selectors p r s))) \<and>
   (region (set_selectors p r s) \<noteq> region s \<longrightarrow> truthy_str (region (set_selectors p r s))) \<and>
   set_selectors p r s = s\<lparr>profile := profile (set_selectors p r s),
                            region := region (set_selectors p r s)\<rparr>"
  by (simp add: set_selectors_def Let_def)

theorem set_keeps_falsy_arguments_witness:
  "profile (set_selectors None (Some ''us-east-1'') (demo_state False PNone PNone)) = Some ''dev'' \<and>
   region (set_selectors None (Some ''us-east-1'') (demo_state False PNone PNone)) = Some ''us-east-1'' \<and>
   profile (set_selectors (Some ''prod'') (Some []) (demo_state False PNone PNone)) = Some ''prod'' \<and>
   region (set_selectors (Some ''prod'') (Some []) (demo_state False PNone PNone)) = Some ''eu-west-1''"
proof -
  have a: "\<not> truthy_str None" and b: "truthy_str (Some ''us-east-1'')"
    and c: "truthy_str (Some ''prod'')" and d: "\<not> truthy_str (Some [])"
    by simp_all
  have p: "profile (demo_state False PNone PNone) = Some ''dev''"
    and r: "region (demo_state False PNone PNone) = Some ''eu-west-1''"
    by (simp_all add: demo_state_def)
  from set_keeps_falsy_arguments[of None "Some ''us-east-1''" "demo_state False PNone PNone"]
    set_keeps_falsy_arguments[of "Some ''prod''" "Some []" "demo_state False PNone PNone"]
    a b c d p r
  show ?thesis by metis
qed

section \<open>Calling twice\<close>

text \<open>
  C5. A handler holds a usable long token and a usable short token: both expire after
  the clock plus ten seconds, the long token's \<open>source_profile\<close> is the one of the
  configuration resolved for the profile selector, and the short token's \<open>profile\<close>
  is the profile selector. Then \<open>get_session\<close> adds no event to the trace (no MFA
  prompt, no token-service call, no cache write) and leaves the file system alone, and
  a second \<open>get_session\<close> under the same clock and configuration store returns what
  the first returned and changes nothing at all: not the trace, not the file system,
  no field of the handler.
\<close>

theorem second_call_is_silent:
  assumes "scoped_config w (profile s) = Inr cfg" and "cfg ''source_profile'' = Some sp"
    and "long_usable w sp (long_session_token s)"
    and "short_usable w (profile s) (short_session_token s)"
  shows "get_session w (snd (get_session w s)) = get_session w s \<and>
         new_events (snd (get_session w s)) (snd (get_session w (snd (get_session w s)))) = [] \<and>
         fsys (snd (get_session w (snd (get_session w s)))) = fsys (snd (get_session w s)) \<and>
         new_events s (snd (get_session w s)) = [] \<and>
         fsys (snd (get_session w s)) = fsys s"
proof -
  obtain r s' where first: "get_session_impl w s = (r, s')"
    by (cases "get_session_impl w s")
  from get_session_impl_silent[OF assms first]
  have again: "get_session_impl w s' = (r, s')" and t: "trace s' = trace s"
    and f: "fsys s' = fsys s"
    by simp_all
  have one: "snd (get_session w s) = s'"
    using first by (cases r) (simp_all add: get_session_def)
  have two: "get_session w s' = get_session w s"
    using first again by (simp add: get_session_def)
  show ?thesis
    using one two t f by (simp add: new_events_def)
qed

theorem second_call_is_silent_witness:
  "long_usable demo_world ''base'' (demo_long ''2030-01-01T06:00:00+00:00'' ''base'') \<and>
   short_usable demo_world (Some ''dev'') (demo_short ''2030-01-01T00:20:00+00:00'' ''dev'') \<and>
   new_events
     (snd (get_session demo_world
        (demo_state False (demo_long ''2030-01-01T06:00:00+00:00'' ''base'')
           (demo_short ''2030-01-01T00:20:00+00:00'' ''dev''))))
     (snd (get_session demo_world (snd (get_session demo_world
        (demo_state False (demo_long ''2030-01-01T06:00:00+00:00'' ''base'')
           (demo_short ''2030-01-01T00:20:00+00:00'' ''dev'')))))) = []"
proof -
  let ?s = "demo_state False (demo_long ''2030-01-01T06:00:00+00:00'' ''base'')
              (demo_short ''2030-01-01T00:20:00+00:00'' ''dev'')"
  have c: "scoped_config demo_world (profile ?s) = Inr dev_config"
    by (simp add: demo_world_def demo_state_def)
  have sp: "dev_config ''source_profile'' = Some ''base''"
    by (simp add: dev_config_def)
  have l: "long_usable demo_world ''base'' (demo_long ''2030-01-01T06:00:00+00:00'' ''base'')"
    by (simp add: long_usable_def parse_expire_def demo_long_def demo_world_def
        demo_strptime_def demo_clock_def)
  have sh: "short_usable demo_world (Some ''dev'')
              (demo_short ''2030-01-01T00:20:00+00:00'' ''dev'')"
    by (simp add: short_usable_def parse_expire_def demo_short_def demo_world_def
        demo_strptime_def demo_clock_def)
  have l': "long_usable demo_world ''base'' (long_session_token ?s)"
    using l by (simp add: demo_state_def)
  have sh': "short_usable demo_world (profile ?s) (short_session_token ?s)"
    using sh by (simp add: demo_state_def)
  from second_call_is_silent[OF c sp l' sh'] l sh show ?thesis by blast
qed

section \<open>Which branch a call takes\<close>

text \<open>
  C4. After a successful lookup, \<open>_get_session\<close> takes the role-assumption branch
  (lines 131 to 208) exactly when the resolved configuration has all three of
  \<open>role_arn\<close>, \<open>mfa_serial\<close> and \<open>source_profile\<close>.

  On that branch the machinery runs. The call returns whenever the cached tokens are
  absent or well formed, an STS client can be made for the source profile, the MFA
  prompt is answered, the token service answers both kinds of request, and the cache
  file can be written (or the disk cache is disabled). A call that returns has prompted
  for MFA once and requested one long token unless the long token was usable, and has
  then done neither; it has assumed the role once when the short token was not usable
  and when a long token that was present had to be replaced; with both tokens usable
  it has done nothing at all; with the disk cache enabled, a call that assumed the
  role has written the cache file once; and the session it returns is built from the
  three credential fields of the short token.

  With any of the three keys missing the call returns the session of the default
  credential chain, adds no event to the trace (no MFA prompt, no token-service call,
  no cache write), and leaves the file system and both cached tokens as they were.
\<close>

theorem role_assumption_iff_three_keys:
  assumes "scoped_config w (profile s) = Inr cfg"
  shows "(role_required cfg \<longleftrightarrow>
            (\<exists>a m p. cfg ''role_arn'' = Some a \<and> cfg ''mfa_serial'' = Some m \<and>
               cfg ''source_profile'' = Some p)) \<and>
         (role_required cfg \<longrightarrow>
            get_session_impl w s = assume_role_path w (looked_up cfg s) \<and>
            (\<forall>b. fst (get_session w s) = Return b \<longrightarrow>
               (\<exists>k sk t. b = Some (CredentialSession (region (snd (get_session w s))) k sk t) \<and>
                  getitem (short_session_token (snd (get_session w s))) ''aws_access_key_id'' = Inr k \<and>
                  getitem (short_session_token (snd (get_session w s))) ''aws_secret_access_key'' = Inr sk \<and>
                  getitem (short_session_token (snd (get_session w s))) ''aws_session_token'' = Inr t)) \<and>
            (\<forall>sp code.
               cfg ''source_profile'' = Some sp \<and>
               token_readable w (long_session_token s) ''source_profile'' \<and>
               token_readable w (short_session_token s) ''profile'' \<and>
               sts_client w sp (region (looked_up cfg s)) = None \<and>
               mfa_input w = Inr code \<and>
               (\<forall>req. \<exists>c. sts_get_session_token w req = Inr c) \<and>
               (\<forall>req. \<exists>c. sts_assume_role w req = Inr c) \<and>
               cache_writable s \<longrightarrow>
                 returned (fst (get_session w s))) \<and>
            (\<forall>sp.
               cfg ''source_profile'' = Some sp \<and> returned (fst (get_session w s)) \<longrightarrow>
                 mfa_prompts (new_events s (snd (get_session w s))) =
                   (if long_usable w sp (long_session_token s) then 0 else 1) \<and>
                 long_requests (new_events s (snd (get_session w s))) =
                   (if long_usable w sp (long_session_token s) then 0 else 1) \<and>
                 (\<not> short_usable w (profile s) (short_session_token s) \<longrightarrow>
                    role_assumptions (new_events s (snd (get_session w s))) = 1) \<and>
                 (truthy (long_session_token s) \<and>
                  \<not> long_usable w sp (long_session_token s) \<longrightarrow>
                    role_assumptions (new_events s (snd (get_session w s))) = 1) \<and>
                 (long_usable w sp (long_session_token s) \<and>
                  short_usable w (profile s) (short_session_token s) \<longrightarrow>
                    new_events s (snd (get_session w s)) = []) \<and>
                 (\<not> disk_cache_disable s \<and>
                  role_assumptions (new_events s (snd (get_session w s))) = 1 \<longrightarrow>
                    cache_writes (new_events s (snd (get_session w s))) = 1))) \<and>
         (\<not> role_required cfg \<longrightarrow>
            fst (get_session w s) = Return (Some (DefaultChainSession (profile s))) \<and>
            new_events s (snd (get_session w s)) = [] \<and>
            fsys (snd (get_session w s)) = fsys s \<and>
            long_session_token (snd (get_session w s)) = long_session_token s \<and>
            short_session_token (snd (get_session w s)) = short_session_token s)"
    (is "?keys \<and> (_ \<longrightarrow> ?role) \<and> (_ \<longrightarrow> ?plain)")
proof -
  have keys: "role_required cfg \<longleftrightarrow>
          (\<exists>a m p. cfg ''role_arn'' = Some a \<and> cfg ''mfa_serial'' = Some m \<and>
             cfg ''source_profile'' = Some p)"
    by (rule role_required_iff)
  have branch: "get_session_impl w s = assume_role_path w (looked_up cfg s)"
    if "role_required cfg"
    using assms that by (rule get_session_impl_role)
  have built: "\<forall>b. fst (get_session w s) = Return b \<longrightarrow>
               (\<exists>k sk t. b = Some (CredentialSession (region (snd (get_session w s))) k sk t) \<and>
                  getitem (short_session_token (snd (get_session w s))) ''aws_access_key_id'' = Inr k \<and>
                  getitem (short_session_token (snd (get_session w s))) ''aws_secret_access_key'' = Inr sk \<and>
                  getitem (short_session_token (snd (get_session w s))) ''aws_session_token'' = Inr t)"
    if req: "role_required cfg"
  proof (intro allI impI)
    fix b
    assume ret: "fst (get_session w s) = Return b"
    obtain r s' where run: "assume_role_path w (looked_up cfg s) = (r, s')"
      by (cases "assume_role_path w (looked_up cfg s)")
    with assms req have impl: "get_session_impl w s = (r, s')"
      by (simp add: get_session_impl_role)
    with ret have r: "r = Return ()" and b: "b = session s'"
      by (cases r; simp add: get_session_fst)+
    from impl have s': "snd (get_session w s) = s'"
      by (simp add: get_session_snd)
    from assume_role_path_session[of w "looked_up cfg s" "()" s'] run r b s'
    show "\<exists>k sk t. b = Some (CredentialSession (region (snd (get_session w s))) k sk t) \<and>
          getitem (short_session_token (snd (get_session w s))) ''aws_access_key_id'' = Inr k \<and>
          getitem (short_session_token (snd (get_session w s))) ''aws_secret_access_key'' = Inr sk \<and>
          getitem (short_session_token (snd (get_session w s))) ''aws_session_token'' = Inr t"
      by simp
  qed
  have runs: "\<forall>sp code.
               cfg ''source_profile'' = Some sp \<and>
               token_readable w (long_session_token s) ''source_profile'' \<and>
               token_readable w (short_session_token s) ''profile'' \<and>
               sts_client w sp (region (looked_up cfg s)) = None \<and>
               mfa_input w = Inr code \<and>
               (\<forall>req. \<exists>c. sts_get_session_token w req = Inr c) \<and>
               (\<forall>req. \<exists>c. sts_assume_role w req = Inr c) \<and>
               cache_writable s \<longrightarrow>
                 returned (fst (get_session w s))"
    if req: "role_required cfg"
  proof (intro allI impI)
    fix sp code
    assume h: "cfg ''source_profile'' = Some sp \<and>
               token_readable w (long_session_token s) ''source_profile'' \<and>
               token_readable w (short_session_token s) ''profile'' \<and>
               sts_client w sp (region (looked_up cfg s)) = None \<and>
               mfa_input w = Inr code \<and>
               (\<forall>req. \<exists>c. sts_get_session_token w req = Inr c) \<and>
               (\<forall>req. \<exists>c. sts_assume_role w req = Inr c) \<and>
               cache_writable s"
    show "returned (fst (get_session w s))"
    proof (rule role_branch_total[OF assms req, where sp = sp and code = code])
      show "cfg ''source_profile'' = Some sp" using h by simp
      show "token_readable w (long_session_token s) ''source_profile''" using h by simp
      show "token_readable w (short_session_token s) ''profile''" using h by simp
      show "sts_client w sp (region (looked_up cfg s)) = None" using h by simp
      show "mfa_input w = Inr code" using h by simp
      show "\<forall>req. \<exists>c. sts_get_session_token w req = Inr c" using h by blast
      show "\<forall>req. \<exists>c. sts_assume_role w req = Inr c" using h by blast
      show "cache_writable s" using h by simp
    qed
  qed
  have did: "\<forall>sp.
               cfg ''source_profile'' = Some sp \<and> returned (fst (get_session w s)) \<longrightarrow>
                 mfa_prompts (new_events s (snd (get_session w s))) =
                   (if long_usable w sp (long_session_token s) then 0 else 1) \<and>
                 long_requests (new_events s (snd (get_session w s))) =
                   (if long_usable w sp (long_session_token s) then 0 else 1) \<and>
                 (\<not> short_usable w (profile s) (short_session_token s) \<longrightarrow>
                    role_assumptions (new_events s (snd (get_session w s))) = 1) \<and>
                 (truthy (long_session_token s) \<and>
                  \<not> long_usable w sp (long_session_token s) \<longrightarrow>
                    role_assumptions (new_events s (snd (get_session w s))) = 1) \<and>
                 (long_usable w sp (long_session_token s) \<and>
                  short_usable w (profile s) (short_session_token s) \<longrightarrow>
                    new_events s (snd (get_session w s)) = []) \<and>
                 (\<not> disk_cache_disable s \<and>
                  role_assumptions (new_events s (snd (get_session w s))) = 1 \<longrightarrow>
                    cache_writes (new_events s (snd (get_session w s))) = 1)"
    if req: "role_required cfg"
  proof (intro allI impI)
    fix sp
    assume h: "cfg ''source_profile'' = Some sp \<and> returned (fst (get_session w s))"
    then have a: "cfg ''source_profile'' = Some sp" and b: "returned (fst (get_session w s))"
      by simp_all
    from role_branch_returned[OF assms req a b]
    show "mfa_prompts (new_events s (snd (get_session w s))) =
                   (if long_usable w sp (long_session_token s) then 0 else 1) \<and>
                 long_requests (new_events s (snd (get_session w s))) =
                   (if long_usable w sp (long_session_token s) then 0 else 1) \<and>
                 (\<not> short_usable w (profile s) (short_session_token s) \<longrightarrow>
                    role_assumptions (new_events s (snd (get_session w s))) = 1) \<and>
                 (truthy (long_session_token s) \<and>
                  \<not> long_usable w sp (long_session_token s) \<longrightarrow>
                    role_assumptions (new_events s (snd (get_session w s))) = 1) \<and>
                 (long_usable w sp (long_session_token s) \<and>
                  short_usable w (profile s) (short_session_token s) \<longrightarrow>
                    new_events s (snd (get_session w s)) = []) \<and>
                 (\<not> disk_cache_disable s \<and>
                  role_assumptions (new_events s (snd (get_session w s))) = 1 \<longrightarrow>
                    cache_writes (new_events s (snd (get_session w s))) = 1)" .
  qed
  have plain: "fst (get_session w s) = Return (Some (DefaultChainSession (profile s))) \<and>
            new_events s (snd (get_session w s)) = [] \<and>
            fsys (snd (get_session w s)) = fsys s \<and>
            long_session_token (snd (get_session w s)) = long_session_token s \<and>
            short_session_token (snd (get_session w s)) = short_session_token s"
    if "\<not> role_required cfg"
    using get_session_impl_plain[OF assms that]
    by (simp add: get_session_fst get_session_snd new_events_def)
  have role: "role_required cfg \<longrightarrow> ?role"
  proof
    assume r: "role_required cfg"
    from branch[OF r] built[OF r] runs[OF r] did[OF r] show ?role
      by (intro conjI)
  qed
  have other: "\<not> role_required cfg \<longrightarrow> ?plain"
  proof
    assume "\<not> role_required cfg"
    then show ?plain by (rule plain)
  qed
  from keys role other show ?thesis
    by (intro conjI)
qed

theorem role_assumption_iff_three_keys_witness:
  "role_required dev_config \<and> \<not> role_required plain_config \<and>
   returned (fst (get_session demo_world (demo_state False PNone PNone))) \<and>
   mfa_prompts (new_events (demo_state False PNone PNone)
     (snd (get_session demo_world (demo_state False PNone PNone)))) = 1 \<and>
   long_requests (new_events (demo_state False PNone PNone)
     (snd (get_session demo_world (demo_state False PNone PNone)))) = 1 \<and>
   role_assumptions (new_events (demo_state False PNone PNone)
     (snd (get_session demo_world (demo_state False PNone PNone)))) = 1 \<and>
   cache_writes (new_events (demo_state False PNone PNone)
     (snd (get_session demo_world (demo_state False PNone PNone)))) = 1 \<and>
   fst (get_session demo_world ((demo_state False PNone PNone)\<lparr>profile := Some ''base''\<rparr>)) =
     Return (Some (DefaultChainSession (Some ''base''))) \<and>
   new_events ((demo_state False PNone PNone)\<lparr>profile := Some ''base''\<rparr>)
     (snd (get_session demo_world ((demo_state False PNone PNone)\<lparr>profile := Some ''base''\<rparr>))) = []"
proof -
  let ?a = "demo_state False PNone PNone"
  let ?b = "(demo_state False PNone PNone)\<lparr>profile := Some ''base''\<rparr>"
  have ca: "scoped_config demo_world (profile ?a) = Inr dev_config"
    by (simp add: demo_world_def demo_state_def)
  have cb: "scoped_config demo_world (profile ?b) = Inr plain_config"
    by (simp add: demo_world_def demo_state_def)
  have ra: "role_required dev_config"
    by (simp add: role_required_def dev_config_def)
  have rb: "\<not> role_required plain_config"
    by (simp add: role_required_def plain_config_def)
  note A = role_assumption_iff_three_keys[OF ca, THEN conjunct2, THEN conjunct1, THEN mp, OF ra]
  note B = role_assumption_iff_three_keys[OF cb, THEN conjunct2, THEN conjunct2, THEN mp, OF rb]
  have ready:
    "dev_config ''source_profile'' = Some ''base'' \<and>
     token_readable demo_world (long_session_token ?a) ''source_profile'' \<and>
     token_readable demo_world (short_session_token ?a) ''profile'' \<and>
     sts_client demo_world ''base'' (region (looked_up dev_config ?a)) = None \<and>
     mfa_input demo_world = Inr ''123456'' \<and>
     (\<forall>req. \<exists>c. sts_get_session_token demo_world req = Inr c) \<and>
     (\<forall>req. \<exists>c. sts_assume_role demo_world req = Inr c) \<and>
     cache_writable ?a"
    by (simp add: dev_config_def token_readable_def demo_state_def demo_world_def
        cache_writable_def can_write_def parent_dir_def dirname_def demo_fs_def demo_path_def)
  from A[THEN conjunct2, THEN conjunct2, THEN conjunct1, rule_format, OF ready]
  have ret: "returned (fst (get_session demo_world ?a))" .
  have sp: "dev_config ''source_profile'' = Some ''base''"
    by (simp add: dev_config_def)
  from sp ret have "dev_config ''source_profile'' = Some ''base'' \<and>
                     returned (fst (get_session demo_world ?a))"
    by simp
  note D = A[THEN conjunct2, THEN conjunct2, THEN conjunct2, rule_format, OF this]
  have nl: "\<not> long_usable demo_world ''base'' (long_session_token ?a)"
    and ns: "\<not> short_usable demo_world (profile ?a) (short_session_token ?a)"
    and en: "\<not> disk_cache_disable ?a"
    by (simp_all add: long_usable_def short_usable_def parse_expire_def demo_state_def)
  from D nl have mp: "mfa_prompts (new_events ?a (snd (get_session demo_world ?a))) = 1"
    and lr: "long_requests (new_events ?a (snd (get_session demo_world ?a))) = 1"
    by simp_all
  from D ns have ar: "role_assumptions (new_events ?a (snd (get_session demo_world ?a))) = 1"
    by simp
  from D en ar have cw: "cache_writes (new_events ?a (snd (get_session demo_world ?a))) = 1"
    by simp
  have pb: "profile ?b = Some ''base''"
    by simp
  from B pb have db: "fst (get_session demo_world ?b) =
      Return (Some (DefaultChainSession (Some ''base'')))"
    and eb: "new_events ?b (snd (get_session demo_world ?b)) = []"
    by simp_all
  from ra rb ret mp lr ar cw db eb show ?thesis by (intro conjI)
qed

section \<open>When the cache file is written\<close>

text \<open>
  C2, as stated, fails on the code. With \<open>disable_file_cache\<close> a call issues both
  tokens and writes nothing; and with the cache enabled, a call that starts without a
  long token but with a usable short token issues a long token and writes nothing
  either.
\<close>

theorem cache_write_iff_issued_counterexample:
  "returned (fst (get_session demo_world (demo_state True PNone PNone))) \<and>
   long_requests (new_events (demo_state True PNone PNone)
     (snd (get_session demo_world (demo_state True PNone PNone)))) = 1 \<and>
   role_assumptions (new_events (demo_state True PNone PNone)
     (snd (get_session demo_world (demo_state True PNone PNone)))) = 1 \<and>
   cache_writes (new_events (demo_state True PNone PNone)
     (snd (get_session demo_world (demo_state True PNone PNone)))) = 0 \<and>
   returned (fst (get_session demo_world
     (demo_state False PNone (demo_short ''2030-01-01T00:20:00+00:00'' ''dev'')))) \<and>
   long_requests (new_events
     (demo_state False PNone (demo_short ''2030-01-01T00:20:00+00:00'' ''dev''))
     (snd (get_session demo_world
        (demo_state False PNone (demo_short ''2030-01-01T00:20:00+00:00'' ''dev''))))) = 1 \<and>
   cache_writes (new_events
     (demo_state False PNone (demo_short ''2030-01-01T00:20:00+00:00'' ''dev''))
     (snd (get_session demo_world
        (demo_state False PNone (demo_short ''2030-01-01T00:20:00+00:00'' ''dev''))))) = 0"
  by (simp add: run_disabled run_long_only)

text \<open>
  C2, amended. On the role-assumption branch a call writes the cache file at most
  once. A call in which no token is requested writes nothing and leaves the file system
  alone, and so does every call of a handler with \<open>disable_file_cache\<close>. With the
  cache enabled, a call that returns and assumed the role (so issued the short token)
  writes exactly once: the write is the last event of the call, and the file then holds
  one document with both tokens as the handler now has them in memory. (What happens
  when only the long token is issued is not part of the statement.)
\<close>

theorem cache_written_with_short_token:
  assumes "scoped_config w (profile s) = Inr cfg" and "role_required cfg"
  shows "trace (snd (get_session w s)) = trace s @ new_events s (snd (get_session w s)) \<and>
         cache_writes (new_events s (snd (get_session w s))) \<le> 1 \<and>
         (long_requests (new_events s (snd (get_session w s))) = 0 \<and>
          role_assumptions (new_events s (snd (get_session w s))) = 0 \<longrightarrow>
            cache_writes (new_events s (snd (get_session w s))) = 0 \<and>
            fsys (snd (get_session w s)) = fsys s) \<and>
         (disk_cache_disable s \<longrightarrow>
            cache_writes (new_events s (snd (get_session w s))) = 0 \<and>
            fsys (snd (get_session w s)) = fsys s) \<and>
         (returned (fst (get_session w s)) \<and> \<not> disk_cache_disable s \<and>
          role_assumptions (new_events s (snd (get_session w s))) = 1 \<longrightarrow>
            cache_writes (new_events s (snd (get_session w s))) = 1 \<and>
            (\<exists>p f. cache_file s = Some p \<and>
               last (trace (snd (get_session w s))) =
                 CacheWrite p (cache_tokens_of (snd (get_session w s))) \<and>
               files (fsys (snd (get_session w s))) p = Some f \<and>
               content f = Doc (cache_tokens_of (snd (get_session w s)))))"
proof -
  obtain r s' where run: "assume_role_path w (looked_up cfg s) = (r, s')"
    by (cases "assume_role_path w (looked_up cfg s)")
  with assms have impl: "get_session_impl w s = (r, s')"
    by (simp add: get_session_impl_role)
  then have s': "snd (get_session w s) = s'"
    by (simp add: get_session_snd)
  from impl have ret: "returned (fst (get_session w s)) \<longleftrightarrow> r = Return ()"
    by (cases r) (simp_all add: get_session_fst)
  from assume_role_path_summary[OF run] obtain evs
    where t: "trace s' = trace s @ evs" and sm: "path_summary (looked_up cfg s) r s' evs"
    by auto
  from t have ne: "new_events s s' = evs" by simp
  note sd = path_summaryD[OF sm]
  have a: "cache_writes evs \<le> 1" by (rule sd(1))
  have b: "cache_writes evs = 0 \<longrightarrow> fsys s' = fsys s"
    using sd(2) by (simp only: looked_up_fields)
  have c: "long_requests evs = 0 \<and> role_assumptions evs = 0 \<longrightarrow> cache_writes evs = 0"
    by (rule sd(3))
  have d: "disk_cache_disable s \<longrightarrow> cache_writes evs = 0"
    using sd(4) by (simp only: looked_up_fields)
  have e: "r = Return () \<and> \<not> disk_cache_disable s \<and> role_assumptions evs = 1 \<longrightarrow>
          cache_writes evs = 1 \<and>
          (\<exists>p f pre. cache_file s = Some p \<and> evs = pre @ [CacheWrite p (cache_tokens_of s')] \<and>
             files (fsys s') p = Some f \<and> content f = Doc (cache_tokens_of s'))"
    using sd(6) by (simp only: looked_up_fields)
  have e': "r = Return () \<and> \<not> disk_cache_disable s \<and> role_assumptions evs = 1 \<longrightarrow>
          cache_writes evs = 1 \<and>
          (\<exists>p f. cache_file s = Some p \<and> last (trace s') = CacheWrite p (cache_tokens_of s') \<and>
             files (fsys s') p = Some f \<and> content f = Doc (cache_tokens_of s'))"
  proof (intro impI)
    assume h: "r = Return () \<and> \<not> disk_cache_disable s \<and> role_assumptions evs = 1"
    with e obtain p f pre where w: "cache_writes evs = 1" "cache_file s = Some p"
      "evs = pre @ [CacheWrite p (cache_tokens_of s')]"
      "files (fsys s') p = Some f" "content f = Doc (cache_tokens_of s')"
      by blast
    from t w(3) have "last (trace s') = CacheWrite p (cache_tokens_of s')" by simp
    with w show "cache_writes evs = 1 \<and>
          (\<exists>p f. cache_file s = Some p \<and> last (trace s') = CacheWrite p (cache_tokens_of s') \<and>
             files (fsys s') p = Some f \<and> content f = Doc (cache_tokens_of s'))"
      by blast
  qed
  have 1: "trace s' = trace s @ new_events s s'"
    using t ne by simp
  have 3: "long_requests evs = 0 \<and> role_assumptions evs = 0 \<longrightarrow>
             cache_writes evs = 0 \<and> fsys s' = fsys s"
    using b c by auto
  have 4: "disk_cache_disable s \<longrightarrow> cache_writes evs = 0 \<and> fsys s' = fsys s"
    using b d by auto
  have 5: "returned (fst (get_session w s)) \<and> \<not> disk_cache_disable s \<and>
           role_assumptions evs = 1 \<longrightarrow>
             cache_writes evs = 1 \<and>
             (\<exists>p f. cache_file s = Some p \<and> last (trace s') = CacheWrite p (cache_tokens_of s') \<and>
                files (fsys s') p = Some f \<and> content f = Doc (cache_tokens_of s'))"
    using e' ret by auto
  from 1 a 3 4 5 show ?thesis
    unfolding s' ne by (intro conjI)
qed

theorem cache_written_with_short_token_witness:
  "role_required dev_config \<and>
   returned (fst (get_session demo_world (demo_state False PNone PNone))) \<and>
   role_assumptions (new_events (demo_state False PNone PNone)
     (snd (get_session demo_world (demo_state False PNone PNone)))) = 1 \<and>
   cache_writes (new_events (demo_state False PNone PNone)
     (snd (get_session demo_world (demo_state False PNone PNone)))) = 1 \<and>
   long_requests (new_events
     (demo_state False (demo_long ''2030-01-01T06:00:00+00:00'' ''base'')
        (demo_short ''2030-01-01T00:20:00+00:00'' ''dev''))
     (snd (get_session demo_world
        (demo_state False (demo_long ''2030-01-01T06:00:00+00:00'' ''base'')
           (demo_short ''2030-01-01T00:20:00+00:00'' ''dev''))))) = 0 \<and>
   role_assumptions (new_events
     (demo_state False (demo_long ''2030-01-01T06:00:00+00:00'' ''base'')
        (demo_short ''2030-01-01T00:20:00+00:00'' ''dev''))
     (snd (get_session demo_world
        (demo_state False (demo_long ''2030-01-01T06:00:00+00:00'' ''base'')
           (demo_short ''2030-01-01T00:20:00+00:00'' ''dev''))))) = 0 \<and>
   cache_writes (new_events
     (demo_state False (demo_long ''2030-01-01T06:00:00+00:00'' ''base'')
        (demo_short ''2030-01-01T00:20:00+00:00'' ''dev''))
     (snd (get_session demo_world
        (demo_state False (demo_long ''2030-01-01T06:00:00+00:00'' ''base'')
           (demo_short ''2030-01-01T00:20:00+00:00'' ''dev''))))) = 0"
proof -
  let ?a = "demo_state False PNone PNone"
  let ?b = "demo_state False (demo_long ''2030-01-01T06:00:00+00:00'' ''base'')
              (demo_short ''2030-01-01T00:20:00+00:00'' ''dev'')"
  have ca: "scoped_config demo_world (profile ?a) = Inr dev_config"
    by (simp add: demo_world_def demo_state_def)
  have cb: "scoped_config demo_world (profile ?b) = Inr dev_config"
    by (simp add: demo_world_def demo_state_def)
  have rr: "role_required dev_config"
    by (simp add: role_required_def dev_config_def)
  have en: "\<not> disk_cache_disable ?a"
    by (simp add: demo_state_def)
  have ret: "returned (fst (get_session demo_world ?a))"
    by (simp add: run_defs demo_defs)
  have ra: "role_assumptions (new_events ?a (snd (get_session demo_world ?a))) = 1"
    by (simp add: run_defs demo_defs)
  have lb: "long_requests (new_events ?b (snd (get_session demo_world ?b))) = 0"
    by (simp add: run_defs demo_defs)
  have rb: "role_assumptions (new_events ?b (snd (get_session demo_world ?b))) = 0"
    by (simp add: run_defs demo_defs)
  from cache_written_with_short_token[OF ca rr] en ret ra
  have wa: "cache_writes (new_events ?a (snd (get_session demo_world ?a))) = 1"
    by blast
  from cache_written_with_short_token[OF cb rr] lb rb
  have wb: "cache_writes (new_events ?b (snd (get_session demo_world ?b))) = 0"
    by blast
  from rr ret ra wa lb rb wb show ?thesis by (intro conjI)
qed

section \<open>A long token issued next to a kept short token\<close>

text \<open>
  C1 says that a call which issues a long token also assumes the role again. The code
  clears the short token only inside the check of a long token that is present (lines
  136 to 147). On the concrete setting, a handler whose cache held a usable short
  token for profile \<open>dev\<close> and no long token prompts for MFA and requests a long
  token, makes no role-assumption call, returns a session built from the old short
  token, keeps that token, and writes nothing to the cache file.
\<close>

theorem long_token_issued_short_token_kept:
  "fst (get_session demo_world
          (demo_state False PNone (demo_short ''2030-01-01T00:20:00+00:00'' ''dev''))) =
     Return (Some (CredentialSession (Some ''eu-west-1'') (PStr ''ASIAOLDSHORT'')
        (PStr ''old-short-secret'') (PStr ''old-short-session''))) \<and>
   mfa_prompts (new_events
     (demo_state False PNone (demo_short ''2030-01-01T00:20:00+00:00'' ''dev''))
     (snd (get_session demo_world
        (demo_state False PNone (demo_short ''2030-01-01T00:20:00+00:00'' ''dev''))))) = 1 \<and>
   long_requests (new_events
     (demo_state False PNone (demo_short ''2030-01-01T00:20:00+00:00'' ''dev''))
     (snd (get_session demo_world
        (demo_state False PNone (demo_short ''2030-01-01T00:20:00+00:00'' ''dev''))))) = 1 \<and>
   role_assumptions (new_events
     (demo_state False PNone (demo_short ''2030-01-01T00:20:00+00:00'' ''dev''))
     (snd (get_session demo_world
        (demo_state False PNone (demo_short ''2030-01-01T00:20:00+00:00'' ''dev''))))) = 0 \<and>
   short_session_token (snd (get_session demo_world
        (demo_state False PNone (demo_short ''2030-01-01T00:20:00+00:00'' ''dev'')))) =
     demo_short ''2030-01-01T00:20:00+00:00'' ''dev'' \<and>
   files (fsys (snd (get_session demo_world
        (demo_state False PNone (demo_short ''2030-01-01T00:20:00+00:00'' ''dev''))))) demo_path =
     None"
  by (simp add: run_long_only)

text \<open>
  When the handler does hold a long token at the start of the call, the rule holds: on
  the role-assumption branch, a call that requested a long token and ends with a long
  token in memory (so the request was answered) has also made a role-assumption call.
\<close>

theorem present_long_token_reissued_with_short:
  assumes "scoped_config w (profile s) = Inr cfg" and "role_required cfg"
    and "truthy (long_session_token s)"
  shows "long_requests (new_events s (snd (get_session w s))) = 1 \<and>
         truthy (long_session_token (snd (get_session w s))) \<longrightarrow>
           role_assumptions (new_events s (snd (get_session w s))) = 1"
proof -
  let ?now = "clock w + 10000000"
  let ?s1 = "looked_up cfg s"
  from assms(2) obtain arn where arn: "cfg ''role_arn'' = Some arn"
    by (auto simp: role_required_iff)
  obtain r s' where impl: "get_session_impl w s = (r, s')"
    by (cases "get_session_impl w s")
  then have s': "snd (get_session w s) = s'"
    by (simp add: get_session_snd)
  from impl assms(1,2) have "assume_role_path w ?s1 = (r, s')"
    by (simp add: get_session_impl_role)
  then have run: "bind (validate_long w ?now ?s1) (\<lambda>token_changed s1.
       bind (validate_short w ?now s1) (\<lambda>_ s2.
       bind (refresh_long w s2) (\<lambda>_ s3.
       bind (refresh_short w token_changed s3) (\<lambda>token_changed s4.
       bind (build_session s4) (\<lambda>_ s5.
         if token_changed then write_cache_file s5 else (Return (), s5)))))) = (r, s')"
    by (simp add: assume_role_path_def Let_def)
  have "long_requests (new_events s s') = 1 \<and> truthy (long_session_token s') \<longrightarrow>
          role_assumptions (new_events s s') = 1"
    using run
  proof (cases rule: bind_cases)
    case (raised e)
    from validate_long_keeps(2)[OF raised(1)] have "new_events s s' = []"
      by (simp add: new_events_def)
    then show ?thesis by simp
  next
    case vl: (returned tc sa)
    from validate_long_shape[OF vl(1)]
    show ?thesis
    proof
      assume same: "sa = ?s1"
      from vl(2) show ?thesis
      proof (cases rule: bind_cases)
        case (raised e)
        from validate_short_keeps(2)[OF raised(1)] same have "new_events s s' = []"
          by (simp add: new_events_def)
        then show ?thesis by simp
      next
        case vs: (returned u sb)
        from validate_short_keeps[OF vs(1)] same assms(3)
        have lb: "truthy (long_session_token sb)" and tb: "trace sb = trace s"
          by simp_all
        from vs(2) lb have "bind (refresh_short w tc sb) (\<lambda>token_changed s4.
             bind (build_session s4) (\<lambda>_ s5.
               if token_changed then write_cache_file s5 else (Return (), s5))) = (r, s')"
          by (simp add: refresh_long_truthy)
        from tail_long_requests[OF this] tb have "long_requests (new_events s s') = 0"
          by (simp add: new_events_def)
        then show ?thesis by simp
      qed
    next
      assume cleared: "sa = ?s1\<lparr>long_session_token := PNone, short_session_token := PNone\<rparr>"
      have vs: "validate_short w ?now sa = (Return (), sa)"
        using cleared by (simp add: validate_short_def)
      from vl(2) vs have "bind (refresh_long w sa) (\<lambda>_ s3.
           bind (refresh_short w tc s3) (\<lambda>token_changed s4.
             bind (build_session s4) (\<lambda>_ s5.
               if token_changed then write_cache_file s5 else (Return (), s5)))) = (r, s')"
        by simp
      then show ?thesis
      proof (cases rule: bind_cases)
        case (raised e)
        from refresh_long_raised_keeps[OF raised(1)] cleared
        have "\<not> truthy (long_session_token s')" by simp
        then show ?thesis by simp
      next
        case rl: (returned u sc)
        from rl(1) have rl': "refresh_long w sa = (Return (), sc)" by simp
        have absent: "\<not> truthy (long_session_token sa)" using cleared by simp
        note kc = refresh_long_keeps[OF rl(1)]
        from refresh_long_credentials[OF rl' absent]
        have hc: "has_credentials (long_session_token sc)" .
        have nc: "\<not> truthy (short_session_token sc)" and ac: "config sc ''role_arn'' = Some arn"
          using kc cleared arn by (simp_all add: settings_kept_def)
        from refresh_long_events[OF rl(1)] obtain e3 where e3: "trace sc = trace sa @ e3"
          by blast
        from rl(2) obtain ea eb b sd where rs: "refresh_short w tc sc = (b, sd)"
          and ta: "trace sd = trace sc @ ea" and tb: "trace s' = trace sd @ eb"
          and "mfa_prompts ea = 0" "long_requests ea = 0"
          and "mfa_prompts eb = 0" "long_requests eb = 0" and cb: "role_assumptions eb = 0"
          and "long_session_token s' = long_session_token sc"
          and "short_session_token s' = short_session_token sd"
          and "r = Return () \<longrightarrow> (\<exists>c. b = Return c)"
          by (rule tail_events)
        from refresh_short_called[OF rs nc hc ac] obtain q
          where "trace sd = trace sc @ [AssumeRole q]" by blast
        with ta have ea: "ea = [AssumeRole q]" by simp
        from refresh_long_events[OF rl(1)] obtain e3 where e3: "trace sc = trace sa @ e3"
          "role_assumptions e3 = 0"
          by blast
        from validate_long_keeps(2)[OF vl(1)] e3 ta tb
        have "trace s' = trace s @ (e3 @ ea @ eb)" by simp
        then have "new_events s s' = e3 @ ea @ eb" by (rule new_events_append)
        with e3 ea cb show ?thesis by simp
      qed
    qed
  qed
  then show ?thesis unfolding s' .
qed

theorem present_long_token_reissued_with_short_witness:
  "truthy (demo_long ''2029-12-31T23:59:59+00:00'' ''base'') \<and>
   long_requests (new_events
     (demo_state False (demo_long ''2029-12-31T23:59:59+00:00'' ''base'')
        (demo_short ''2030-01-01T00:20:00+00:00'' ''dev''))
     (snd (get_session demo_world
        (demo_state False (demo_long ''2029-12-31T23:59:59+00:00'' ''base'')
           (demo_short ''2030-01-01T00:20:00+00:00'' ''dev''))))) = 1 \<and>
   role_assumptions (new_events
     (demo_state False (demo_long ''2029-12-31T23:59:59+00:00'' ''base'')
        (demo_short ''2030-01-01T00:20:00+00:00'' ''dev''))
     (snd (get_session demo_world
        (demo_state False (demo_long ''2029-12-31T23:59:59+00:00'' ''base'')
           (demo_short ''2030-01-01T00:20:00+00:00'' ''dev''))))) = 1"
proof -
  let ?s = "demo_state False (demo_long ''2029-12-31T23:59:59+00:00'' ''base'')
              (demo_short ''2030-01-01T00:20:00+00:00'' ''dev'')"
  have c: "scoped_config demo_world (profile ?s) = Inr dev_config"
    by (simp add: demo_world_def demo_state_def)
  have rr: "role_required dev_config"
    by (simp add: role_required_def dev_config_def)
  have tr: "truthy (demo_long ''2029-12-31T23:59:59+00:00'' ''base'')"
    by (simp add: demo_long_def)
  have tr': "truthy (long_session_token ?s)"
    using tr by (simp add: demo_state_def)
  have lr: "long_requests (new_events ?s (snd (get_session demo_world ?s))) = 1"
    by (simp add: run_defs demo_defs)
  have lt: "truthy (long_session_token (snd (get_session demo_world ?s)))"
    by (simp add: run_defs demo_defs)
  from present_long_token_reissued_with_short[OF c rr tr'] lr lt tr
  show ?thesis by simp
qed

section \<open>A switch of the target profile\<close>

text \<open>
  C6. The handler holds a long token that is usable (expiry after the clock plus ten
  seconds, \<open>source_profile\<close> as resolved) and carries the three credential fields,
  and a short token whose expiry parses and whose \<open>profile\<close> field differs from the
  profile selector. Then the validation of the long token changes nothing, the
  validation of the short token clears the short token only, and the whole call leaves
  the long token as it was, makes exactly one role-assumption call, no MFA prompt and
  no long-token request; when the call returns, the new short token carries the
  current profile.
\<close>

theorem profile_switch_renews_short_token_only:
  assumes "scoped_config w (profile s) = Inr cfg" and "role_required cfg"
    and "cfg ''source_profile'' = Some sp"
    and "long_usable w sp (long_session_token s)"
    and "has_credentials (long_session_token s)"
    and "parse_expire w (short_session_token s) = Inr t"
    and "getitem (short_session_token s) ''profile'' = Inr p"
    and "p \<noteq> to_py (profile s)"
  shows "validate_long w (clock w + 10000000) (looked_up cfg s) =
           (Return False, looked_up cfg s) \<and>
         validate_short w (clock w + 10000000) (looked_up cfg s) =
           (Return (), (looked_up cfg s)\<lparr>short_session_token := PNone\<rparr>) \<and>
         long_session_token (snd (get_session w s)) = long_session_token s \<and>
         role_assumptions (new_events s (snd (get_session w s))) = 1 \<and>
         mfa_prompts (new_events s (snd (get_session w s))) = 0 \<and>
         long_requests (new_events s (snd (get_session w s))) = 0 \<and>
         (returned (fst (get_session w s)) \<longrightarrow>
            getitem (short_session_token (snd (get_session w s))) ''profile'' =
              Inr (to_py (profile s)))"
proof -
  let ?now = "clock w + 10000000"
  let ?s1 = "looked_up cfg s"
  let ?s2 = "?s1\<lparr>short_session_token := PNone\<rparr>"
  from assms(2) obtain arn where arn: "cfg ''role_arn'' = Some arn"
    by (auto simp: role_required_iff)
  have vl: "validate_long w ?now ?s1 = (Return False, ?s1)"
    using assms(3,4) by (intro validate_long_usable[where sp = sp]) simp_all
  have vs: "validate_short w ?now ?s1 = (Return (), ?s2)"
    using assms(6,7,8) by (intro validate_short_mismatch[where t = t and p = p]) simp_all
  have rl: "refresh_long w ?s2 = (Return (), ?s2)"
    using usable_truthy_long[OF assms(4)] by (intro refresh_long_truthy) simp
  obtain r s' where impl: "get_session_impl w s = (r, s')"
    by (cases "get_session_impl w s")
  then have s': "snd (get_session w s) = s'"
    by (simp add: get_session_snd)
  from impl have ret: "returned (fst (get_session w s)) \<longleftrightarrow> r = Return ()"
    by (cases r) (simp_all add: get_session_fst)
  from impl assms(1,2) have "assume_role_path w ?s1 = (r, s')"
    by (simp add: get_session_impl_role)
  then have "bind (refresh_short w False ?s2) (\<lambda>token_changed s4.
             bind (build_session s4) (\<lambda>_ s5.
               if token_changed then write_cache_file s5 else (Return (), s5))) = (r, s')"
    by (simp add: assume_role_path_def Let_def vl vs rl)
  then obtain ea eb b sa where rs: "refresh_short w False ?s2 = (b, sa)"
    and ta: "trace sa = trace ?s2 @ ea" and tb: "trace s' = trace sa @ eb"
    and cb: "mfa_prompts eb = 0" "long_requests eb = 0" "role_assumptions eb = 0"
    and lg: "long_session_token s' = long_session_token ?s2"
    and sh: "short_session_token s' = short_session_token sa"
    and rb: "r = Return () \<longrightarrow> (\<exists>c. b = Return c)"
    by (rule tail_events)
  from rs obtain req where call: "trace sa = trace ?s2 @ [AssumeRole req]"
    using assms(5) arn by (elim refresh_short_called[where arn = arn]) simp_all
  from call tb have tr: "trace s' = trace s @ ([AssumeRole req] @ eb)"
    by simp
  have ne: "new_events s s' = [AssumeRole req] @ eb"
    using tr by (rule new_events_append)
  have fresh: "r = Return () \<longrightarrow>
                 getitem (short_session_token s') ''profile'' = Inr (to_py (profile s))"
  proof
    assume "r = Return ()"
    with rb obtain c where "b = Return c" by blast
    with rs have "refresh_short w False ?s2 = (Return c, sa)" by simp
    from refresh_short_profile[OF this] sh show
      "getitem (short_session_token s') ''profile'' = Inr (to_py (profile s))"
      by simp
  qed
  show ?thesis
    unfolding s' ne ret using vl vs lg cb fresh by simp
qed

theorem profile_switch_renews_short_token_only_witness:
  "long_usable demo_world ''base'' (demo_long ''2030-01-01T06:00:00+00:00'' ''base'') \<and>
   has_credentials (demo_long ''2030-01-01T06:00:00+00:00'' ''base'') \<and>
   PStr ''prod'' \<noteq> to_py (Some ''dev'') \<and>
   long_session_token (snd (get_session demo_world
     (demo_state False (demo_long ''2030-01-01T06:00:00+00:00'' ''base'')
        (demo_short ''2030-01-01T00:20:00+00:00'' ''prod'')))) =
     demo_long ''2030-01-01T06:00:00+00:00'' ''base'' \<and>
   role_assumptions (new_events
     (demo_state False (demo_long ''2030-01-01T06:00:00+00:00'' ''base'')
        (demo_short ''2030-01-01T00:20:00+00:00'' ''prod''))
     (snd (get_session demo_world
        (demo_state False (demo_long ''2030-01-01T06:00:00+00:00'' ''base'')
           (demo_short ''2030-01-01T00:20:00+00:00'' ''prod''))))) = 1 \<and>
   mfa_prompts (new_events
     (demo_state False (demo_long ''2030-01-01T06:00:00+00:00'' ''base'')
        (demo_short ''2030-01-01T00:20:00+00:00'' ''prod''))
     (snd (get_session demo_world
        (demo_state False (demo_long ''2030-01-01T06:00:00+00:00'' ''base'')
           (demo_short ''2030-01-01T00:20:00+00:00'' ''prod''))))) = 0"
proof -
  let ?s = "demo_state False (demo_long ''2030-01-01T06:00:00+00:00'' ''base'')
              (demo_short ''2030-01-01T00:20:00+00:00'' ''prod'')"
  have c: "scoped_config demo_world (profile ?s) = Inr dev_config"
    by (simp add: demo_world_def demo_state_def)
  have rr: "role_required dev_config"
    by (simp add: role_required_def dev_config_def)
  have sp: "dev_config ''source_profile'' = Some ''base''"
    by (simp add: dev_config_def)
  have l: "long_usable demo_world ''base'' (demo_long ''2030-01-01T06:00:00+00:00'' ''base'')"
    by (simp add: long_usable_def parse_expire_def demo_defs)
  have hc: "has_credentials (demo_long ''2030-01-01T06:00:00+00:00'' ''base'')"
    by (simp add: has_credentials_def demo_long_def)
  have l': "long_usable demo_world ''base'' (long_session_token ?s)"
    using l by (simp add: demo_state_def)
  have hc': "has_credentials (long_session_token ?s)"
    using hc by (simp add: demo_state_def)
  have pe: "parse_expire demo_world (short_session_token ?s) = Inr (demo_clock + 1200000000)"
    by (simp add: parse_expire_def demo_defs)
  have gp: "getitem (short_session_token ?s) ''profile'' = Inr (PStr ''prod'')"
    by (simp add: demo_defs)
  have ne: "PStr ''prod'' \<noteq> to_py (Some ''dev'')"
    by simp
  have ne': "PStr ''prod'' \<noteq> to_py (profile ?s)"
    by (simp add: demo_state_def)
  have lt: "long_session_token ?s = demo_long ''2030-01-01T06:00:00+00:00'' ''base''"
    by (simp add: demo_state_def)
  from profile_switch_renews_short_token_only[OF c rr sp l' hc' pe gp ne'] l hc ne lt
  show ?thesis by simp
qed

section \<open>A switch of the source profile\<close>

text \<open>
  C7. The handler holds a long token whose expiry parses, at whatever time, and whose
  \<open>source_profile\<close> field is not the \<open>source_profile\<close> of the resolved
  configuration. Then the validation of the long token clears both the long and the
  short token. So the call asks for MFA whenever an STS client for the source profile
  can be made, and a call that returns has prompted once, requested one long token
  and assumed the role once; its long token carries the resolved \<open>source_profile\<close>
  and its short token the profile selector.
\<close>

theorem source_profile_switch_clears_both_tokens:
  assumes "scoped_config w (profile s) = Inr cfg" and "role_required cfg"
    and "cfg ''source_profile'' = Some csp"
    and "parse_expire w (long_session_token s) = Inr t"
    and "getitem (long_session_token s) ''source_profile'' = Inr v"
    and "v \<noteq> PStr csp"
  shows "validate_long w (clock w + 10000000) (looked_up cfg s) =
           (Return (t \<le> clock w + 10000000),
            (looked_up cfg s)\<lparr>long_session_token := PNone, short_session_token := PNone\<rparr>) \<and>
         (sts_client w csp (region (looked_up cfg s)) = None \<longrightarrow>
            mfa_prompts (new_events s (snd (get_session w s))) = 1) \<and>
         (returned (fst (get_session w s)) \<longrightarrow>
            mfa_prompts (new_events s (snd (get_session w s))) = 1 \<and>
            long_requests (new_events s (snd (get_session w s))) = 1 \<and>
            role_assumptions (new_events s (snd (get_session w s))) = 1 \<and>
            getitem (long_session_token (snd (get_session w s))) ''source_profile'' =
              Inr (PStr csp) \<and>
            getitem (short_session_token (snd (get_session w s))) ''profile'' =
              Inr (to_py (profile s)))"
proof -
  let ?now = "clock w + 10000000"
  let ?s1 = "looked_up cfg s"
  let ?s2 = "?s1\<lparr>long_session_token := PNone, short_session_token := PNone\<rparr>"
  have vl: "validate_long w ?now ?s1 = (Return (t \<le> ?now), ?s2)"
    using assms(3,4,5,6)
    by (intro validate_long_mismatch[where v = v and csp = csp]) simp_all
  have vs: "validate_short w ?now ?s2 = (Return (), ?s2)"
    by (simp add: validate_short_def)
  obtain r s' where impl: "get_session_impl w s = (r, s')"
    by (cases "get_session_impl w s")
  then have s': "snd (get_session w s) = s'"
    by (simp add: get_session_snd)
  from impl have ret: "returned (fst (get_session w s)) \<longleftrightarrow> r = Return ()"
    by (cases r) (simp_all add: get_session_fst)
  from impl assms(1,2) have "assume_role_path w ?s1 = (r, s')"
    by (simp add: get_session_impl_role)
  then have run: "bind (refresh_long w ?s2) (\<lambda>_ s3.
           bind (refresh_short w (t \<le> ?now) s3) (\<lambda>token_changed s4.
             bind (build_session s4) (\<lambda>_ s5.
               if token_changed then write_cache_file s5 else (Return (), s5)))) = (r, s')"
    by (simp add: assume_role_path_def Let_def vl vs)
  have absent: "\<not> truthy (long_session_token ?s2)" and sp2: "config ?s2 ''source_profile'' = Some csp"
    using assms(3) by simp_all
  from run have
    "(sts_client w csp (region ?s1) = None \<longrightarrow> mfa_prompts (new_events s s') = 1) \<and>
     (r = Return () \<longrightarrow>
        mfa_prompts (new_events s s') = 1 \<and> long_requests (new_events s s') = 1 \<and>
        role_assumptions (new_events s s') = 1 \<and>
        getitem (long_session_token s') ''source_profile'' = Inr (PStr csp) \<and>
        getitem (short_session_token s') ''profile'' = Inr (to_py (profile s)))"
  proof (cases rule: bind_cases)
    case (raised e)
    have "sts_client w csp (region ?s1) = None \<longrightarrow> mfa_prompts (new_events s s') = 1"
    proof
      assume "sts_client w csp (region ?s1) = None"
      then have "sts_client w csp (region ?s2) = None" by simp
      from refresh_long_prompts[OF raised(1) absent sp2 this]
      obtain evs where "trace s' = trace ?s2 @ evs" "mfa_prompts evs = 1" by blast
      then show "mfa_prompts (new_events s s') = 1" by simp
    qed
    with raised(2) show ?thesis by simp
  next
    case rl: (returned u s3)
    from rl(1) have rl': "refresh_long w ?s2 = (Return (), s3)" by simp
    from refresh_long_issued[OF rl' absent sp2]
    obtain req where t3: "trace s3 = trace ?s2 @ [MfaPrompt, GetSessionToken req]"
      and l3: "getitem (long_session_token s3) ''source_profile'' = Inr (PStr csp)"
      by blast
    note k3 = refresh_long_keeps[OF rl(1)]
    from rl(2) obtain ea eb b sa where rs: "refresh_short w (t \<le> ?now) s3 = (b, sa)"
      and ta: "trace sa = trace s3 @ ea" and tb: "trace s' = trace sa @ eb"
      and ca: "mfa_prompts ea = 0" "long_requests ea = 0"
      and cb: "mfa_prompts eb = 0" "long_requests eb = 0" "role_assumptions eb = 0"
      and lg: "long_session_token s' = long_session_token s3"
      and sh: "short_session_token s' = short_session_token sa"
      and rb: "r = Return () \<longrightarrow> (\<exists>c. b = Return c)"
      by (rule tail_events)
    have tr: "trace s' = trace s @ ([MfaPrompt, GetSessionToken req] @ ea @ eb)"
      using t3 ta tb by simp
    have ne: "new_events s s' = [MfaPrompt, GetSessionToken req] @ ea @ eb"
      using tr by (rule new_events_append)
    have none3: "\<not> truthy (short_session_token s3)" and p3: "profile s3 = profile s"
      using k3 by (simp_all add: settings_kept_def)
    have "r = Return () \<longrightarrow>
            role_assumptions ea = 1 \<and>
            getitem (short_session_token s') ''profile'' = Inr (to_py (profile s))"
    proof
      assume "r = Return ()"
      with rb obtain c where "b = Return c" by blast
      with rs have rs': "refresh_short w (t \<le> ?now) s3 = (Return c, sa)" by simp
      from refresh_short_issued[OF rs' none3]
      obtain q where "trace sa = trace s3 @ [AssumeRole q]" by blast
      with ta have "ea = [AssumeRole q]" by simp
      moreover from refresh_short_profile[OF rs' none3] sh p3
      have "getitem (short_session_token s') ''profile'' = Inr (to_py (profile s))"
        by simp
      ultimately show "role_assumptions ea = 1 \<and>
            getitem (short_session_token s') ''profile'' = Inr (to_py (profile s))"
        by simp
    qed
    with ne ca cb lg l3 show ?thesis by simp
  qed
  then show ?thesis
    unfolding s' ret using vl by simp
qed

theorem source_profile_switch_clears_both_tokens_witness:
  "demo_clock + 10000000 < demo_clock + 43200000000 \<and>
   PStr ''legacy'' \<noteq> PStr ''base'' \<and>
   returned (fst (get_session demo_world
     (demo_state False (demo_long ''2030-01-01T12:00:00+00:00'' ''legacy'')
        (demo_short ''2030-01-01T00:20:00+00:00'' ''dev'')))) \<and>
   mfa_prompts (new_events
     (demo_state False (demo_long ''2030-01-01T12:00:00+00:00'' ''legacy'')
        (demo_short ''2030-01-01T00:20:00+00:00'' ''dev''))
     (snd (get_session demo_world
        (demo_state False (demo_long ''2030-01-01T12:00:00+00:00'' ''legacy'')
           (demo_short ''2030-01-01T00:20:00+00:00'' ''dev''))))) = 1 \<and>
   long_requests (new_events
     (demo_state False (demo_long ''2030-01-01T12:00:00+00:00'' ''legacy'')
        (demo_short ''2030-01-01T00:20:00+00:00'' ''dev''))
     (snd (get_session demo_world
        (demo_state False (demo_long ''2030-01-01T12:00:00+00:00'' ''legacy'')
           (demo_short ''2030-01-01T00:20:00+00:00'' ''dev''))))) = 1 \<and>
   role_assumptions (new_events
     (demo_state False (demo_long ''2030-01-01T12:00:00+00:00'' ''legacy'')
        (demo_short ''2030-01-01T00:20:00+00:00'' ''dev''))
     (snd (get_session demo_world
        (demo_state False (demo_long ''2030-01-01T12:00:00+00:00'' ''legacy'')
           (demo_short ''2030-01-01T00:20:00+00:00'' ''dev''))))) = 1"
proof -
  let ?s = "demo_state False (demo_long ''2030-01-01T12:00:00+00:00'' ''legacy'')
              (demo_short ''2030-01-01T00:20:00+00:00'' ''dev'')"
  have c: "scoped_config demo_world (profile ?s) = Inr dev_config"
    by (simp add: demo_world_def demo_state_def)
  have rr: "role_required dev_config"
    by (simp add: role_required_def dev_config_def)
  have sp: "dev_config ''source_profile'' = Some ''base''"
    by (simp add: dev_config_def)
  have pe: "parse_expire demo_world (long_session_token ?s) = Inr (demo_clock + 43200000000)"
    by (simp add: parse_expire_def demo_defs)
  have gs: "getitem (long_session_token ?s) ''source_profile'' = Inr (PStr ''legacy'')"
    by (simp add: demo_defs)
  have ne: "PStr ''legacy'' \<noteq> PStr ''base''"
    by simp
  have far: "demo_clock + 10000000 < demo_clock + 43200000000"
    by simp
  have ret: "returned (fst (get_session demo_world ?s))"
    by (simp add: run_defs demo_defs)
  from source_profile_switch_clears_both_tokens[OF c rr sp pe gs ne] ret far ne
  show ?thesis by simp
qed

section \<open>Asking for a session without profile and region\<close>

text \<open>
  C9 says that a request for a session fails when neither a profile nor a region is
  set. \<open>client\<close> and \<open>resource\<close> test this and raise (lines 92 and 106);
  \<open>get_session\<close> has no such test. On the concrete setting, with both selectors
  \<open>None\<close> and a store whose default profile has no region, \<open>client\<close> and
  \<open>resource\<close> raise and \<open>get_session\<close> returns the session of the default
  credential chain.
\<close>

theorem get_session_without_selectors_returns:
  "truthy_str (profile ((demo_state False PNone PNone)\<lparr>profile := None, region := None\<rparr>)) = False \<and>
   truthy_str (region ((demo_state False PNone PNone)\<lparr>profile := None, region := None\<rparr>)) = False \<and>
   fst (client demo_world ((demo_state False PNone PNone)\<lparr>profile := None, region := None\<rparr>)) =
     Raise (Exception ''ERROR: missing region and profile (use self.set(profile_name=None, region=None)'') \<and>
   fst (resource demo_world ((demo_state False PNone PNone)\<lparr>profile := None, region := None\<rparr>)) =
     Raise (Exception ''ERROR: missing region and profile (use self.set(profile_name=None, region=None)'') \<and>
   fst (get_session demo_world ((demo_state False PNone PNone)\<lparr>profile := None, region := None\<rparr>)) =
     Return (Some (DefaultChainSession None)) \<and>
   region (snd (get_session demo_world
     ((demo_state False PNone PNone)\<lparr>profile := None, region := None\<rparr>))) = None"
  by (simp add: client_def resource_def run_defs demo_defs)

text \<open>
  The two wrappers do refuse: in every state where neither the profile nor the region
  is truthy, \<open>client\<close> and \<open>resource\<close> raise before anything else happens and
  leave the handler as it was.
\<close>

theorem client_and_resource_need_a_selector:
  assumes "\<not> truthy_str (profile s)" and "\<not> truthy_str (region s)"
  shows "client w s =
           (Raise (Exception ''ERROR: missing region and profile (use self.set(profile_name=None, region=None)''), s) \<and>
         resource w s =
           (Raise (Exception ''ERROR: missing region and profile (use self.set(profile_name=None, region=None)''), s)"
  using assms by (simp add: client_def resource_def)

theorem client_and_resource_need_a_selector_witness:
  "fst (client demo_world ((demo_state False PNone PNone)\<lparr>profile := Some [], region := None\<rparr>)) =
     Raise (Exception ''ERROR: missing region and profile (use self.set(profile_name=None, region=None)'')"
proof -
  let ?s = "(demo_state False PNone PNone)\<lparr>profile := Some [], region := None\<rparr>"
  have p: "\<not> truthy_str (profile ?s)" and r: "\<not> truthy_str (region ?s)"
    by simp_all
  from client_and_resource_need_a_selector[OF p r, of demo_world] show ?thesis
    by simp
qed

section \<open>Constructing a handler over a cache file\<close>

text \<open>
  C3, as stated, fails on the code: \<open>__init__\<close> has no handler around \<open>open\<close>
  and \<open>json.load\<close>. A cache file whose text is not JSON makes the construction raise
  the decoder's error, with the default path and with an explicit one; a file that
  holds the JSON value \<open>null\<close> raises TypeError at the test
  \<open>'long_session_token' in cache_tokens\<close>; a file that is writable but not readable
  raises at \<open>open\<close>.
\<close>

theorem init_recovers_from_bad_cache_counterexample:
  "fst (init demo_world
          (demo_fs (Some \<lparr>readable = True, writable = True, content = Garbage\<rparr>))
          ''/home/u/.aws/app/cache'' (Some ''dev'') None None False None None) =
     Raise JSONDecodeError \<and>
   fst (init demo_world
          (demo_fs (Some \<lparr>readable = True, writable = True, content = Garbage\<rparr>))
          ''/home/u/.aws/app/cache'' (Some ''dev'') None (Some demo_path) False None None) =
     Raise JSONDecodeError \<and>
   fst (init demo_world
          (demo_fs (Some \<lparr>readable = True, writable = True, content = Doc PNone\<rparr>))
          ''/home/u/.aws/app/cache'' (Some ''dev'') None None False None None) =
     Raise TypeError \<and>
   fst (init demo_world
          (demo_fs (Some \<lparr>readable = False, writable = True, content = Doc (PDict [])\<rparr>))
          ''/home/u/.aws/app/cache'' (Some ''dev'') None None False None None) =
     Raise OSError"
  by (simp add: init_defs demo_defs)

text \<open>
  C3, amended. The disk cache is enabled, the lookup succeeds and the cache location is
  usable (an explicit path whose directory exists and is writable, or the default
  directory that \<open>makedirs\<close> accepts). Then the construction returns, with both
  tokens absent, when the cache file is missing. Over a writable and readable file it
  returns when the file holds a JSON object (each token is the value of its field, and
  a token whose field is missing is absent) and when it holds a JSON array or string in
  which neither field name occurs as an element or as a substring (both tokens
  absent). It raises, and the error reaches the caller: TypeError when the array or
  string does contain a field name, TypeError when the file holds \<open>null\<close>, a boolean
  or a number, the decoder's error when the text is not JSON, and the error of
  \<open>open\<close> when the file is writable but not readable.
\<close>

theorem init_loads_the_fields_present:
  assumes "scoped_config w prof = Inr cfg"
    and "cf = Some p \<and> p \<noteq> [] \<and> path_exists fs (dirname p) \<and> access_w fs (dirname p) \<and>
           fs' = fs \<or>
         \<not> truthy_str cf \<and> makedirs fs dcd = Inr fs' \<and> p = path_join dcd cache_filename"
  shows "(files fs' p = None \<and> \<not> dir_exists fs' p \<longrightarrow>
            (\<exists>s. init w fs dcd prof reg cf False ld sd = (Return (), s) \<and>
               long_session_token s = PNone \<and> short_session_token s = PNone)) \<and>
         (\<forall>f kvs. files fs' p = Some f \<and> writable f \<and> readable f \<and>
              content f = Doc (PDict kvs) \<longrightarrow>
            (\<exists>s. init w fs dcd prof reg cf False ld sd = (Return (), s) \<and>
               long_session_token s = token_or_none kvs ''long_session_token'' \<and>
               short_session_token s = token_or_none kvs ''short_session_token'')) \<and>
         (\<forall>f xs. files fs' p = Some f \<and> writable f \<and> readable f \<and>
              content f = Doc (PList xs) \<longrightarrow>
            (if PStr ''long_session_token'' \<in> set xs \<or> PStr ''short_session_token'' \<in> set xs
             then fst (init w fs dcd prof reg cf False ld sd) = Raise TypeError
             else (\<exists>s. init w fs dcd prof reg cf False ld sd = (Return (), s) \<and>
                     long_session_token s = PNone \<and> short_session_token s = PNone))) \<and>
         (\<forall>f x. files fs' p = Some f \<and> writable f \<and> readable f \<and>
              content f = Doc (PStr x) \<longrightarrow>
            (if is_infix ''long_session_token'' x \<or> is_infix ''short_session_token'' x
             then fst (init w fs dcd prof reg cf False ld sd) = Raise TypeError
             else (\<exists>s. init w fs dcd prof reg cf False ld sd = (Return (), s) \<and>
                     long_session_token s = PNone \<and> short_session_token s = PNone))) \<and>
         (\<forall>f v. files fs' p = Some f \<and> writable f \<and> readable f \<and> content f = Doc v \<and>
              (v = PNone \<or> (\<exists>b. v = PBool b) \<or> (\<exists>n. v = PInt n)) \<longrightarrow>
            fst (init w fs dcd prof reg cf False ld sd) = Raise TypeError) \<and>
         (\<forall>f. files fs' p = Some f \<and> writable f \<and> readable f \<and> content f = Garbage \<longrightarrow>
            fst (init w fs dcd prof reg cf False ld sd) = Raise JSONDecodeError) \<and>
         (\<forall>f. files fs' p = Some f \<and> writable f \<and> \<not> readable f \<longrightarrow>
            fst (init w fs dcd prof reg cf False ld sd) = Raise OSError)"
proof -
  let ?s = "(looked_up cfg (fresh_handler prof reg False ld sd fs))
              \<lparr>fsys := fs', cache_file := Some p\<rparr>"
  let ?I = "init w fs dcd prof reg cf False ld sd"
  have none: "long_session_token ?s = PNone" "short_session_token ?s = PNone"
    by (simp_all add: fresh_handler_def)
  have cfile: "cache_file ?s = Some p" and fsys: "fsys ?s = fs'"
    by simp_all
  have there: "?I = preload_cache ?s" if "files fs' p = Some f" and "writable f" for f
    using that by (intro init_preload[OF assms]) (simp add: access_w_def)
  have 1: "files fs' p = None \<and> \<not> dir_exists fs' p \<longrightarrow>
            (\<exists>s. ?I = (Return (), s) \<and>
               long_session_token s = PNone \<and> short_session_token s = PNone)"
  proof
    assume m: "files fs' p = None \<and> \<not> dir_exists fs' p"
    then have "?I = preload_cache ?s"
      by (intro init_preload[OF assms]) (simp add: path_exists_def)
    moreover from m have "preload_cache ?s = (Return (), ?s)"
      by (intro preload_cache_missing[where p = p]) simp_all
    ultimately show "\<exists>s. ?I = (Return (), s) \<and>
               long_session_token s = PNone \<and> short_session_token s = PNone"
      using none by simp
  qed
  have 2: "\<forall>f kvs. files fs' p = Some f \<and> writable f \<and> readable f \<and>
              content f = Doc (PDict kvs) \<longrightarrow>
            (\<exists>s. ?I = (Return (), s) \<and>
               long_session_token s = token_or_none kvs ''long_session_token'' \<and>
               short_session_token s = token_or_none kvs ''short_session_token'')"
  proof (intro allI impI)
    fix f kvs
    assume h: "files fs' p = Some f \<and> writable f \<and> readable f \<and> content f = Doc (PDict kvs)"
    then have "files fs' p = Some f" "readable f" "writable f" "content f = Doc (PDict kvs)"
      by simp_all
    from init_loads[OF assms this, of reg ld sd]
    show "\<exists>s. ?I = (Return (), s) \<and>
               long_session_token s = token_or_none kvs ''long_session_token'' \<and>
               short_session_token s = token_or_none kvs ''short_session_token''"
      by blast
  qed
  have 3: "\<forall>f xs. files fs' p = Some f \<and> writable f \<and> readable f \<and>
              content f = Doc (PList xs) \<longrightarrow>
            (if PStr ''long_session_token'' \<in> set xs \<or> PStr ''short_session_token'' \<in> set xs
             then fst ?I = Raise TypeError
             else (\<exists>s. ?I = (Return (), s) \<and>
                     long_session_token s = PNone \<and> short_session_token s = PNone))"
  proof (intro allI impI)
    fix f xs
    assume h: "files fs' p = Some f \<and> writable f \<and> readable f \<and> content f = Doc (PList xs)"
    then have "?I = preload_cache ?s" by (intro there[of f]) simp_all
    moreover from h have "preload_cache ?s =
        (if PStr ''long_session_token'' \<in> set xs \<or> PStr ''short_session_token'' \<in> set xs
         then (Raise TypeError, ?s) else (Return (), ?s))"
      by (intro preload_cache_list[where p = p and f = f]) simp_all
    ultimately show "if PStr ''long_session_token'' \<in> set xs \<or>
                        PStr ''short_session_token'' \<in> set xs
             then fst ?I = Raise TypeError
             else (\<exists>s. ?I = (Return (), s) \<and>
                     long_session_token s = PNone \<and> short_session_token s = PNone)"
      using none by simp
  qed
  have 4: "\<forall>f x. files fs' p = Some f \<and> writable f \<and> readable f \<and>
              content f = Doc (PStr x) \<longrightarrow>
            (if is_infix ''long_session_token'' x \<or> is_infix ''short_session_token'' x
             then fst ?I = Raise TypeError
             else (\<exists>s. ?I = (Return (), s) \<and>
                     long_session_token s = PNone \<and> short_session_token s = PNone))"
  proof (intro allI impI)
    fix f x
    assume h: "files fs' p = Some f \<and> writable f \<and> readable f \<and> content f = Doc (PStr x)"
    then have "?I = preload_cache ?s" by (intro there[of f]) simp_all
    moreover from h have "preload_cache ?s =
        (if is_infix ''long_session_token'' x \<or> is_infix ''short_session_token'' x
         then (Raise TypeError, ?s) else (Return (), ?s))"
      by (intro preload_cache_str[where p = p and f = f]) simp_all
    ultimately show "if is_infix ''long_session_token'' x \<or>
                        is_infix ''short_session_token'' x
             then fst ?I = Raise TypeError
             else (\<exists>s. ?I = (Return (), s) \<and>
                     long_session_token s = PNone \<and> short_session_token s = PNone)"
      using none by simp
  qed
  have 5: "\<forall>f v. files fs' p = Some f \<and> writable f \<and> readable f \<and> content f = Doc v \<and>
              (v = PNone \<or> (\<exists>b. v = PBool b) \<or> (\<exists>n. v = PInt n)) \<longrightarrow>
            fst ?I = Raise TypeError"
  proof (intro allI impI)
    fix f v
    assume h: "files fs' p = Some f \<and> writable f \<and> readable f \<and> content f = Doc v \<and>
              (v = PNone \<or> (\<exists>b. v = PBool b) \<or> (\<exists>n. v = PInt n))"
    then have "?I = preload_cache ?s" by (intro there[of f]) simp_all
    moreover from h have "preload_cache ?s = (Raise TypeError, ?s)"
      by (intro preload_cache_scalar[where p = p and f = f and v = v]) simp_all
    ultimately show "fst ?I = Raise TypeError" by simp
  qed
  have 6: "\<forall>f. files fs' p = Some f \<and> writable f \<and> readable f \<and> content f = Garbage \<longrightarrow>
            fst ?I = Raise JSONDecodeError"
  proof (intro allI impI)
    fix f
    assume h: "files fs' p = Some f \<and> writable f \<and> readable f \<and> content f = Garbage"
    then have "?I = preload_cache ?s" by (intro there[of f]) simp_all
    moreover from h have "preload_cache ?s = (Raise JSONDecodeError, ?s)"
      by (intro preload_cache_garbage[where p = p and f = f]) simp_all
    ultimately show "fst ?I = Raise JSONDecodeError" by simp
  qed
  have 7: "\<forall>f. files fs' p = Some f \<and> writable f \<and> \<not> readable f \<longrightarrow>
            fst ?I = Raise OSError"
  proof (intro allI impI)
    fix f
    assume h: "files fs' p = Some f \<and> writable f \<and> \<not> readable f"
    then have "?I = preload_cache ?s" by (intro there[of f]) simp_all
    moreover from h have "preload_cache ?s = (Raise OSError, ?s)"
      by (intro preload_cache_unreadable[where p = p and f = f]) simp_all
    ultimately show "fst ?I = Raise OSError" by simp
  qed
  from 1 2 3 4 5 6 7 show ?thesis by (intro conjI)
qed

theorem init_loads_the_fields_present_witness:
  "(\<exists>s. init demo_world
          (demo_fs (Some \<lparr>readable = True, writable = True, content = Doc (PDict
             [(''short_session_token'', demo_short ''2030-01-01T00:20:00+00:00'' ''dev'')])\<rparr>))
          ''/home/u/.aws/app/cache'' (Some ''dev'') None (Some demo_path) False None None =
            (Return (), s) \<and>
        long_session_token s = PNone \<and>
        short_session_token s = demo_short ''2030-01-01T00:20:00+00:00'' ''dev'') \<and>
   (\<exists>s. init demo_world (demo_fs None)
          ''/home/u/.aws/app/cache'' (Some ''dev'') None None False None None = (Return (), s) \<and>
        long_session_token s = PNone \<and> short_session_token s = PNone) \<and>
   (\<exists>s. init demo_world
          (demo_fs (Some \<lparr>readable = True, writable = True, content = Doc (PStr ''hello'')\<rparr>))
          ''/home/u/.aws/app/cache'' (Some ''dev'') None (Some demo_path) False None None =
            (Return (), s) \<and>
        long_session_token s = PNone \<and> short_session_token s = PNone) \<and>
   fst (init demo_world
          (demo_fs (Some \<lparr>readable = True, writable = True,
             content = Doc (PList [PInt 1, PStr ''long_session_token''])\<rparr>))
          ''/home/u/.aws/app/cache'' (Some ''dev'') None (Some demo_path) False None None) =
     Raise TypeError \<and>
   fst (init demo_world
          (demo_fs (Some \<lparr>readable = True, writable = True, content = Garbage\<rparr>))
          ''/home/u/.aws/app/cache'' (Some ''dev'') None (Some demo_path) False None None) =
     Raise JSONDecodeError"
proof -
  let ?d = "''/home/u/.aws/app/cache''"
  let ?kvs = "[(''short_session_token'', demo_short ''2030-01-01T00:20:00+00:00'' ''dev'')]"
  let ?fd = "\<lparr>readable = True, writable = True, content = Doc (PDict ?kvs)\<rparr>"
  let ?fh = "\<lparr>readable = True, writable = True, content = Doc (PStr ''hello'')\<rparr>"
  let ?fl = "\<lparr>readable = True, writable = True,
              content = Doc (PList [PInt 1, PStr ''long_session_token''])\<rparr>"
  let ?fg = "\<lparr>readable = True, writable = True, content = Garbage\<rparr>"
  have c: "scoped_config demo_world (Some ''dev'') = Inr dev_config"
    by (simp add: demo_world_def)
  have loc: "Some demo_path = Some demo_path \<and> demo_path \<noteq> [] \<and>
             path_exists (demo_fs f) (dirname demo_path) \<and>
             access_w (demo_fs f) (dirname demo_path) \<and>
             demo_fs f = demo_fs f \<or>
           \<not> truthy_str (Some demo_path) \<and>
             makedirs (demo_fs f) ?d = Inr (demo_fs f) \<and>
             demo_path = path_join ?d cache_filename" for f
    by (simp add: path_exists_def access_w_def dirname_def demo_fs_def demo_path_def)
  have dflt: "None = Some demo_path \<and> demo_path \<noteq> [] \<and>
             path_exists (demo_fs None) (dirname demo_path) \<and>
             access_w (demo_fs None) (dirname demo_path) \<and>
             demo_fs None = demo_fs None \<or>
           \<not> truthy_str None \<and>
             makedirs (demo_fs None) ?d = Inr (demo_fs None) \<and>
             demo_path = path_join ?d cache_filename"
    by (simp add: makedirs_def path_join_def cache_filename_def demo_fs_def demo_path_def)
  have hd: "files (demo_fs (Some ?fd)) demo_path = Some ?fd \<and> writable ?fd \<and> readable ?fd \<and>
            content ?fd = Doc (PDict ?kvs)"
    by (simp add: demo_fs_def)
  have hh: "files (demo_fs (Some ?fh)) demo_path = Some ?fh \<and> writable ?fh \<and> readable ?fh \<and>
            content ?fh = Doc (PStr ''hello'')"
    by (simp add: demo_fs_def)
  have hl: "files (demo_fs (Some ?fl)) demo_path = Some ?fl \<and> writable ?fl \<and> readable ?fl \<and>
            content ?fl = Doc (PList [PInt 1, PStr ''long_session_token''])"
    by (simp add: demo_fs_def)
  have hg: "files (demo_fs (Some ?fg)) demo_path = Some ?fg \<and> writable ?fg \<and> readable ?fg \<and>
            content ?fg = Garbage"
    by (simp add: demo_fs_def)
  have hm: "files (demo_fs None) demo_path = None \<and> \<not> dir_exists (demo_fs None) demo_path"
    by (simp add: demo_fs_def demo_path_def)
  note D = init_loads_the_fields_present[OF c loc[of "Some ?fd"],
      where reg = None and ld = None and sd = None]
  note H = init_loads_the_fields_present[OF c loc[of "Some ?fh"],
      where reg = None and ld = None and sd = None]
  note L = init_loads_the_fields_present[OF c loc[of "Some ?fl"],
      where reg = None and ld = None and sd = None]
  note G = init_loads_the_fields_present[OF c loc[of "Some ?fg"],
      where reg = None and ld = None and sd = None]
  note M = init_loads_the_fields_present[OF c dflt,
      where reg = None and ld = None and sd = None]
  from D[THEN conjunct2, THEN conjunct1, rule_format, OF hd]
  have 1: "\<exists>s. init demo_world (demo_fs (Some ?fd)) ?d (Some ''dev'') None (Some demo_path)
                 False None None = (Return (), s) \<and>
             long_session_token s = PNone \<and>
             short_session_token s = demo_short ''2030-01-01T00:20:00+00:00'' ''dev''"
    by (simp add: token_or_none_def)
  from M[THEN conjunct1, THEN mp, OF hm]
  have 2: "\<exists>s. init demo_world (demo_fs None) ?d (Some ''dev'') None None False None None =
                 (Return (), s) \<and>
             long_session_token s = PNone \<and> short_session_token s = PNone" .
  from H[THEN conjunct2, THEN conjunct2, THEN conjunct2, THEN conjunct1, rule_format, OF hh]
  have 3: "\<exists>s. init demo_world (demo_fs (Some ?fh)) ?d (Some ''dev'') None (Some demo_path)
                 False None None = (Return (), s) \<and>
             long_session_token s = PNone \<and> short_session_token s = PNone"
    by simp
  from L[THEN conjunct2, THEN conjunct2, THEN conjunct1, rule_format, OF hl]
  have 4: "fst (init demo_world (demo_fs (Some ?fl)) ?d (Some ''dev'') None (Some demo_path)
                 False None None) = Raise TypeError"
    by simp
  from G[THEN conjunct2, THEN conjunct2, THEN conjunct2, THEN conjunct2, THEN conjunct2,
      THEN conjunct1, rule_format, OF hg]
  have 5: "fst (init demo_world (demo_fs (Some ?fg)) ?d (Some ''dev'') None (Some demo_path)
                 False None None) = Raise JSONDecodeError" .
  from 1 2 3 4 5 show ?thesis by (intro conjI)
qed

section \<open>Writing the cache file and loading it again\<close>

text \<open>
  C8. A handler with the disk cache enabled writes its cache file and the write
  returns. A handler constructed afterwards over the same file system and the same
  cache path (given explicitly, or the default one), for a profile the store knows,
  with the file readable if it existed before, is constructed without error and holds
  exactly the long and the short token the first handler had in memory when it wrote.
  (The JSON text in between is modelled by the value it decodes to.)
\<close>

theorem written_tokens_are_reloaded:
  assumes "\<not> disk_cache_disable s" and "cache_file s = Some p"
    and "write_cache_file s = (Return (), s')"
    and "\<forall>f. files (fsys s) p = Some f \<longrightarrow> readable f"
    and "scoped_config w prof = Inr cfg"
    and "cf = Some p \<and> p \<noteq> [] \<and> path_exists (fsys s') (dirname p) \<and>
           access_w (fsys s') (dirname p) \<and> fs' = fsys s' \<or>
         \<not> truthy_str cf \<and> makedirs (fsys s') dcd = Inr fs' \<and>
           p = path_join dcd cache_filename"
  shows "\<exists>h. init w (fsys s') dcd prof reg cf False ld sd = (Return (), h) \<and>
           long_session_token h = long_session_token s \<and>
           short_session_token h = short_session_token s"
proof -
  from write_cache_file_stored[OF assms(3,1,2,4)]
  obtain f where f: "files (fsys s') p = Some f" "readable f"
    "writable f" "content f = Doc (cache_tokens_of s)"
    by blast
  from assms(6) have same: "files fs' = files (fsys s')"
    by (auto dest: makedirs_files)
  have doc: "content f = Doc (PDict [(''long_session_token'', long_session_token s),
                                     (''short_session_token'', short_session_token s)])"
    using f(4) by (simp add: cache_tokens_of_def)
  from f(1) same have there: "files fs' p = Some f" by simp
  from init_loads[OF assms(5,6) there f(2,3) doc, of reg ld sd]
  show ?thesis by (auto simp: token_or_none_def)
qed

theorem written_tokens_are_reloaded_witness:
  "fst (write_cache_file
     (demo_state False (demo_long ''2030-01-01T06:00:00+00:00'' ''base'')
        (demo_short ''2030-01-01T00:20:00+00:00'' ''dev''))) = Return () \<and>
   (\<exists>h. init demo_world
          (fsys (snd (write_cache_file
             (demo_state False (demo_long ''2030-01-01T06:00:00+00:00'' ''base'')
                (demo_short ''2030-01-01T00:20:00+00:00'' ''dev'')))))
          ''/home/u/.aws/app/cache'' (Some ''dev'') None (Some demo_path) False None None =
            (Return (), h) \<and>
        long_session_token h = demo_long ''2030-01-01T06:00:00+00:00'' ''base'' \<and>
        short_session_token h = demo_short ''2030-01-01T00:20:00+00:00'' ''dev'')"
proof -
  let ?s = "demo_state False (demo_long ''2030-01-01T06:00:00+00:00'' ''base'')
              (demo_short ''2030-01-01T00:20:00+00:00'' ''dev'')"
  let ?s' = "snd (write_cache_file ?s)"
  let ?d = "''/home/u/.aws/app/cache''"
  have en: "\<not> disk_cache_disable ?s" and cf: "cache_file ?s = Some demo_path"
    by (simp_all add: demo_state_def)
  have ok: "fst (write_cache_file ?s) = Return ()"
    by (simp add: write_cache_file_def write_json_def parent_dir_def dirname_def Let_def
        demo_state_def demo_fs_def demo_path_def)
  then have wr: "write_cache_file ?s = (Return (), ?s')"
    by (simp add: prod_eq_iff)
  have rd: "\<forall>f. files (fsys ?s) demo_path = Some f \<longrightarrow> readable f"
    by (simp add: demo_state_def demo_fs_def)
  have c: "scoped_config demo_world (Some ''dev'') = Inr dev_config"
    by (simp add: demo_world_def)
  have loc: "Some demo_path = Some demo_path \<and> demo_path \<noteq> [] \<and>
             path_exists (fsys ?s') (dirname demo_path) \<and>
             access_w (fsys ?s') (dirname demo_path) \<and> fsys ?s' = fsys ?s' \<or>
           \<not> truthy_str (Some demo_path) \<and> makedirs (fsys ?s') ?d = Inr (fsys ?s') \<and>
             demo_path = path_join ?d cache_filename"
    by (simp add: write_cache_file_def write_json_def parent_dir_def dirname_def Let_def
        path_exists_def access_w_def demo_state_def demo_fs_def demo_path_def)
  have l: "long_session_token ?s = demo_long ''2030-01-01T06:00:00+00:00'' ''base''"
    and sh: "short_session_token ?s = demo_short ''2030-01-01T00:20:00+00:00'' ''dev''"
    by (simp_all add: demo_state_def)
  from written_tokens_are_reloaded[OF en cf wr rd c loc, of None None None] ok l sh
  show ?thesis by simp
qed

end
